theory Spec2Isabelle
  imports Main
begin

unbundle bit_operations_syntax

section \<open>JavaScript values\<close>

text \<open>
  JavaScript numbers that the emulator keeps integral are modelled as \<open>int\<close>; the bitwise
  operators \<open>&\<close>, \<open>|\<close>, \<open>^\<close>, \<open><<\<close> and \<open>>>\<close> are \<open>AND\<close>, \<open>OR\<close>, \<open>XOR\<close>,
  \<open>push_bit\<close> and \<open>drop_bit\<close> (two's complement, arithmetic shift).  An array that can
  hold \<open>undefined\<close> is a list or function into \<open>option\<close>.  A thrown exception is a value
  of type \<open>error\<close>.
\<close>

datatype error = NotValidRom | TypeError

section \<open>ROM image (rom.js)\<close>

subsection \<open>Tiles\<close>

record tile =
  pix :: "int list"
  opaque :: "bool list"

text \<open>
  Modelled from the spec: the class \<open>Tile\<close> (tile.js) is not among the sources.  A tile is
  8 rows of 8 two-bit colour indices plus one opacity flag per row, true when all 8 pixels
  of the row are non-zero; pixel \<open>c\<close> of row \<open>r\<close> is bit \<open>7 - c\<close> of plane 0 combined with
  bit \<open>7 - c\<close> of plane 1 shifted left by one.  An \<open>undefined\<close> plane byte behaves as 0
  under the shift operators.
\<close>

definition new_Tile :: tile where
  "new_Tile = \<lparr>pix = replicate 64 0, opaque = replicate 8 False\<rparr>"

definition plane_byte :: "int option \<Rightarrow> int" where
  "plane_byte b = (case b of None \<Rightarrow> 0 | Some v \<Rightarrow> v)"

definition tile_pixel :: "int option \<Rightarrow> int option \<Rightarrow> nat \<Rightarrow> int" where
  "tile_pixel b1 b2 c =
     ((drop_bit (7 - c) (plane_byte b1)) AND 1) OR
     (push_bit 1 ((drop_bit (7 - c) (plane_byte b2)) AND 1))"

definition setScanline :: "nat \<Rightarrow> int option \<Rightarrow> int option \<Rightarrow> tile \<Rightarrow> tile" where
  "setScanline sline b1 b2 t =
     (let row = map (tile_pixel b1 b2) [0..<8]
      in \<lparr>pix = take (sline * 8) (pix t) @ row @ drop (sline * 8 + 8) (pix t),
          opaque = (opaque t)[sline := (\<forall>p \<in> set row. p \<noteq> 0)]\<rparr>)"

subsection \<open>The ROM object\<close>

text \<open>Fields that the constructor sets to \<open>null\<close> are options.\<close>

record ROM =
  header :: "int list option"
  rom :: "int option list list option"
  vrom :: "int option list list option"
  vromTile :: "tile list list option"
  romCount :: "int option"
  vromCount :: "int option"
  mirroring :: "int option"
  batteryRam :: "bool option"
  trainer :: "bool option"
  fourScreen :: "bool option"
  mapperType :: "int option"
  valid :: bool

definition new_ROM :: ROM where
  "new_ROM = \<lparr>header = None, rom = None, vrom = None, vromTile = None, romCount = None,
     vromCount = None, mirroring = None, batteryRam = None, trainer = None,
     fourScreen = None, mapperType = None, valid = False\<rparr>"

text \<open>The input is a JavaScript string: a list of character codes.\<close>

definition magic :: "int list" where
  "magic = [0x4E, 0x45, 0x53, 0x1A]"

text \<open>\<open>String.prototype.indexOf\<close>: the first position at which the pattern occurs, or -1.\<close>

fun indexOf_from :: "int list \<Rightarrow> int list \<Rightarrow> int \<Rightarrow> int" where
  "indexOf_from [] pat i = (if pat = [] then i else -1)"
| "indexOf_from (c # cs) pat i =
     (if take (length pat) (c # cs) = pat then i else indexOf_from cs pat (i + 1))"

definition indexOf :: "int list \<Rightarrow> int list \<Rightarrow> int" where
  "indexOf data pat = indexOf_from data pat 0"

text \<open>\<open>data.charCodeAt(i) & 0xff\<close>; past the end \<open>charCodeAt\<close> is NaN and the mask gives 0.\<close>

definition byteAt :: "int list \<Rightarrow> nat \<Rightarrow> int" where
  "byteAt data i = (if i < length data then (data ! i) AND 0xff else 0)"

text \<open>
  The inner copy loop of a bank: \<open>j\<close> is the loop counter, the fourth argument the number
  of iterations left; the loop breaks at the end of the input and leaves the rest of the
  bank \<open>undefined\<close>.
\<close>

fun fill_bank :: "int list \<Rightarrow> nat \<Rightarrow> nat \<Rightarrow> nat \<Rightarrow> int option list \<Rightarrow> int option list" where
  "fill_bank data offset j 0 bank = bank"
| "fill_bank data offset j (Suc n) bank =
     (if offset + j \<ge> length data then bank
      else fill_bank data offset (Suc j) n (bank[j := Some (byteAt data (offset + j))]))"

definition read_bank :: "int list \<Rightarrow> nat \<Rightarrow> nat \<Rightarrow> int option list" where
  "read_bank data offset len = fill_bank data offset 0 len (replicate len None)"

fun read_banks :: "int list \<Rightarrow> nat \<Rightarrow> nat \<Rightarrow> nat \<Rightarrow> int option list list" where
  "read_banks data offset 0 len = []"
| "read_banks data offset (Suc n) len =
     read_bank data offset len # read_banks data (offset + len) n len"

definition tile_step :: "int option list \<Rightarrow> nat \<Rightarrow> tile list \<Rightarrow> tile list" where
  "tile_step bank i ts =
     (let tileIndex = i div 16; leftOver = i mod 16
      in if leftOver < 8
         then ts[tileIndex := setScanline leftOver (bank ! i) (bank ! (i + 8)) (ts ! tileIndex)]
         else ts[tileIndex := setScanline (leftOver - 8) (bank ! (i - 8)) (bank ! i) (ts ! tileIndex)])"

definition build_tiles :: "int option list \<Rightarrow> tile list" where
  "build_tiles bank = fold (tile_step bank) [0..<4096] (replicate 256 new_Tile)"

definition header_dirty :: "int list \<Rightarrow> bool" where
  "header_dirty h = (\<exists>i \<in> {8..<16}. h ! i \<noteq> 0)"

definition load_fields :: "ROM \<Rightarrow> int list \<Rightarrow> ROM" where
  "load_fields r data =
     (let h = map (byteAt data) [0..<16];
          rc = h ! 4;
          vc = (h ! 5) * 2;
          mt = (drop_bit 4 (h ! 6)) OR ((h ! 7) AND 0xf0);
          mt' = (if header_dirty h then mt AND 0xf else mt);
          prg = read_banks data 16 (nat rc) 16384;
          chr = read_banks data (16 + nat rc * 16384) (nat vc) 4096
      in r\<lparr>header := Some h, rom := Some prg, vrom := Some chr,
           vromTile := Some (map build_tiles chr),
           romCount := Some rc, vromCount := Some vc,
           mirroring := Some (if (h ! 6) AND 1 \<noteq> 0 then 1 else 0),
           batteryRam := Some ((h ! 6) AND 2 \<noteq> 0),
           trainer := Some ((h ! 6) AND 4 \<noteq> 0),
           fourScreen := Some ((h ! 6) AND 8 \<noteq> 0),
           mapperType := Some mt',
           valid := True\<rparr>)"

text \<open>
  \<open>ROM.load\<close>: the exception, if one is thrown, and the object afterwards.  The only
  \<open>throw\<close> comes before any field is assigned.
\<close>

definition ROM_load :: "ROM \<Rightarrow> int list \<Rightarrow> error option \<times> ROM" where
  "ROM_load r data =
     (if indexOf data magic = -1 then (Some NotValidRom, r)
      else (None, load_fields r data))"

text \<open>The bytes that the header's bank counts ask for: 16 header bytes, 16384 per PRG
  bank and 4096 per CHR bank, the CHR count being twice the header's.\<close>

definition declared_size :: "int list \<Rightarrow> nat" where
  "declared_size data = 16 + nat (byteAt data 4) * 16384 + nat (byteAt data 5 * 2) * 4096"

section \<open>Machine state\<close>

subsection \<open>CPU (cpu.js)\<close>

text \<open>
  The fields that the CPU constructor declares.  \<open>mem\<close> is the \<open>Uint8Array(0x10000)\<close>;
  every index used below lies in its range.  There is no field for a running cycle count.
\<close>

record CPU =
  mem :: "int \<Rightarrow> int"
  REG_ACC :: int
  REG_X :: int
  REG_Y :: int
  REG_SP :: int
  REG_PC :: int
  REG_PC_NEW :: int
  REG_STATUS :: int
  F_CARRY :: int
  F_DECIMAL :: int
  F_INTERRUPT :: int
  F_INTERRUPT_NEW :: int
  F_OVERFLOW :: int
  F_SIGN :: int
  F_ZERO :: int
  F_NOTUSED :: int
  F_NOTUSED_NEW :: int
  F_BRK :: int
  F_BRK_NEW :: int
  cyclesToHalt :: int
  crash :: bool
  irqRequested :: bool
  irqType :: "int option"

abbreviation (input) IRQ_NORMAL :: int where "IRQ_NORMAL \<equiv> 0"
abbreviation (input) IRQ_NMI :: int where "IRQ_NMI \<equiv> 1"
abbreviation (input) IRQ_RESET :: int where "IRQ_RESET \<equiv> 2"

subsection \<open>PPU (ppu.js)\<close>

text \<open>
  A JavaScript array is a function from the index to the element, \<open>None\<close> where the array
  holds \<open>undefined\<close>: an entry never written, or an index outside the array.
\<close>

record NameTable =
  nt_tile :: "int \<Rightarrow> int option"
  nt_attrib :: "int \<Rightarrow> int option"

record PPU =
  firstWrite :: bool
  sramAddress :: int
  spriteMem :: "int \<Rightarrow> int"
  scanline :: int
  lastRenderedScanline :: int
  f_nmiOnVblank :: int
  f_spriteSize :: int
  f_bgPatternTable :: int
  f_spPatternTable :: int
  f_addrInc :: int
  f_nTblAddress :: int
  f_color :: int
  f_spVisibility :: int
  f_bgVisibility :: int
  f_spClipping :: int
  f_bgClipping :: int
  f_dispType :: int
  cntFV :: int
  cntV :: int
  cntH :: int
  cntVT :: int
  cntHT :: int
  regFV :: int
  regV :: int
  regH :: int
  regVT :: int
  regHT :: int
  regFH :: int
  regS :: int
  curNt :: "int option"
  ntable1 :: "int \<Rightarrow> int option"
  nameTable :: "int \<Rightarrow> NameTable option"
  validTileData :: bool
  scantile :: "int \<Rightarrow> tile option"
  attrib :: "int \<Rightarrow> int option"
  ptTile :: "int \<Rightarrow> tile option"
  imgPalette :: "int \<Rightarrow> int option"
  buffer :: "int \<Rightarrow> int option"
  bgbuffer :: "int \<Rightarrow> int option"
  pixrendered :: "int \<Rightarrow> int option"
  sprX :: "int \<Rightarrow> int option"
  sprY :: "int \<Rightarrow> int option"
  sprTile :: "int \<Rightarrow> int option"
  sprCol :: "int \<Rightarrow> int option"
  vertFlip :: "int \<Rightarrow> bool option"
  horiFlip :: "int \<Rightarrow> bool option"
  bgPriority :: "int \<Rightarrow> bool option"
  spr0HitX :: int
  spr0HitY :: int
  hitSpr0 :: bool

abbreviation (input) STATUS_VBLANK :: nat where "STATUS_VBLANK \<equiv> 7"

subsection \<open>Mapper registers (mappers.js)\<close>

record MMC1 =
  shiftReg :: int
  controlReg :: int
  chrBank0 :: int
  chrBank1 :: int
  prgBank :: int
  lastWriteCycle :: int

record MMC3 =
  command :: int
  prgAddressSelect :: int
  chrAddressSelect :: int
  pageNumber :: int
  irqCounter :: int
  irqLatchValue :: int
  irqEnable :: int
  irqReloadPending :: bool
  prgAddressChanged :: bool
  ppuA12Prev :: int
  lastA12Cycle :: int
  lastClockScanline :: int

text \<open>The latch registers of the class \<open>Mapper10\<close>; its CHR bank registers carry the prefix
  \<open>latch_\<close> here, \<open>chrBank0\<close> and \<open>chrBank1\<close> being taken.\<close>

record MMC2 =
  latchLo :: int
  latchHi :: int
  latch_chrBank0 :: int
  latch_chrBank1 :: int
  latch_chrBank2 :: int
  latch_chrBank3 :: int
  latch_prgBank :: int

subsection \<open>The console\<close>

text \<open>
  The objects reachable from \<open>nes\<close>.  \<open>stopped\<close> records a call of \<open>nes.stop()\<close>
  (nes.js is not among the sources).
\<close>

record nes =
  cpu :: CPU
  ppu :: PPU
  mmc1 :: MMC1
  mmc3 :: MMC3
  mmc2 :: MMC2
  nes_rom :: "ROM option"
  stopped :: bool

text \<open>
  The register handlers of the picture renderer, the audio unit and the controllers are
  not part of this development (tile.js, papu.js, controller.js and utils.js are not among
  the sources): they enter as parameters.
\<close>

record devices =
  renderFramePartially :: "int \<Rightarrow> int \<Rightarrow> nes \<Rightarrow> nes"
  endFrame :: "nes \<Rightarrow> nes"
  updatePalettes :: "nes \<Rightarrow> nes"
  scrollWrite :: "int \<Rightarrow> nes \<Rightarrow> nes"
  writeVRAMAddress :: "int \<Rightarrow> nes \<Rightarrow> nes"
  vramWrite :: "int \<Rightarrow> nes \<Rightarrow> nes"
  vramLoad :: "nes \<Rightarrow> int \<times> nes"
  io_read :: "int \<Rightarrow> nes \<Rightarrow> int \<times> nes"
  io_write :: "int \<Rightarrow> int \<Rightarrow> nes \<Rightarrow> nes"
  loadRomBank :: "int \<Rightarrow> int \<Rightarrow> nes \<Rightarrow> nes"
  load8kRomBank :: "int \<Rightarrow> int \<Rightarrow> nes \<Rightarrow> nes"
  loadVromBank :: "int \<Rightarrow> int \<Rightarrow> nes \<Rightarrow> nes"
  load1kVromBank :: "int \<Rightarrow> int \<Rightarrow> nes \<Rightarrow> nes"
  setMirroring :: "int \<Rightarrow> nes \<Rightarrow> nes"

text \<open>
  A mapper object as the CPU and the PPU see it: its methods and its capability flag.
  \<open>notifyA12\<close> is \<open>None\<close> when the object has no such method.
\<close>

record mapper =
  m_load :: "int \<Rightarrow> nes \<Rightarrow> int \<times> nes"
  m_write :: "int \<Rightarrow> int \<Rightarrow> nes \<Rightarrow> nes"
  hasLatch :: bool
  notifyA12 :: "(int \<Rightarrow> nes \<Rightarrow> nes) option"
  latchAccess :: "int \<Rightarrow> nes \<Rightarrow> nes"

text \<open>
  A store into the \<open>Uint8Array\<close> keeps the low eight bits; a store outside the array is
  ignored.
\<close>

definition mem_store :: "int \<Rightarrow> int \<Rightarrow> nes \<Rightarrow> nes" where
  "mem_store a v s =
     (if 0 \<le> a \<and> a < 0x10000
      then s\<lparr>cpu := (cpu s)\<lparr>mem := (mem (cpu s))(a := v mod 256)\<rparr>\<rparr>
      else s)"

text \<open>The remainder operator \<open>%\<close> truncates towards zero.\<close>

definition jsrem :: "int \<Rightarrow> int \<Rightarrow> int" where
  "jsrem a b = sgn a * (\<bar>a\<bar> mod \<bar>b\<bar>)"

section \<open>PPU registers and sprite memory (ppu.js)\<close>

definition requestIrq :: "int \<Rightarrow> nes \<Rightarrow> nes" where
  "requestIrq type s =
     (if irqRequested (cpu s) \<and> type = IRQ_NORMAL then s
      else s\<lparr>cpu := (cpu s)\<lparr>irqRequested := True, irqType := Some type\<rparr>\<rparr>)"

definition haltCycles :: "int \<Rightarrow> nes \<Rightarrow> nes" where
  "haltCycles cycles s = s\<lparr>cpu := (cpu s)\<lparr>cyclesToHalt := cyclesToHalt (cpu s) + cycles\<rparr>\<rparr>"

definition setStatusFlag :: "nat \<Rightarrow> bool \<Rightarrow> nes \<Rightarrow> nes" where
  "setStatusFlag flag value s =
     (let n = push_bit flag (1::int)
      in mem_store 0x2002 ((mem (cpu s) 0x2002 AND (255 - n)) OR (if value then n else 0)) s)"

definition readStatusRegister :: "nes \<Rightarrow> int \<times> nes" where
  "readStatusRegister s =
     (let tmp = mem (cpu s) 0x2002;
          s1 = s\<lparr>ppu := (ppu s)\<lparr>firstWrite := True\<rparr>\<rparr>
      in (tmp, setStatusFlag STATUS_VBLANK False s1))"

text \<open>\<open>t.pix[k] !== 0\<close>: an index outside the array gives \<open>undefined\<close>, which differs from 0.\<close>

definition pix_nonzero :: "tile \<Rightarrow> int \<Rightarrow> bool" where
  "pix_nonzero t k = (if 0 \<le> k \<and> k < int (length (pix t)) then pix t ! nat k \<noteq> 0 else True)"

text \<open>
  The two pixel loops of \<open>checkSprite0\<close>, which differ only in the order of \<open>i\<close>: the
  result is the hit position, if a hit is found.  \<open>pixrendered[bufferIndex] !== 0\<close> holds of
  an entry that is \<open>undefined\<close>.
\<close>

fun hit_loop :: "PPU \<Rightarrow> tile \<Rightarrow> int \<Rightarrow> int \<Rightarrow> int \<Rightarrow> int \<Rightarrow> int list \<Rightarrow> (int \<times> int) option" where
  "hit_loop p t toffset scan x bufferIndex [] = None"
| "hit_loop p t toffset scan x bufferIndex (i # is) =
     (if 0 \<le> x \<and> x < 256 \<and> 0 \<le> bufferIndex \<and> bufferIndex < 61440 \<and>
         pixrendered p bufferIndex \<noteq> Some 0 \<and> pix_nonzero t (toffset + i)
      then Some (jsrem bufferIndex 256, scan)
      else hit_loop p t toffset scan (x + 1) (bufferIndex + 1) is)"

definition hit_scan :: "PPU \<Rightarrow> tile \<Rightarrow> int \<Rightarrow> int \<Rightarrow> int \<Rightarrow> bool \<times> PPU" where
  "hit_scan p t toffset scan x =
     (case hit_loop p t toffset scan x (scan * 256 + x)
             (if horiFlip p 0 = Some True then [7, 6, 5, 4, 3, 2, 1, 0]
              else [0, 1, 2, 3, 4, 5, 6, 7]) of
        Some (hx, hy) \<Rightarrow> (True, p\<lparr>spr0HitX := hx, spr0HitY := hy\<rparr>)
      | None \<Rightarrow> (False, p))"

text \<open>
  \<open>checkSprite0\<close>.  With \<open>sprX[0]\<close> or \<open>sprY[0]\<close> still \<open>undefined\<close> every range test is
  false; with \<open>sprTile[0]\<close> \<open>undefined\<close> the tile index is NaN and no tile is found.
\<close>

definition checkSprite0 :: "int \<Rightarrow> PPU \<Rightarrow> bool \<times> PPU" where
  "checkSprite0 scan p0 =
     (let p = p0\<lparr>spr0HitX := -1, spr0HitY := -1\<rparr>;
          tIndexAdd = (if f_spPatternTable p = 0 then 0 else 256);
          vflip = (vertFlip p 0 = Some True)
      in case (sprX p 0, sprY p 0) of
           (Some x, Some y0) \<Rightarrow>
             (let y = y0 + 1
              in if f_spriteSize p = 0 then
                   (if y \<le> scan \<and> y + 8 > scan \<and> x \<ge> -7 \<and> x < 256 then
                      (case sprTile p 0 of
                         None \<Rightarrow> (False, p)
                       | Some st \<Rightarrow>
                           (case ptTile p (st + tIndexAdd) of
                              None \<Rightarrow> (False, p)
                            | Some t \<Rightarrow>
                                hit_scan p t ((if vflip then 7 - (scan - y) else scan - y) * 8)
                                  scan x))
                    else (False, p))
                 else
                   (if y \<le> scan \<and> y + 16 > scan \<and> x \<ge> -7 \<and> x < 256 then
                      (case sprTile p 0 of
                         None \<Rightarrow> (False, p)
                       | Some st \<Rightarrow>
                           (let toffset = (if vflip then 15 - (scan - y) else scan - y);
                                bank = (if st AND 1 \<noteq> 0 then 255 else 0);
                                ti = (if toffset < 8
                                      then st + (if vflip then 1 else 0) + bank
                                      else st + (if vflip then 0 else 1) + bank);
                                toffset' = (if toffset < 8 then toffset
                                            else if vflip then 15 - toffset else toffset - 8)
                            in case ptTile p ti of
                                 None \<Rightarrow> (False, p)
                               | Some t \<Rightarrow> hit_scan p t (toffset' * 8) scan x))
                    else (False, p)))
         | _ \<Rightarrow> (False, p))"

definition spriteRamWriteUpdate :: "int \<Rightarrow> int \<Rightarrow> PPU \<Rightarrow> PPU" where
  "spriteRamWriteUpdate address value p0 =
     (let tIndex = address div 4;
          p = (if tIndex = 0 then snd (checkSprite0 (scanline p0 - 20) p0) else p0)
      in if jsrem address 4 = 0 then p\<lparr>sprY := (sprY p)(tIndex := Some value)\<rparr>
         else if jsrem address 4 = 1 then p\<lparr>sprTile := (sprTile p)(tIndex := Some value)\<rparr>
         else if jsrem address 4 = 2 then
           p\<lparr>vertFlip := (vertFlip p)(tIndex := Some (value AND 0x80 \<noteq> 0)),
             horiFlip := (horiFlip p)(tIndex := Some (value AND 0x40 \<noteq> 0)),
             bgPriority := (bgPriority p)(tIndex := Some (value AND 0x20 \<noteq> 0)),
             sprCol := (sprCol p)(tIndex := Some (push_bit 2 (value AND 3)))\<rparr>
         else if jsrem address 4 = 3 then p\<lparr>sprX := (sprX p)(tIndex := Some value)\<rparr>
         else p)"

definition writeSRAMAddress :: "int \<Rightarrow> nes \<Rightarrow> nes" where
  "writeSRAMAddress address s = s\<lparr>ppu := (ppu s)\<lparr>sramAddress := address\<rparr>\<rparr>"

definition sramLoad :: "nes \<Rightarrow> int" where
  "sramLoad s = spriteMem (ppu s) (sramAddress (ppu s))"

definition sramWrite :: "int \<Rightarrow> nes \<Rightarrow> nes" where
  "sramWrite value s =
     (let p = ppu s;
          a = sramAddress p;
          p1 = spriteRamWriteUpdate a value (p\<lparr>spriteMem := (spriteMem p)(a := value)\<rparr>)
      in s\<lparr>ppu := p1\<lparr>sramAddress := jsrem (sramAddress p1 + 1) 0x100\<rparr>\<rparr>)"

text \<open>The copy loop of \<open>sramDMA\<close>, from the loop counter \<open>i\<close> on.\<close>

function sramDMA_loop :: "int \<Rightarrow> int \<Rightarrow> nes \<Rightarrow> nes" where
  "sramDMA_loop baseAddress i s =
     (if i < 256 then
        (let data = mem (cpu s) (baseAddress + i);
             p = ppu s;
             p1 = spriteRamWriteUpdate i data (p\<lparr>spriteMem := (spriteMem p)(i := data)\<rparr>)
         in sramDMA_loop baseAddress (i + 1) (s\<lparr>ppu := p1\<rparr>))
      else s)"
  by pat_completeness auto
termination
  by (relation "measure (\<lambda>(b, i, s). nat (256 - i))") auto

declare sramDMA_loop.simps [simp del]

definition sramDMA :: "int \<Rightarrow> nes \<Rightarrow> nes" where
  "sramDMA value s =
     haltCycles 513 (sramDMA_loop (value * 0x100) (sramAddress (ppu s)) s)"

definition triggerRendering :: "devices \<Rightarrow> nes \<Rightarrow> nes" where
  "triggerRendering D s =
     (if scanline (ppu s) \<ge> 21 \<and> scanline (ppu s) \<le> 260 then
        (let s1 = renderFramePartially D (lastRenderedScanline (ppu s) + 1)
                    (scanline (ppu s) - 21 - lastRenderedScanline (ppu s)) s
         in s1\<lparr>ppu := (ppu s1)\<lparr>lastRenderedScanline := scanline (ppu s1) - 21\<rparr>\<rparr>)
      else s)"

definition startVBlank :: "devices \<Rightarrow> nes \<Rightarrow> nes" where
  "startVBlank D s =
     (let s1 = requestIrq IRQ_NMI s;
          s2 = (if lastRenderedScanline (ppu s1) < 239
                then renderFramePartially D (lastRenderedScanline (ppu s1) + 1)
                       (240 - lastRenderedScanline (ppu s1)) s1
                else s1);
          s3 = endFrame D s2
      in s3\<lparr>ppu := (ppu s3)\<lparr>lastRenderedScanline := -1\<rparr>\<rparr>)"

definition updateControlReg1 :: "devices \<Rightarrow> int \<Rightarrow> nes \<Rightarrow> nes" where
  "updateControlReg1 D value s =
     (let s1 = triggerRendering D s
      in s1\<lparr>ppu := (ppu s1)\<lparr>
           f_nmiOnVblank := drop_bit 7 value AND 1,
           f_spriteSize := drop_bit 5 value AND 1,
           f_bgPatternTable := drop_bit 4 value AND 1,
           f_spPatternTable := drop_bit 3 value AND 1,
           f_addrInc := drop_bit 2 value AND 1,
           f_nTblAddress := value AND 3,
           regV := drop_bit 1 value AND 1,
           regH := value AND 1,
           regS := drop_bit 4 value AND 1\<rparr>\<rparr>)"

definition updateControlReg2 :: "devices \<Rightarrow> int \<Rightarrow> nes \<Rightarrow> nes" where
  "updateControlReg2 D value s =
     (let s1 = triggerRendering D s
      in updatePalettes D (s1\<lparr>ppu := (ppu s1)\<lparr>
           f_color := drop_bit 5 value AND 7,
           f_spVisibility := drop_bit 4 value AND 1,
           f_bgVisibility := drop_bit 3 value AND 1,
           f_spClipping := drop_bit 2 value AND 1,
           f_bgClipping := drop_bit 1 value AND 1,
           f_dispType := value AND 1\<rparr>\<rparr>))"

section \<open>The base mapper (mappers.js, class Mapper)\<close>

definition regLoad :: "devices \<Rightarrow> int \<Rightarrow> nes \<Rightarrow> int \<times> nes" where
  "regLoad D address s =
     (let hi = drop_bit 12 address
      in if hi = 2 \<or> hi = 3 then
           (let r = address AND 0x7
            in if r = 0 then (mem (cpu s) 0x2000, s)
               else if r = 1 then (mem (cpu s) 0x2001, s)
               else if r = 2 then readStatusRegister s
               else if r = 3 then (0, s)
               else if r = 4 then (sramLoad s, s)
               else if r = 5 then (0, s)
               else if r = 6 then (0, s)
               else if r = 7 then vramLoad D s
               else (0, s))
         else if hi = 4 then
           (if address - 0x4015 = 0 \<or> address - 0x4015 = 1 \<or> address - 0x4015 = 2
            then io_read D address s
            else (0, s))
         else (0, s))"

definition Mapper_load :: "devices \<Rightarrow> int \<Rightarrow> nes \<Rightarrow> int \<times> nes" where
  "Mapper_load D address0 s =
     (let address = address0 AND 0xffff
      in if address > 0x4017 then (mem (cpu s) address, s)
         else if address \<ge> 0x2000 then regLoad D address s
         else (mem (cpu s) (address AND 0x7ff), s))"

definition regWrite :: "devices \<Rightarrow> int \<Rightarrow> int \<Rightarrow> nes \<Rightarrow> nes" where
  "regWrite D address value s =
     (if address = 0x2000 then updateControlReg1 D value (mem_store address value s)
      else if address = 0x2001 then updateControlReg2 D value (mem_store address value s)
      else if address = 0x2003 then writeSRAMAddress value s
      else if address = 0x2004 then sramWrite value s
      else if address = 0x2005 then scrollWrite D value s
      else if address = 0x2006 then writeVRAMAddress D value s
      else if address = 0x2007 then vramWrite D value s
      else if address = 0x4014 then sramDMA value s
      else if address = 0x4015 \<or> address = 0x4016 \<or> address = 0x4017 then io_write D address value s
      else if address \<ge> 0x4000 \<and> address \<le> 0x4017 then io_write D address value s
      else s)"

text \<open>
  \<open>Mapper.write\<close>.  The battery-RAM callback of the host has no effect on the console
  and is left out.
\<close>

definition Mapper_write :: "devices \<Rightarrow> int \<Rightarrow> int \<Rightarrow> nes \<Rightarrow> nes" where
  "Mapper_write D address value s =
     (if address < 0x2000 then mem_store (address AND 0x7ff) value s
      else if address > 0x4017 then mem_store address value s
      else if address > 0x2007 \<and> address < 0x4000 then regWrite D (0x2000 + (address AND 0x7)) value s
      else regWrite D address value s)"

definition Mapper :: "devices \<Rightarrow> mapper" where
  "Mapper D = \<lparr>m_load = Mapper_load D, m_write = Mapper_write D, hasLatch = False,
     notifyA12 = None, latchAccess = (\<lambda>address s. s)\<rparr>"

section \<open>The CPU interpreter (cpu.js)\<close>

subsection \<open>The opcode table\<close>

abbreviation (input) ADDR_ZP :: int where "ADDR_ZP \<equiv> 0"
abbreviation (input) ADDR_REL :: int where "ADDR_REL \<equiv> 1"
abbreviation (input) ADDR_IMP :: int where "ADDR_IMP \<equiv> 2"
abbreviation (input) ADDR_ABS :: int where "ADDR_ABS \<equiv> 3"
abbreviation (input) ADDR_ACC :: int where "ADDR_ACC \<equiv> 4"
abbreviation (input) ADDR_IMM :: int where "ADDR_IMM \<equiv> 5"
abbreviation (input) ADDR_ZPX :: int where "ADDR_ZPX \<equiv> 6"
abbreviation (input) ADDR_ZPY :: int where "ADDR_ZPY \<equiv> 7"
abbreviation (input) ADDR_ABSX :: int where "ADDR_ABSX \<equiv> 8"
abbreviation (input) ADDR_ABSY :: int where "ADDR_ABSY \<equiv> 9"
abbreviation (input) ADDR_PREIDXIND :: int where "ADDR_PREIDXIND \<equiv> 10"
abbreviation (input) ADDR_POSTIDXIND :: int where "ADDR_POSTIDXIND \<equiv> 11"
abbreviation (input) ADDR_INDABS :: int where "ADDR_INDABS \<equiv> 12"
abbreviation (input) INS_ADC :: int where "INS_ADC \<equiv> 0"
abbreviation (input) INS_AND :: int where "INS_AND \<equiv> 1"
abbreviation (input) INS_ASL :: int where "INS_ASL \<equiv> 2"
abbreviation (input) INS_BCC :: int where "INS_BCC \<equiv> 3"
abbreviation (input) INS_BCS :: int where "INS_BCS \<equiv> 4"
abbreviation (input) INS_BEQ :: int where "INS_BEQ \<equiv> 5"
abbreviation (input) INS_BIT :: int where "INS_BIT \<equiv> 6"
abbreviation (input) INS_BMI :: int where "INS_BMI \<equiv> 7"
abbreviation (input) INS_BNE :: int where "INS_BNE \<equiv> 8"
abbreviation (input) INS_BPL :: int where "INS_BPL \<equiv> 9"
abbreviation (input) INS_BRK :: int where "INS_BRK \<equiv> 10"
abbreviation (input) INS_BVC :: int where "INS_BVC \<equiv> 11"
abbreviation (input) INS_BVS :: int where "INS_BVS \<equiv> 12"
abbreviation (input) INS_CLC :: int where "INS_CLC \<equiv> 13"
abbreviation (input) INS_CLD :: int where "INS_CLD \<equiv> 14"
abbreviation (input) INS_CLI :: int where "INS_CLI \<equiv> 15"
abbreviation (input) INS_CLV :: int where "INS_CLV \<equiv> 16"
abbreviation (input) INS_CMP :: int where "INS_CMP \<equiv> 17"
abbreviation (input) INS_CPX :: int where "INS_CPX \<equiv> 18"
abbreviation (input) INS_CPY :: int where "INS_CPY \<equiv> 19"
abbreviation (input) INS_DEC :: int where "INS_DEC \<equiv> 20"
abbreviation (input) INS_DEX :: int where "INS_DEX \<equiv> 21"
abbreviation (input) INS_DEY :: int where "INS_DEY \<equiv> 22"
abbreviation (input) INS_EOR :: int where "INS_EOR \<equiv> 23"
abbreviation (input) INS_INC :: int where "INS_INC \<equiv> 24"
abbreviation (input) INS_INX :: int where "INS_INX \<equiv> 25"
abbreviation (input) INS_INY :: int where "INS_INY \<equiv> 26"
abbreviation (input) INS_JMP :: int where "INS_JMP \<equiv> 27"
abbreviation (input) INS_JSR :: int where "INS_JSR \<equiv> 28"
abbreviation (input) INS_LDA :: int where "INS_LDA \<equiv> 29"
abbreviation (input) INS_LDX :: int where "INS_LDX \<equiv> 30"
abbreviation (input) INS_LDY :: int where "INS_LDY \<equiv> 31"
abbreviation (input) INS_LSR :: int where "INS_LSR \<equiv> 32"
abbreviation (input) INS_NOP :: int where "INS_NOP \<equiv> 33"
abbreviation (input) INS_ORA :: int where "INS_ORA \<equiv> 34"
abbreviation (input) INS_PHA :: int where "INS_PHA \<equiv> 35"
abbreviation (input) INS_PHP :: int where "INS_PHP \<equiv> 36"
abbreviation (input) INS_PLA :: int where "INS_PLA \<equiv> 37"
abbreviation (input) INS_PLP :: int where "INS_PLP \<equiv> 38"
abbreviation (input) INS_ROL :: int where "INS_ROL \<equiv> 39"
abbreviation (input) INS_ROR :: int where "INS_ROR \<equiv> 40"
abbreviation (input) INS_RTI :: int where "INS_RTI \<equiv> 41"
abbreviation (input) INS_RTS :: int where "INS_RTS \<equiv> 42"
abbreviation (input) INS_SBC :: int where "INS_SBC \<equiv> 43"
abbreviation (input) INS_SEC :: int where "INS_SEC \<equiv> 44"
abbreviation (input) INS_SED :: int where "INS_SED \<equiv> 45"
abbreviation (input) INS_SEI :: int where "INS_SEI \<equiv> 46"
abbreviation (input) INS_STA :: int where "INS_STA \<equiv> 47"
abbreviation (input) INS_STX :: int where "INS_STX \<equiv> 48"
abbreviation (input) INS_STY :: int where "INS_STY \<equiv> 49"
abbreviation (input) INS_TAX :: int where "INS_TAX \<equiv> 50"
abbreviation (input) INS_TAY :: int where "INS_TAY \<equiv> 51"
abbreviation (input) INS_TSX :: int where "INS_TSX \<equiv> 52"
abbreviation (input) INS_TXA :: int where "INS_TXA \<equiv> 53"
abbreviation (input) INS_TXS :: int where "INS_TXS \<equiv> 54"
abbreviation (input) INS_TYA :: int where "INS_TYA \<equiv> 55"
abbreviation (input) INS_ALR :: int where "INS_ALR \<equiv> 56"
abbreviation (input) INS_ANC :: int where "INS_ANC \<equiv> 57"
abbreviation (input) INS_ARR :: int where "INS_ARR \<equiv> 58"
abbreviation (input) INS_AXS :: int where "INS_AXS \<equiv> 59"
abbreviation (input) INS_LAX :: int where "INS_LAX \<equiv> 60"
abbreviation (input) INS_SAX :: int where "INS_SAX \<equiv> 61"
abbreviation (input) INS_DCP :: int where "INS_DCP \<equiv> 62"
abbreviation (input) INS_ISC :: int where "INS_ISC \<equiv> 63"
abbreviation (input) INS_RLA :: int where "INS_RLA \<equiv> 64"
abbreviation (input) INS_RRA :: int where "INS_RRA \<equiv> 65"
abbreviation (input) INS_SLO :: int where "INS_SLO \<equiv> 66"
abbreviation (input) INS_SRE :: int where "INS_SRE \<equiv> 67"
abbreviation (input) INS_SKB :: int where "INS_SKB \<equiv> 68"
abbreviation (input) INS_IGN :: int where "INS_IGN \<equiv> 69"

definition setOp :: "int \<times> int \<times> int \<times> int \<times> int \<Rightarrow> (int \<Rightarrow> int) \<Rightarrow> (int \<Rightarrow> int)" where
  "setOp e opdata =
     (case e of (inst, op, addr, sz, cycles) \<Rightarrow>
        opdata(op := (inst AND 0xff) OR push_bit 8 (addr AND 0xff) OR
                     push_bit 16 (sz AND 0xff) OR push_bit 24 (cycles AND 0xff)))"

definition op_table :: "(int \<times> int \<times> int \<times> int \<times> int) list" where
  "op_table = [
     (INS_ADC, 0x69, ADDR_IMM, 2, 2), (INS_ADC, 0x65, ADDR_ZP, 2, 3), (INS_ADC, 0x75, ADDR_ZPX, 2, 4),
     (INS_ADC, 0x6d, ADDR_ABS, 3, 4), (INS_ADC, 0x7d, ADDR_ABSX, 3, 4), (INS_ADC, 0x79, ADDR_ABSY, 3, 4),
     (INS_ADC, 0x61, ADDR_PREIDXIND, 2, 6), (INS_ADC, 0x71, ADDR_POSTIDXIND, 2, 5), (INS_AND, 0x29, ADDR_IMM, 2, 2),
     (INS_AND, 0x25, ADDR_ZP, 2, 3), (INS_AND, 0x35, ADDR_ZPX, 2, 4), (INS_AND, 0x2d, ADDR_ABS, 3, 4),
     (INS_AND, 0x3d, ADDR_ABSX, 3, 4), (INS_AND, 0x39, ADDR_ABSY, 3, 4), (INS_AND, 0x21, ADDR_PREIDXIND, 2, 6),
     (INS_AND, 0x31, ADDR_POSTIDXIND, 2, 5), (INS_ASL, 0x0a, ADDR_ACC, 1, 2), (INS_ASL, 0x06, ADDR_ZP, 2, 5),
     (INS_ASL, 0x16, ADDR_ZPX, 2, 6), (INS_ASL, 0x0e, ADDR_ABS, 3, 6), (INS_ASL, 0x1e, ADDR_ABSX, 3, 7),
     (INS_BCC, 0x90, ADDR_REL, 2, 2), (INS_BCS, 0xb0, ADDR_REL, 2, 2), (INS_BEQ, 0xf0, ADDR_REL, 2, 2),
     (INS_BMI, 0x30, ADDR_REL, 2, 2), (INS_BNE, 0xd0, ADDR_REL, 2, 2), (INS_BPL, 0x10, ADDR_REL, 2, 2),
     (INS_BVC, 0x50, ADDR_REL, 2, 2), (INS_BVS, 0x70, ADDR_REL, 2, 2), (INS_BIT, 0x24, ADDR_ZP, 2, 3),
     (INS_BIT, 0x2c, ADDR_ABS, 3, 4), (INS_BRK, 0x00, ADDR_IMP, 1, 7), (INS_CLC, 0x18, ADDR_IMP, 1, 2),
     (INS_CLD, 0xd8, ADDR_IMP, 1, 2), (INS_CLI, 0x58, ADDR_IMP, 1, 2), (INS_CLV, 0xb8, ADDR_IMP, 1, 2),
     (INS_SEC, 0x38, ADDR_IMP, 1, 2), (INS_SED, 0xf8, ADDR_IMP, 1, 2), (INS_SEI, 0x78, ADDR_IMP, 1, 2),
     (INS_CMP, 0xc9, ADDR_IMM, 2, 2), (INS_CMP, 0xc5, ADDR_ZP, 2, 3), (INS_CMP, 0xd5, ADDR_ZPX, 2, 4),
     (INS_CMP, 0xcd, ADDR_ABS, 3, 4), (INS_CMP, 0xdd, ADDR_ABSX, 3, 4), (INS_CMP, 0xd9, ADDR_ABSY, 3, 4),
     (INS_CMP, 0xc1, ADDR_PREIDXIND, 2, 6), (INS_CMP, 0xd1, ADDR_POSTIDXIND, 2, 5), (INS_CPX, 0xe0, ADDR_IMM, 2, 2),
     (INS_CPX, 0xe4, ADDR_ZP, 2, 3), (INS_CPX, 0xec, ADDR_ABS, 3, 4), (INS_CPY, 0xc0, ADDR_IMM, 2, 2),
     (INS_CPY, 0xc4, ADDR_ZP, 2, 3), (INS_CPY, 0xcc, ADDR_ABS, 3, 4), (INS_DEC, 0xc6, ADDR_ZP, 2, 5),
     (INS_DEC, 0xd6, ADDR_ZPX, 2, 6), (INS_DEC, 0xce, ADDR_ABS, 3, 6), (INS_DEC, 0xde, ADDR_ABSX, 3, 7),
     (INS_DEX, 0xca, ADDR_IMP, 1, 2), (INS_DEY, 0x88, ADDR_IMP, 1, 2), (INS_EOR, 0x49, ADDR_IMM, 2, 2),
     (INS_EOR, 0x45, ADDR_ZP, 2, 3), (INS_EOR, 0x55, ADDR_ZPX, 2, 4), (INS_EOR, 0x4d, ADDR_ABS, 3, 4),
     (INS_EOR, 0x5d, ADDR_ABSX, 3, 4), (INS_EOR, 0x59, ADDR_ABSY, 3, 4), (INS_EOR, 0x41, ADDR_PREIDXIND, 2, 6),
     (INS_EOR, 0x51, ADDR_POSTIDXIND, 2, 5), (INS_INC, 0xe6, ADDR_ZP, 2, 5), (INS_INC, 0xf6, ADDR_ZPX, 2, 6),
     (INS_INC, 0xee, ADDR_ABS, 3, 6), (INS_INC, 0xfe, ADDR_ABSX, 3, 7), (INS_INX, 0xe8, ADDR_IMP, 1, 2),
     (INS_INY, 0xc8, ADDR_IMP, 1, 2), (INS_JMP, 0x4c, ADDR_ABS, 3, 3), (INS_JMP, 0x6c, ADDR_INDABS, 3, 5),
     (INS_JSR, 0x20, ADDR_ABS, 3, 6), (INS_LDA, 0xa9, ADDR_IMM, 2, 2), (INS_LDA, 0xa5, ADDR_ZP, 2, 3),
     (INS_LDA, 0xb5, ADDR_ZPX, 2, 4), (INS_LDA, 0xad, ADDR_ABS, 3, 4), (INS_LDA, 0xbd, ADDR_ABSX, 3, 4),
     (INS_LDA, 0xb9, ADDR_ABSY, 3, 4), (INS_LDA, 0xa1, ADDR_PREIDXIND, 2, 6), (INS_LDA, 0xb1, ADDR_POSTIDXIND, 2, 5),
     (INS_LDX, 0xa2, ADDR_IMM, 2, 2), (INS_LDX, 0xa6, ADDR_ZP, 2, 3), (INS_LDX, 0xb6, ADDR_ZPY, 2, 4),
     (INS_LDX, 0xae, ADDR_ABS, 3, 4), (INS_LDX, 0xbe, ADDR_ABSY, 3, 4), (INS_LDY, 0xa0, ADDR_IMM, 2, 2),
     (INS_LDY, 0xa4, ADDR_ZP, 2, 3), (INS_LDY, 0xb4, ADDR_ZPX, 2, 4), (INS_LDY, 0xac, ADDR_ABS, 3, 4),
     (INS_LDY, 0xbc, ADDR_ABSX, 3, 4), (INS_LSR, 0x4a, ADDR_ACC, 1, 2), (INS_LSR, 0x46, ADDR_ZP, 2, 5),
     (INS_LSR, 0x56, ADDR_ZPX, 2, 6), (INS_LSR, 0x4e, ADDR_ABS, 3, 6), (INS_LSR, 0x5e, ADDR_ABSX, 3, 7),
     (INS_NOP, 0x1a, ADDR_IMP, 1, 2), (INS_NOP, 0x3a, ADDR_IMP, 1, 2), (INS_NOP, 0x5a, ADDR_IMP, 1, 2),
     (INS_NOP, 0x7a, ADDR_IMP, 1, 2), (INS_NOP, 0xda, ADDR_IMP, 1, 2), (INS_NOP, 0xea, ADDR_IMP, 1, 2),
     (INS_NOP, 0xfa, ADDR_IMP, 1, 2), (INS_ORA, 0x09, ADDR_IMM, 2, 2), (INS_ORA, 0x05, ADDR_ZP, 2, 3),
     (INS_ORA, 0x15, ADDR_ZPX, 2, 4), (INS_ORA, 0x0d, ADDR_ABS, 3, 4), (INS_ORA, 0x1d, ADDR_ABSX, 3, 4),
     (INS_ORA, 0x19, ADDR_ABSY, 3, 4), (INS_ORA, 0x01, ADDR_PREIDXIND, 2, 6), (INS_ORA, 0x11, ADDR_POSTIDXIND, 2, 5),
     (INS_PHA, 0x48, ADDR_IMP, 1, 3), (INS_PHP, 0x08, ADDR_IMP, 1, 3), (INS_PLA, 0x68, ADDR_IMP, 1, 4),
     (INS_PLP, 0x28, ADDR_IMP, 1, 4), (INS_ROL, 0x2a, ADDR_ACC, 1, 2), (INS_ROL, 0x26, ADDR_ZP, 2, 5),
     (INS_ROL, 0x36, ADDR_ZPX, 2, 6), (INS_ROL, 0x2e, ADDR_ABS, 3, 6), (INS_ROL, 0x3e, ADDR_ABSX, 3, 7),
     (INS_ROR, 0x6a, ADDR_ACC, 1, 2), (INS_ROR, 0x66, ADDR_ZP, 2, 5), (INS_ROR, 0x76, ADDR_ZPX, 2, 6),
     (INS_ROR, 0x6e, ADDR_ABS, 3, 6), (INS_ROR, 0x7e, ADDR_ABSX, 3, 7), (INS_RTI, 0x40, ADDR_IMP, 1, 6),
     (INS_RTS, 0x60, ADDR_IMP, 1, 6), (INS_SBC, 0xe9, ADDR_IMM, 2, 2), (INS_SBC, 0xe5, ADDR_ZP, 2, 3),
     (INS_SBC, 0xf5, ADDR_ZPX, 2, 4), (INS_SBC, 0xed, ADDR_ABS, 3, 4), (INS_SBC, 0xfd, ADDR_ABSX, 3, 4),
     (INS_SBC, 0xf9, ADDR_ABSY, 3, 4), (INS_SBC, 0xe1, ADDR_PREIDXIND, 2, 6), (INS_SBC, 0xf1, ADDR_POSTIDXIND, 2, 5),
     (INS_STA, 0x85, ADDR_ZP, 2, 3), (INS_STA, 0x95, ADDR_ZPX, 2, 4), (INS_STA, 0x8d, ADDR_ABS, 3, 4),
     (INS_STA, 0x9d, ADDR_ABSX, 3, 5), (INS_STA, 0x99, ADDR_ABSY, 3, 5), (INS_STA, 0x81, ADDR_PREIDXIND, 2, 6),
     (INS_STA, 0x91, ADDR_POSTIDXIND, 2, 6), (INS_STX, 0x86, ADDR_ZP, 2, 3), (INS_STX, 0x96, ADDR_ZPY, 2, 4),
     (INS_STX, 0x8e, ADDR_ABS, 3, 4), (INS_STY, 0x84, ADDR_ZP, 2, 3), (INS_STY, 0x94, ADDR_ZPX, 2, 4),
     (INS_STY, 0x8c, ADDR_ABS, 3, 4), (INS_TAX, 0xaa, ADDR_IMP, 1, 2), (INS_TAY, 0xa8, ADDR_IMP, 1, 2),
     (INS_TSX, 0xba, ADDR_IMP, 1, 2), (INS_TXA, 0x8a, ADDR_IMP, 1, 2), (INS_TXS, 0x9a, ADDR_IMP, 1, 2),
     (INS_TYA, 0x98, ADDR_IMP, 1, 2), (INS_ALR, 0x4b, ADDR_IMM, 2, 2), (INS_ANC, 0x0b, ADDR_IMM, 2, 2),
     (INS_ANC, 0x2b, ADDR_IMM, 2, 2), (INS_ARR, 0x6b, ADDR_IMM, 2, 2), (INS_AXS, 0xcb, ADDR_IMM, 2, 2),
     (INS_LAX, 0xa3, ADDR_PREIDXIND, 2, 6), (INS_LAX, 0xa7, ADDR_ZP, 2, 3), (INS_LAX, 0xaf, ADDR_ABS, 3, 4),
     (INS_LAX, 0xb3, ADDR_POSTIDXIND, 2, 5), (INS_LAX, 0xb7, ADDR_ZPY, 2, 4), (INS_LAX, 0xbf, ADDR_ABSY, 3, 4),
     (INS_SAX, 0x83, ADDR_PREIDXIND, 2, 6), (INS_SAX, 0x87, ADDR_ZP, 2, 3), (INS_SAX, 0x8f, ADDR_ABS, 3, 4),
     (INS_SAX, 0x97, ADDR_ZPY, 2, 4), (INS_DCP, 0xc3, ADDR_PREIDXIND, 2, 8), (INS_DCP, 0xc7, ADDR_ZP, 2, 5),
     (INS_DCP, 0xcf, ADDR_ABS, 3, 6), (INS_DCP, 0xd3, ADDR_POSTIDXIND, 2, 8), (INS_DCP, 0xd7, ADDR_ZPX, 2, 6),
     (INS_DCP, 0xdb, ADDR_ABSY, 3, 7), (INS_DCP, 0xdf, ADDR_ABSX, 3, 7), (INS_ISC, 0xe3, ADDR_PREIDXIND, 2, 8),
     (INS_ISC, 0xe7, ADDR_ZP, 2, 5), (INS_ISC, 0xef, ADDR_ABS, 3, 6), (INS_ISC, 0xf3, ADDR_POSTIDXIND, 2, 8),
     (INS_ISC, 0xf7, ADDR_ZPX, 2, 6), (INS_ISC, 0xfb, ADDR_ABSY, 3, 7), (INS_ISC, 0xff, ADDR_ABSX, 3, 7),
     (INS_RLA, 0x23, ADDR_PREIDXIND, 2, 8), (INS_RLA, 0x27, ADDR_ZP, 2, 5), (INS_RLA, 0x2f, ADDR_ABS, 3, 6),
     (INS_RLA, 0x33, ADDR_POSTIDXIND, 2, 8), (INS_RLA, 0x37, ADDR_ZPX, 2, 6), (INS_RLA, 0x3b, ADDR_ABSY, 3, 7),
     (INS_RLA, 0x3f, ADDR_ABSX, 3, 7), (INS_RRA, 0x63, ADDR_PREIDXIND, 2, 8), (INS_RRA, 0x67, ADDR_ZP, 2, 5),
     (INS_RRA, 0x6f, ADDR_ABS, 3, 6), (INS_RRA, 0x73, ADDR_POSTIDXIND, 2, 8), (INS_RRA, 0x77, ADDR_ZPX, 2, 6),
     (INS_RRA, 0x7b, ADDR_ABSY, 3, 7), (INS_RRA, 0x7f, ADDR_ABSX, 3, 7), (INS_SLO, 0x03, ADDR_PREIDXIND, 2, 8),
     (INS_SLO, 0x07, ADDR_ZP, 2, 5), (INS_SLO, 0x0f, ADDR_ABS, 3, 6), (INS_SLO, 0x13, ADDR_POSTIDXIND, 2, 8),
     (INS_SLO, 0x17, ADDR_ZPX, 2, 6), (INS_SLO, 0x1b, ADDR_ABSY, 3, 7), (INS_SLO, 0x1f, ADDR_ABSX, 3, 7),
     (INS_SRE, 0x43, ADDR_PREIDXIND, 2, 8), (INS_SRE, 0x47, ADDR_ZP, 2, 5), (INS_SRE, 0x4f, ADDR_ABS, 3, 6),
     (INS_SRE, 0x53, ADDR_POSTIDXIND, 2, 8), (INS_SRE, 0x57, ADDR_ZPX, 2, 6), (INS_SRE, 0x5b, ADDR_ABSY, 3, 7),
     (INS_SRE, 0x5f, ADDR_ABSX, 3, 7), (INS_SKB, 0x80, ADDR_IMM, 2, 2), (INS_SKB, 0x82, ADDR_IMM, 2, 2),
     (INS_SKB, 0x89, ADDR_IMM, 2, 2), (INS_SKB, 0xc2, ADDR_IMM, 2, 2), (INS_SKB, 0xe2, ADDR_IMM, 2, 2),
     (INS_IGN, 0x0c, ADDR_ABS, 3, 4), (INS_IGN, 0x1c, ADDR_ABSX, 3, 4), (INS_IGN, 0x3c, ADDR_ABSX, 3, 4),
     (INS_IGN, 0x5c, ADDR_ABSX, 3, 4), (INS_IGN, 0x7c, ADDR_ABSX, 3, 4), (INS_IGN, 0xdc, ADDR_ABSX, 3, 4),
     (INS_IGN, 0xfc, ADDR_ABSX, 3, 4), (INS_IGN, 0x04, ADDR_ZP, 2, 3), (INS_IGN, 0x44, ADDR_ZP, 2, 3),
     (INS_IGN, 0x64, ADDR_ZP, 2, 3), (INS_IGN, 0x14, ADDR_ZPX, 2, 4), (INS_IGN, 0x34, ADDR_ZPX, 2, 4),
     (INS_IGN, 0x54, ADDR_ZPX, 2, 4), (INS_IGN, 0x74, ADDR_ZPX, 2, 4), (INS_IGN, 0xd4, ADDR_ZPX, 2, 4),
     (INS_IGN, 0xf4, ADDR_ZPX, 2, 4)]"

definition buildOpData :: "int \<Rightarrow> int" where
  "buildOpData = fold setOp op_table (\<lambda>i. 0xff)"

text \<open>\<open>OPDATA[i]\<close>; outside the table the entry is \<open>undefined\<close>, which the shifts read as 0.\<close>

definition OPDATA :: "int \<Rightarrow> int" where
  "OPDATA i = (if 0 \<le> i \<and> i < 256 then buildOpData i else 0)"

subsection \<open>Memory access\<close>

definition cpu_load :: "mapper \<Rightarrow> int \<Rightarrow> nes \<Rightarrow> int \<times> nes" where
  "cpu_load M addr s =
     (if addr < 0x2000 then (mem (cpu s) (addr AND 0x7ff), s) else m_load M addr s)"

definition load16bit :: "mapper \<Rightarrow> int \<Rightarrow> nes \<Rightarrow> int \<times> nes" where
  "load16bit M addr s =
     (if addr < 0x1fff
      then (mem (cpu s) (addr AND 0x7ff) OR push_bit 8 (mem (cpu s) ((addr + 1) AND 0x7ff)), s)
      else (let (lo, s1) = m_load M addr s;
                (hi, s2) = m_load M (addr + 1) s1
            in (lo OR push_bit 8 hi, s2)))"

definition cpu_write :: "mapper \<Rightarrow> int \<Rightarrow> int \<Rightarrow> nes \<Rightarrow> nes" where
  "cpu_write M addr val s =
     (if addr < 0x2000 then mem_store (addr AND 0x7ff) val s else m_write M addr val s)"

definition push :: "mapper \<Rightarrow> int \<Rightarrow> nes \<Rightarrow> nes" where
  "push M value s =
     (let s1 = m_write M (REG_SP (cpu s) OR 0x100) value s
      in s1\<lparr>cpu := (cpu s1)\<lparr>REG_SP := (REG_SP (cpu s1) - 1) AND 0xff\<rparr>\<rparr>)"

definition pull :: "mapper \<Rightarrow> nes \<Rightarrow> int \<times> nes" where
  "pull M s =
     (let s1 = s\<lparr>cpu := (cpu s)\<lparr>REG_SP := (REG_SP (cpu s) + 1) AND 0xff\<rparr>\<rparr>
      in m_load M (0x100 OR REG_SP (cpu s1)) s1)"

text \<open>The status byte as \<open>emulate\<close> assembles it for the interrupt gate, BRK and PHP.\<close>

definition status_byte :: "CPU \<Rightarrow> int" where
  "status_byte c =
     F_CARRY c OR push_bit 1 (if F_ZERO c = 0 then 1 else 0) OR push_bit 2 (F_INTERRUPT c) OR
     push_bit 3 (F_DECIMAL c) OR push_bit 4 (F_BRK c) OR push_bit 5 (F_NOTUSED c) OR
     push_bit 6 (F_OVERFLOW c) OR push_bit 7 (F_SIGN c)"

subsection \<open>Interrupts\<close>

definition doNonMaskableInterrupt :: "mapper \<Rightarrow> int \<Rightarrow> nes \<Rightarrow> nes" where
  "doNonMaskableInterrupt M status s =
     (let (ctrl, s1) = m_load M 0x2000 s
      in if ctrl AND 128 \<noteq> 0 then
           (let s2 = s1\<lparr>cpu := (cpu s1)\<lparr>REG_PC_NEW := REG_PC_NEW (cpu s1) + 1\<rparr>\<rparr>;
                s3 = push M (drop_bit 8 (REG_PC_NEW (cpu s2)) AND 0xff) s2;
                s4 = push M (REG_PC_NEW (cpu s3) AND 0xff) s3;
                s5 = push M status s4;
                (lo, s6) = m_load M 0xfffa s5;
                (hi, s7) = m_load M 0xfffb s6
            in s7\<lparr>cpu := (cpu s7)\<lparr>REG_PC_NEW := (lo OR push_bit 8 hi) - 1\<rparr>\<rparr>)
         else s1)"

definition doResetInterrupt :: "mapper \<Rightarrow> nes \<Rightarrow> nes" where
  "doResetInterrupt M s =
     (let (lo, s1) = m_load M 0xfffc s;
          (hi, s2) = m_load M 0xfffd s1
      in s2\<lparr>cpu := (cpu s2)\<lparr>REG_PC_NEW := (lo OR push_bit 8 hi) - 1\<rparr>\<rparr>)"

definition doIrq :: "mapper \<Rightarrow> int \<Rightarrow> nes \<Rightarrow> nes" where
  "doIrq M status s =
     (let s2 = s\<lparr>cpu := (cpu s)\<lparr>REG_PC_NEW := REG_PC_NEW (cpu s) + 1\<rparr>\<rparr>;
          s3 = push M (drop_bit 8 (REG_PC_NEW (cpu s2)) AND 0xff) s2;
          s4 = push M (REG_PC_NEW (cpu s3) AND 0xff) s3;
          s5 = push M status s4;
          s6 = s5\<lparr>cpu := (cpu s5)\<lparr>F_INTERRUPT_NEW := 1, F_BRK_NEW := 0\<rparr>\<rparr>;
          (lo, s7) = m_load M 0xfffe s6;
          (hi, s8) = m_load M 0xffff s7
      in s8\<lparr>cpu := (cpu s8)\<lparr>REG_PC_NEW := (lo OR push_bit 8 hi) - 1\<rparr>\<rparr>)"

text \<open>
  The interrupt gate at the head of \<open>emulate\<close>, entered when \<open>irqRequested\<close> is set, for a
  loaded mapper.
\<close>

definition interrupt_gate :: "mapper \<Rightarrow> nes \<Rightarrow> nes" where
  "interrupt_gate M s =
     (let temp = status_byte (cpu s);
          s1 = s\<lparr>cpu := (cpu s)\<lparr>REG_PC_NEW := REG_PC (cpu s),
                                 F_INTERRUPT_NEW := F_INTERRUPT (cpu s)\<rparr>\<rparr>;
          s2 = (case irqType (cpu s1) of
                  None \<Rightarrow> s1
                | Some ty \<Rightarrow>
                    if ty = 0 then (if F_INTERRUPT (cpu s1) \<noteq> 0 then s1 else doIrq M temp s1)
                    else if ty = 1 then doNonMaskableInterrupt M temp s1
                    else if ty = 2 then doResetInterrupt M s1
                    else s1)
      in s2\<lparr>cpu := (cpu s2)\<lparr>REG_PC := REG_PC_NEW (cpu s2),
                              F_INTERRUPT := F_INTERRUPT_NEW (cpu s2),
                              F_BRK := F_BRK_NEW (cpu s2),
                              irqRequested := False\<rparr>\<rparr>)"

text \<open>
  The gate when no mapper is loaded (\<open>nes.mmap === null\<close>): the NMI routine returns at
  once, the other two routines dereference \<open>null\<close>.
\<close>

definition interrupt_gate_null :: "nes \<Rightarrow> error + nes" where
  "interrupt_gate_null s =
     (let s1 = s\<lparr>cpu := (cpu s)\<lparr>REG_PC_NEW := REG_PC (cpu s),
                                 F_INTERRUPT_NEW := F_INTERRUPT (cpu s)\<rparr>\<rparr>;
          fin = (\<lambda>s2. s2\<lparr>cpu := (cpu s2)\<lparr>REG_PC := REG_PC_NEW (cpu s2),
                              F_INTERRUPT := F_INTERRUPT_NEW (cpu s2),
                              F_BRK := F_BRK_NEW (cpu s2),
                              irqRequested := False\<rparr>\<rparr>)
      in case irqType (cpu s1) of
           None \<Rightarrow> Inr (fin s1)
         | Some ty \<Rightarrow>
             if ty = 0 then (if F_INTERRUPT (cpu s1) \<noteq> 0 then Inr (fin s1) else Inl TypeError)
             else if ty = 1 then Inr (fin s1)
             else if ty = 2 then Inl TypeError
             else Inr (fin s1))"

subsection \<open>Addressing modes\<close>

text \<open>
  The address computed by the addressing-mode switch, before the final mask, with the
  page-crossing penalty \<open>cycleAdd\<close>.  \<open>pc\<close> is the local \<open>REG_PC\<close>, already advanced by the
  instruction size.
\<close>

definition page_cross :: "int \<Rightarrow> int \<Rightarrow> int" where
  "page_cross addr r = (if (addr AND 0xff00) \<noteq> ((addr + r) AND 0xff00) then 1 else 0)"

definition indabs_hi :: "int \<Rightarrow> int" where
  "indabs_hi addr = (addr AND 0xff00) OR (((addr AND 0xff) + 1) AND 0xff)"

definition operand_address :: "mapper \<Rightarrow> int \<Rightarrow> int \<Rightarrow> int \<Rightarrow> nes \<Rightarrow> (int \<times> int) \<times> nes" where
  "operand_address M addrMode opaddr pc s =
     (if addrMode = 0 then (let (a, s1) = cpu_load M (opaddr + 2) s in ((a, 0), s1))
      else if addrMode = 1 then
        (let (a, s1) = cpu_load M (opaddr + 2) s
         in ((a + (if a < 0x80 then pc else pc - 256), 0), s1))
      else if addrMode = 2 then ((0, 0), s)
      else if addrMode = 3 then (let (a, s1) = load16bit M (opaddr + 2) s in ((a, 0), s1))
      else if addrMode = 4 then ((REG_ACC (cpu s), 0), s)
      else if addrMode = 5 then ((pc, 0), s)
      else if addrMode = 6 then
        (let (a, s1) = cpu_load M (opaddr + 2) s in (((a + REG_X (cpu s1)) AND 0xff, 0), s1))
      else if addrMode = 7 then
        (let (a, s1) = cpu_load M (opaddr + 2) s in (((a + REG_Y (cpu s1)) AND 0xff, 0), s1))
      else if addrMode = 8 then
        (let (a, s1) = load16bit M (opaddr + 2) s
         in ((a + REG_X (cpu s1), page_cross a (REG_X (cpu s1))), s1))
      else if addrMode = 9 then
        (let (a, s1) = load16bit M (opaddr + 2) s
         in ((a + REG_Y (cpu s1), page_cross a (REG_Y (cpu s1))), s1))
      else if addrMode = 10 then
        (let (a, s1) = cpu_load M (opaddr + 2) s;
             ca = page_cross a (REG_X (cpu s1));
             (a2, s2) = load16bit M ((a + REG_X (cpu s1)) AND 0xff) s1
         in ((a2, ca), s2))
      else if addrMode = 11 then
        (let (z, s1) = cpu_load M (opaddr + 2) s;
             (a, s2) = load16bit M z s1
         in ((a + REG_Y (cpu s2), page_cross a (REG_Y (cpu s2))), s2))
      else if addrMode = 12 then
        (let (a, s1) = load16bit M (opaddr + 2) s
         in if a < 0x1fff
            then ((mem (cpu s1) (a AND 0x7ff) OR push_bit 8 (mem (cpu s1) (indabs_hi a)), 0), s1)
            else (let (lo, s2) = m_load M a s1;
                      (hi, s3) = m_load M (indabs_hi a) s2
                  in ((lo OR push_bit 8 hi, 0), s3)))
      else ((0, 0), s))"

subsection \<open>Instructions\<close>

text \<open>
  One definition per case of the instruction switch.  Each takes what the case reads of
  the decoded instruction (\<open>addrMode\<close>, \<open>addr\<close>, \<open>cycleAdd\<close>, \<open>opaddr\<close>, \<open>cycleCount\<close>)
  and returns the cycle count and the state.
\<close>

definition set_nz :: "int \<Rightarrow> CPU \<Rightarrow> CPU" where
  "set_nz v c = c\<lparr>F_SIGN := drop_bit 7 v AND 1, F_ZERO := v\<rparr>"

definition mode_cycles :: "int \<Rightarrow> int \<Rightarrow> int \<Rightarrow> int" where
  "mode_cycles addrMode cycleAdd cycleCount =
     (if addrMode \<noteq> 11 then cycleCount + cycleAdd else cycleCount)"

definition ins_ADC :: "mapper \<Rightarrow> int \<Rightarrow> int \<Rightarrow> int \<Rightarrow> nes \<Rightarrow> int \<times> nes" where
  "ins_ADC M addr cycleAdd cycleCount s =
     (let (val, s1) = cpu_load M addr s;
          c = cpu s1;
          temp = REG_ACC c + val + F_CARRY c
      in (cycleCount + cycleAdd,
          s1\<lparr>cpu := c\<lparr>
            F_OVERFLOW := (if (REG_ACC c XOR val) AND 0x80 = 0 \<and> (REG_ACC c XOR temp) AND 0x80 \<noteq> 0
                           then 1 else 0),
            F_CARRY := (if temp > 255 then 1 else 0),
            F_SIGN := drop_bit 7 temp AND 1,
            F_ZERO := temp AND 0xff,
            REG_ACC := temp AND 0xff\<rparr>\<rparr>))"

definition ins_AND :: "mapper \<Rightarrow> int \<Rightarrow> int \<Rightarrow> int \<Rightarrow> int \<Rightarrow> nes \<Rightarrow> int \<times> nes" where
  "ins_AND M addrMode addr cycleAdd cycleCount s =
     (let a = REG_ACC (cpu s);
          (val, s1) = cpu_load M addr s;
          r = a AND val
      in (mode_cycles addrMode cycleAdd cycleCount,
          s1\<lparr>cpu := set_nz r ((cpu s1)\<lparr>REG_ACC := r\<rparr>)\<rparr>))"

definition ins_ASL :: "mapper \<Rightarrow> int \<Rightarrow> int \<Rightarrow> int \<Rightarrow> nes \<Rightarrow> int \<times> nes" where
  "ins_ASL M addrMode addr cycleCount s =
     (if addrMode = 4 then
        (let c = cpu s;
             r = push_bit 1 (REG_ACC c) AND 0xff
         in (cycleCount,
             s\<lparr>cpu := set_nz r (c\<lparr>F_CARRY := drop_bit 7 (REG_ACC c) AND 1, REG_ACC := r\<rparr>)\<rparr>))
      else
        (let (temp, s1) = cpu_load M addr s;
             r = push_bit 1 temp AND 0xff;
             s2 = s1\<lparr>cpu := set_nz r ((cpu s1)\<lparr>F_CARRY := drop_bit 7 temp AND 1\<rparr>)\<rparr>
         in (cycleCount, cpu_write M addr r s2)))"

text \<open>The branch body shared, word for word, by BCC, BCS, BEQ, BNE, BPL, BVC and BVS.\<close>

definition branch :: "bool \<Rightarrow> int \<Rightarrow> int \<Rightarrow> int \<Rightarrow> nes \<Rightarrow> int \<times> nes" where
  "branch taken opaddr addr cycleCount s =
     (if taken
      then (cycleCount + (if (opaddr AND 0xff00) \<noteq> (addr AND 0xff00) then 2 else 1),
            s\<lparr>cpu := (cpu s)\<lparr>REG_PC := addr\<rparr>\<rparr>)
      else (cycleCount, s))"

definition ins_BMI :: "int \<Rightarrow> int \<Rightarrow> nes \<Rightarrow> int \<times> nes" where
  "ins_BMI addr cycleCount s =
     (if F_SIGN (cpu s) = 1
      then (cycleCount + 1, s\<lparr>cpu := (cpu s)\<lparr>REG_PC := addr\<rparr>\<rparr>)
      else (cycleCount, s))"

definition ins_BIT :: "mapper \<Rightarrow> int \<Rightarrow> int \<Rightarrow> nes \<Rightarrow> int \<times> nes" where
  "ins_BIT M addr cycleCount s =
     (let (temp, s1) = cpu_load M addr s;
          c = cpu s1
      in (cycleCount,
          s1\<lparr>cpu := c\<lparr>F_SIGN := drop_bit 7 temp AND 1,
                       F_OVERFLOW := drop_bit 6 temp AND 1,
                       F_ZERO := temp AND REG_ACC c\<rparr>\<rparr>))"

definition ins_BRK :: "mapper \<Rightarrow> int \<Rightarrow> nes \<Rightarrow> int \<times> nes" where
  "ins_BRK M cycleCount s =
     (let s1 = s\<lparr>cpu := (cpu s)\<lparr>REG_PC := REG_PC (cpu s) + 2\<rparr>\<rparr>;
          s2 = push M (drop_bit 8 (REG_PC (cpu s1)) AND 0xff) s1;
          s3 = push M (REG_PC (cpu s2) AND 0xff) s2;
          s4 = s3\<lparr>cpu := (cpu s3)\<lparr>F_BRK := 1\<rparr>\<rparr>;
          s5 = push M (status_byte (cpu s4)) s4;
          s6 = s5\<lparr>cpu := (cpu s5)\<lparr>F_INTERRUPT := 1\<rparr>\<rparr>;
          (v, s7) = load16bit M 0xfffe s6
      in (cycleCount, s7\<lparr>cpu := (cpu s7)\<lparr>REG_PC := v - 1\<rparr>\<rparr>))"

definition compare :: "int \<Rightarrow> CPU \<Rightarrow> CPU" where
  "compare temp c =
     c\<lparr>F_CARRY := (if temp \<ge> 0 then 1 else 0),
       F_SIGN := drop_bit 7 temp AND 1,
       F_ZERO := temp AND 0xff\<rparr>"

definition ins_CMP :: "mapper \<Rightarrow> int \<Rightarrow> int \<Rightarrow> int \<Rightarrow> nes \<Rightarrow> int \<times> nes" where
  "ins_CMP M addr cycleAdd cycleCount s =
     (let a = REG_ACC (cpu s);
          (val, s1) = cpu_load M addr s
      in (cycleCount + cycleAdd, s1\<lparr>cpu := compare (a - val) (cpu s1)\<rparr>))"

definition ins_CPX :: "mapper \<Rightarrow> int \<Rightarrow> int \<Rightarrow> nes \<Rightarrow> int \<times> nes" where
  "ins_CPX M addr cycleCount s =
     (let x = REG_X (cpu s);
          (val, s1) = cpu_load M addr s
      in (cycleCount, s1\<lparr>cpu := compare (x - val) (cpu s1)\<rparr>))"

definition ins_CPY :: "mapper \<Rightarrow> int \<Rightarrow> int \<Rightarrow> nes \<Rightarrow> int \<times> nes" where
  "ins_CPY M addr cycleCount s =
     (let y = REG_Y (cpu s);
          (val, s1) = cpu_load M addr s
      in (cycleCount, s1\<lparr>cpu := compare (y - val) (cpu s1)\<rparr>))"

text \<open>DEC and INC: \<open>d\<close> is -1 or 1.\<close>

definition ins_INCDEC :: "mapper \<Rightarrow> int \<Rightarrow> int \<Rightarrow> int \<Rightarrow> nes \<Rightarrow> int \<times> nes" where
  "ins_INCDEC M d addr cycleCount s =
     (let (val, s1) = cpu_load M addr s;
          temp = (val + d) AND 0xff;
          s2 = s1\<lparr>cpu := set_nz temp (cpu s1)\<rparr>
      in (cycleCount, cpu_write M addr temp s2))"

definition ins_EOR :: "mapper \<Rightarrow> int \<Rightarrow> int \<Rightarrow> int \<Rightarrow> nes \<Rightarrow> int \<times> nes" where
  "ins_EOR M addr cycleAdd cycleCount s =
     (let (val, s1) = cpu_load M addr s;
          r = (val XOR REG_ACC (cpu s1)) AND 0xff
      in (cycleCount + cycleAdd, s1\<lparr>cpu := set_nz r ((cpu s1)\<lparr>REG_ACC := r\<rparr>)\<rparr>))"

definition ins_JSR :: "mapper \<Rightarrow> int \<Rightarrow> int \<Rightarrow> nes \<Rightarrow> int \<times> nes" where
  "ins_JSR M addr cycleCount s =
     (let s1 = push M (drop_bit 8 (REG_PC (cpu s)) AND 0xff) s;
          s2 = push M (REG_PC (cpu s1) AND 0xff) s1
      in (cycleCount, s2\<lparr>cpu := (cpu s2)\<lparr>REG_PC := addr - 1\<rparr>\<rparr>))"

definition ins_LDA :: "mapper \<Rightarrow> int \<Rightarrow> int \<Rightarrow> int \<Rightarrow> nes \<Rightarrow> int \<times> nes" where
  "ins_LDA M addr cycleAdd cycleCount s =
     (let (val, s1) = cpu_load M addr s
      in (cycleCount + cycleAdd, s1\<lparr>cpu := set_nz val ((cpu s1)\<lparr>REG_ACC := val\<rparr>)\<rparr>))"

definition ins_LDX :: "mapper \<Rightarrow> int \<Rightarrow> int \<Rightarrow> int \<Rightarrow> nes \<Rightarrow> int \<times> nes" where
  "ins_LDX M addr cycleAdd cycleCount s =
     (let (val, s1) = cpu_load M addr s
      in (cycleCount + cycleAdd, s1\<lparr>cpu := set_nz val ((cpu s1)\<lparr>REG_X := val\<rparr>)\<rparr>))"

definition ins_LDY :: "mapper \<Rightarrow> int \<Rightarrow> int \<Rightarrow> int \<Rightarrow> nes \<Rightarrow> int \<times> nes" where
  "ins_LDY M addr cycleAdd cycleCount s =
     (let (val, s1) = cpu_load M addr s
      in (cycleCount + cycleAdd, s1\<lparr>cpu := set_nz val ((cpu s1)\<lparr>REG_Y := val\<rparr>)\<rparr>))"

definition ins_LSR :: "mapper \<Rightarrow> int \<Rightarrow> int \<Rightarrow> int \<Rightarrow> nes \<Rightarrow> int \<times> nes" where
  "ins_LSR M addrMode addr cycleCount s =
     (if addrMode = 4 then
        (let c = cpu s;
             r = drop_bit 1 (REG_ACC c)
         in (cycleCount,
             s\<lparr>cpu := c\<lparr>F_CARRY := REG_ACC c AND 1, REG_ACC := r, F_SIGN := 0, F_ZERO := r\<rparr>\<rparr>))
      else
        (let (temp, s1) = cpu_load M addr s;
             r = drop_bit 1 temp;
             s2 = cpu_write M addr r (s1\<lparr>cpu := (cpu s1)\<lparr>F_CARRY := temp AND 1\<rparr>\<rparr>)
         in (cycleCount, s2\<lparr>cpu := (cpu s2)\<lparr>F_SIGN := 0, F_ZERO := r\<rparr>\<rparr>)))"

definition ins_ORA :: "mapper \<Rightarrow> int \<Rightarrow> int \<Rightarrow> int \<Rightarrow> int \<Rightarrow> nes \<Rightarrow> int \<times> nes" where
  "ins_ORA M addrMode addr cycleAdd cycleCount s =
     (let (val, s1) = cpu_load M addr s;
          r = (val OR REG_ACC (cpu s1)) AND 0xff
      in (mode_cycles addrMode cycleAdd cycleCount,
          s1\<lparr>cpu := set_nz r ((cpu s1)\<lparr>REG_ACC := r\<rparr>)\<rparr>))"

definition ins_PHP :: "mapper \<Rightarrow> int \<Rightarrow> nes \<Rightarrow> int \<times> nes" where
  "ins_PHP M cycleCount s =
     (let s1 = s\<lparr>cpu := (cpu s)\<lparr>F_BRK := 1\<rparr>\<rparr>
      in (cycleCount, push M (status_byte (cpu s1)) s1))"

definition ins_PLA :: "mapper \<Rightarrow> int \<Rightarrow> nes \<Rightarrow> int \<times> nes" where
  "ins_PLA M cycleCount s =
     (let (val, s1) = pull M s
      in (cycleCount, s1\<lparr>cpu := set_nz val ((cpu s1)\<lparr>REG_ACC := val\<rparr>)\<rparr>))"

definition ins_PLP :: "mapper \<Rightarrow> int \<Rightarrow> nes \<Rightarrow> int \<times> nes" where
  "ins_PLP M cycleCount s =
     (let (temp, s1) = pull M s
      in (cycleCount,
          s1\<lparr>cpu := (cpu s1)\<lparr>
            F_CARRY := temp AND 1,
            F_ZERO := (if drop_bit 1 temp AND 1 = 1 then 0 else 1),
            F_INTERRUPT := drop_bit 2 temp AND 1,
            F_DECIMAL := drop_bit 3 temp AND 1,
            F_BRK := drop_bit 4 temp AND 1,
            F_NOTUSED := drop_bit 5 temp AND 1,
            F_OVERFLOW := drop_bit 6 temp AND 1,
            F_SIGN := drop_bit 7 temp AND 1,
            F_NOTUSED := 1\<rparr>\<rparr>))"

definition ins_ROL :: "mapper \<Rightarrow> int \<Rightarrow> int \<Rightarrow> int \<Rightarrow> nes \<Rightarrow> int \<times> nes" where
  "ins_ROL M addrMode addr cycleCount s =
     (if addrMode = 4 then
        (let c = cpu s;
             temp = (push_bit 1 (REG_ACC c) AND 0xff) + F_CARRY c
         in (cycleCount,
             s\<lparr>cpu := set_nz temp (c\<lparr>F_CARRY := drop_bit 7 (REG_ACC c) AND 1, REG_ACC := temp\<rparr>)\<rparr>))
      else
        (let (val, s1) = cpu_load M addr s;
             temp = (push_bit 1 val AND 0xff) + F_CARRY (cpu s1);
             s2 = cpu_write M addr temp (s1\<lparr>cpu := (cpu s1)\<lparr>F_CARRY := drop_bit 7 val AND 1\<rparr>\<rparr>)
         in (cycleCount, s2\<lparr>cpu := set_nz temp (cpu s2)\<rparr>)))"

definition ins_ROR :: "mapper \<Rightarrow> int \<Rightarrow> int \<Rightarrow> int \<Rightarrow> nes \<Rightarrow> int \<times> nes" where
  "ins_ROR M addrMode addr cycleCount s =
     (if addrMode = 4 then
        (let c = cpu s;
             temp = drop_bit 1 (REG_ACC c) + push_bit 7 (F_CARRY c)
         in (cycleCount,
             s\<lparr>cpu := set_nz temp (c\<lparr>F_CARRY := REG_ACC c AND 1, REG_ACC := temp\<rparr>)\<rparr>))
      else
        (let (val, s1) = cpu_load M addr s;
             temp = drop_bit 1 val + push_bit 7 (F_CARRY (cpu s1));
             s2 = cpu_write M addr temp (s1\<lparr>cpu := (cpu s1)\<lparr>F_CARRY := val AND 1\<rparr>\<rparr>)
         in (cycleCount, s2\<lparr>cpu := set_nz temp (cpu s2)\<rparr>)))"

text \<open>
  RTI.  When the pulled return address is \<open>0xffff\<close> the case returns before its last two
  statements.
\<close>

definition ins_RTI :: "mapper \<Rightarrow> int \<Rightarrow> nes \<Rightarrow> int \<times> nes" where
  "ins_RTI M cycleCount s =
     (let (temp, s1) = pull M s;
          s2 = s1\<lparr>cpu := (cpu s1)\<lparr>
                 F_CARRY := temp AND 1,
                 F_ZERO := (if drop_bit 1 temp AND 1 = 0 then 1 else 0),
                 F_INTERRUPT := drop_bit 2 temp AND 1,
                 F_DECIMAL := drop_bit 3 temp AND 1,
                 F_BRK := drop_bit 4 temp AND 1,
                 F_NOTUSED := drop_bit 5 temp AND 1,
                 F_OVERFLOW := drop_bit 6 temp AND 1,
                 F_SIGN := drop_bit 7 temp AND 1\<rparr>\<rparr>;
          (lo, s3) = pull M s2;
          s4 = s3\<lparr>cpu := (cpu s3)\<lparr>REG_PC := lo\<rparr>\<rparr>;
          (hi, s5) = pull M s4;
          s6 = s5\<lparr>cpu := (cpu s5)\<lparr>REG_PC := lo + push_bit 8 hi\<rparr>\<rparr>
      in if REG_PC (cpu s6) = 0xffff then (cycleCount, s6)
         else (cycleCount,
               s6\<lparr>cpu := (cpu s6)\<lparr>REG_PC := REG_PC (cpu s6) - 1, F_NOTUSED := 1\<rparr>\<rparr>))"

definition ins_RTS :: "mapper \<Rightarrow> int \<Rightarrow> nes \<Rightarrow> int \<times> nes" where
  "ins_RTS M cycleCount s =
     (let (lo, s1) = pull M s;
          s2 = s1\<lparr>cpu := (cpu s1)\<lparr>REG_PC := lo\<rparr>\<rparr>;
          (hi, s3) = pull M s2
      in (cycleCount, s3\<lparr>cpu := (cpu s3)\<lparr>REG_PC := lo + push_bit 8 hi\<rparr>\<rparr>))"

text \<open>The subtraction shared by SBC and ISC, on the operand \<open>val\<close>.\<close>

definition subtract :: "int \<Rightarrow> CPU \<Rightarrow> CPU" where
  "subtract val c =
     (let temp = REG_ACC c - val - (1 - F_CARRY c)
      in c\<lparr>F_SIGN := drop_bit 7 temp AND 1,
           F_ZERO := temp AND 0xff,
           F_OVERFLOW := (if (REG_ACC c XOR temp) AND 0x80 \<noteq> 0 \<and> (REG_ACC c XOR val) AND 0x80 \<noteq> 0
                          then 1 else 0),
           F_CARRY := (if temp < 0 then 0 else 1),
           REG_ACC := temp AND 0xff\<rparr>)"

definition ins_SBC :: "mapper \<Rightarrow> int \<Rightarrow> int \<Rightarrow> int \<Rightarrow> int \<Rightarrow> nes \<Rightarrow> int \<times> nes" where
  "ins_SBC M addrMode addr cycleAdd cycleCount s =
     (let (val, s1) = cpu_load M addr s
      in (mode_cycles addrMode cycleAdd cycleCount, s1\<lparr>cpu := subtract val (cpu s1)\<rparr>))"

definition ins_TSX :: "int \<Rightarrow> nes \<Rightarrow> int \<times> nes" where
  "ins_TSX cycleCount s =
     (let c = cpu s;
          x = REG_SP c AND 0xff
      in (cycleCount, s\<lparr>cpu := c\<lparr>REG_X := x, F_SIGN := drop_bit 7 (REG_SP c) AND 1, F_ZERO := x\<rparr>\<rparr>))"

definition ins_ALR :: "mapper \<Rightarrow> int \<Rightarrow> int \<Rightarrow> nes \<Rightarrow> int \<times> nes" where
  "ins_ALR M addr cycleCount s =
     (let a = REG_ACC (cpu s);
          (val, s1) = cpu_load M addr s;
          temp = a AND val
      in (cycleCount,
          s1\<lparr>cpu := (cpu s1)\<lparr>F_CARRY := temp AND 1, F_ZERO := drop_bit 1 temp,
                              REG_ACC := drop_bit 1 temp, F_SIGN := 0\<rparr>\<rparr>))"

definition ins_ANC :: "mapper \<Rightarrow> int \<Rightarrow> int \<Rightarrow> nes \<Rightarrow> int \<times> nes" where
  "ins_ANC M addr cycleCount s =
     (let a = REG_ACC (cpu s);
          (val, s1) = cpu_load M addr s;
          r = a AND val
      in (cycleCount,
          s1\<lparr>cpu := (cpu s1)\<lparr>F_ZERO := r, REG_ACC := r, F_SIGN := drop_bit 7 r AND 1,
                              F_CARRY := drop_bit 7 r AND 1\<rparr>\<rparr>))"

definition ins_ARR :: "mapper \<Rightarrow> int \<Rightarrow> int \<Rightarrow> nes \<Rightarrow> int \<times> nes" where
  "ins_ARR M addr cycleCount s =
     (let a = REG_ACC (cpu s);
          (val, s1) = cpu_load M addr s;
          c = cpu s1;
          temp = a AND val;
          r = drop_bit 1 temp + push_bit 7 (F_CARRY c)
      in (cycleCount,
          s1\<lparr>cpu := c\<lparr>F_ZERO := r, REG_ACC := r, F_SIGN := F_CARRY c,
                       F_CARRY := drop_bit 7 temp AND 1,
                       F_OVERFLOW := (drop_bit 7 temp XOR drop_bit 6 temp) AND 1\<rparr>\<rparr>))"

definition ins_AXS :: "mapper \<Rightarrow> int \<Rightarrow> int \<Rightarrow> nes \<Rightarrow> int \<times> nes" where
  "ins_AXS M addr cycleCount s =
     (let (val, s1) = cpu_load M addr s;
          c = cpu s1;
          temp = (REG_X c AND REG_ACC c) - val
      in (cycleCount,
          s1\<lparr>cpu := c\<lparr>
            F_SIGN := drop_bit 7 temp AND 1,
            F_ZERO := temp AND 0xff,
            F_OVERFLOW := (if (REG_X c XOR temp) AND 0x80 \<noteq> 0 \<and> (REG_X c XOR val) AND 0x80 \<noteq> 0
                           then 1 else 0),
            F_CARRY := (if temp < 0 then 0 else 1),
            REG_X := temp AND 0xff\<rparr>\<rparr>))"

definition ins_LAX :: "mapper \<Rightarrow> int \<Rightarrow> int \<Rightarrow> int \<Rightarrow> nes \<Rightarrow> int \<times> nes" where
  "ins_LAX M addr cycleAdd cycleCount s =
     (let (val, s1) = cpu_load M addr s
      in (cycleCount + cycleAdd,
          s1\<lparr>cpu := (cpu s1)\<lparr>F_ZERO := val, REG_X := val, REG_ACC := val,
                              F_SIGN := drop_bit 7 val AND 1\<rparr>\<rparr>))"

definition ins_DCP :: "mapper \<Rightarrow> int \<Rightarrow> int \<Rightarrow> int \<Rightarrow> int \<Rightarrow> nes \<Rightarrow> int \<times> nes" where
  "ins_DCP M addrMode addr cycleAdd cycleCount s =
     (let (val, s1) = cpu_load M addr s;
          temp = (val - 1) AND 0xff;
          s2 = cpu_write M addr temp s1
      in (mode_cycles addrMode cycleAdd cycleCount,
          s2\<lparr>cpu := compare (REG_ACC (cpu s2) - temp) (cpu s2)\<rparr>))"

definition ins_ISC :: "mapper \<Rightarrow> int \<Rightarrow> int \<Rightarrow> int \<Rightarrow> int \<Rightarrow> nes \<Rightarrow> int \<times> nes" where
  "ins_ISC M addrMode addr cycleAdd cycleCount s =
     (let (val, s1) = cpu_load M addr s;
          temp = (val + 1) AND 0xff;
          s2 = cpu_write M addr temp s1
      in (mode_cycles addrMode cycleAdd cycleCount, s2\<lparr>cpu := subtract temp (cpu s2)\<rparr>))"

definition ins_RLA :: "mapper \<Rightarrow> int \<Rightarrow> int \<Rightarrow> int \<Rightarrow> int \<Rightarrow> nes \<Rightarrow> int \<times> nes" where
  "ins_RLA M addrMode addr cycleAdd cycleCount s =
     (let (val, s1) = cpu_load M addr s;
          temp = (push_bit 1 val AND 0xff) + F_CARRY (cpu s1);
          s2 = cpu_write M addr temp (s1\<lparr>cpu := (cpu s1)\<lparr>F_CARRY := drop_bit 7 val AND 1\<rparr>\<rparr>);
          r = REG_ACC (cpu s2) AND temp
      in (mode_cycles addrMode cycleAdd cycleCount,
          s2\<lparr>cpu := set_nz r ((cpu s2)\<lparr>REG_ACC := r\<rparr>)\<rparr>))"

definition ins_RRA :: "mapper \<Rightarrow> int \<Rightarrow> int \<Rightarrow> int \<Rightarrow> int \<Rightarrow> nes \<Rightarrow> int \<times> nes" where
  "ins_RRA M addrMode addr cycleAdd cycleCount s =
     (let (v, s1) = cpu_load M addr s;
          val = drop_bit 1 v + push_bit 7 (F_CARRY (cpu s1));
          s2 = cpu_write M addr val (s1\<lparr>cpu := (cpu s1)\<lparr>F_CARRY := v AND 1\<rparr>\<rparr>);
          c = cpu s2;
          temp = REG_ACC c + val + F_CARRY c
      in (mode_cycles addrMode cycleAdd cycleCount,
          s2\<lparr>cpu := c\<lparr>
            F_OVERFLOW := (if (REG_ACC c XOR val) AND 0x80 = 0 \<and> (REG_ACC c XOR temp) AND 0x80 \<noteq> 0
                           then 1 else 0),
            F_CARRY := (if temp > 255 then 1 else 0),
            F_SIGN := drop_bit 7 temp AND 1,
            F_ZERO := temp AND 0xff,
            REG_ACC := temp AND 0xff\<rparr>\<rparr>))"

definition ins_SLO :: "mapper \<Rightarrow> int \<Rightarrow> int \<Rightarrow> int \<Rightarrow> int \<Rightarrow> nes \<Rightarrow> int \<times> nes" where
  "ins_SLO M addrMode addr cycleAdd cycleCount s =
     (let (val, s1) = cpu_load M addr s;
          temp = push_bit 1 val AND 0xff;
          s2 = cpu_write M addr temp (s1\<lparr>cpu := (cpu s1)\<lparr>F_CARRY := drop_bit 7 val AND 1\<rparr>\<rparr>);
          r = REG_ACC (cpu s2) OR temp
      in (mode_cycles addrMode cycleAdd cycleCount,
          s2\<lparr>cpu := set_nz r ((cpu s2)\<lparr>REG_ACC := r\<rparr>)\<rparr>))"

definition ins_SRE :: "mapper \<Rightarrow> int \<Rightarrow> int \<Rightarrow> int \<Rightarrow> int \<Rightarrow> nes \<Rightarrow> int \<times> nes" where
  "ins_SRE M addrMode addr cycleAdd cycleCount s =
     (let (val, s1) = cpu_load M addr s;
          temp = drop_bit 1 val;
          s2 = cpu_write M addr temp (s1\<lparr>cpu := (cpu s1)\<lparr>F_CARRY := val AND 1\<rparr>\<rparr>);
          r = REG_ACC (cpu s2) XOR temp
      in (mode_cycles addrMode cycleAdd cycleCount,
          s2\<lparr>cpu := set_nz r ((cpu s2)\<lparr>REG_ACC := r\<rparr>)\<rparr>))"

definition ins_IGN :: "mapper \<Rightarrow> int \<Rightarrow> int \<Rightarrow> int \<Rightarrow> int \<Rightarrow> nes \<Rightarrow> int \<times> nes" where
  "ins_IGN M addrMode addr cycleAdd cycleCount s =
     (mode_cycles addrMode cycleAdd cycleCount, snd (cpu_load M addr s))"

text \<open>The instruction switch.  An instruction number outside the table stops the console.\<close>

definition execute ::
  "mapper \<Rightarrow> int \<Rightarrow> int \<Rightarrow> int \<Rightarrow> int \<Rightarrow> int \<Rightarrow> int \<Rightarrow> nes \<Rightarrow> int \<times> nes" where
  "execute M ins addrMode addr cycleAdd opaddr cycleCount s =
     (let c = cpu s in
      if ins = INS_ADC then ins_ADC M addr cycleAdd cycleCount s
      else if ins = INS_AND then ins_AND M addrMode addr cycleAdd cycleCount s
      else if ins = INS_ASL then ins_ASL M addrMode addr cycleCount s
      else if ins = INS_BCC then branch (F_CARRY c = 0) opaddr addr cycleCount s
      else if ins = INS_BCS then branch (F_CARRY c = 1) opaddr addr cycleCount s
      else if ins = INS_BEQ then branch (F_ZERO c = 0) opaddr addr cycleCount s
      else if ins = INS_BIT then ins_BIT M addr cycleCount s
      else if ins = INS_BMI then ins_BMI addr cycleCount s
      else if ins = INS_BNE then branch (F_ZERO c \<noteq> 0) opaddr addr cycleCount s
      else if ins = INS_BPL then branch (F_SIGN c = 0) opaddr addr cycleCount s
      else if ins = INS_BRK then ins_BRK M cycleCount s
      else if ins = INS_BVC then branch (F_OVERFLOW c = 0) opaddr addr cycleCount s
      else if ins = INS_BVS then branch (F_OVERFLOW c = 1) opaddr addr cycleCount s
      else if ins = INS_CLC then (cycleCount, s\<lparr>cpu := c\<lparr>F_CARRY := 0\<rparr>\<rparr>)
      else if ins = INS_CLD then (cycleCount, s\<lparr>cpu := c\<lparr>F_DECIMAL := 0\<rparr>\<rparr>)
      else if ins = INS_CLI then (cycleCount, s\<lparr>cpu := c\<lparr>F_INTERRUPT := 0\<rparr>\<rparr>)
      else if ins = INS_CLV then (cycleCount, s\<lparr>cpu := c\<lparr>F_OVERFLOW := 0\<rparr>\<rparr>)
      else if ins = INS_CMP then ins_CMP M addr cycleAdd cycleCount s
      else if ins = INS_CPX then ins_CPX M addr cycleCount s
      else if ins = INS_CPY then ins_CPY M addr cycleCount s
      else if ins = INS_DEC then ins_INCDEC M (-1) addr cycleCount s
      else if ins = INS_DEX then
        (cycleCount, s\<lparr>cpu := set_nz ((REG_X c - 1) AND 0xff) (c\<lparr>REG_X := (REG_X c - 1) AND 0xff\<rparr>)\<rparr>)
      else if ins = INS_DEY then
        (cycleCount, s\<lparr>cpu := set_nz ((REG_Y c - 1) AND 0xff) (c\<lparr>REG_Y := (REG_Y c - 1) AND 0xff\<rparr>)\<rparr>)
      else if ins = INS_EOR then ins_EOR M addr cycleAdd cycleCount s
      else if ins = INS_INC then ins_INCDEC M 1 addr cycleCount s
      else if ins = INS_INX then
        (cycleCount, s\<lparr>cpu := set_nz ((REG_X c + 1) AND 0xff) (c\<lparr>REG_X := (REG_X c + 1) AND 0xff\<rparr>)\<rparr>)
      else if ins = INS_INY then
        (cycleCount, s\<lparr>cpu := set_nz ((REG_Y c + 1) AND 0xff) (c\<lparr>REG_Y := (REG_Y c + 1) AND 0xff\<rparr>)\<rparr>)
      else if ins = INS_JMP then (cycleCount, s\<lparr>cpu := c\<lparr>REG_PC := addr - 1\<rparr>\<rparr>)
      else if ins = INS_JSR then ins_JSR M addr cycleCount s
      else if ins = INS_LDA then ins_LDA M addr cycleAdd cycleCount s
      else if ins = INS_LDX then ins_LDX M addr cycleAdd cycleCount s
      else if ins = INS_LDY then ins_LDY M addr cycleAdd cycleCount s
      else if ins = INS_LSR then ins_LSR M addrMode addr cycleCount s
      else if ins = INS_NOP then (cycleCount, s)
      else if ins = INS_ORA then ins_ORA M addrMode addr cycleAdd cycleCount s
      else if ins = INS_PHA then (cycleCount, push M (REG_ACC c) s)
      else if ins = INS_PHP then ins_PHP M cycleCount s
      else if ins = INS_PLA then ins_PLA M cycleCount s
      else if ins = INS_PLP then ins_PLP M cycleCount s
      else if ins = INS_ROL then ins_ROL M addrMode addr cycleCount s
      else if ins = INS_ROR then ins_ROR M addrMode addr cycleCount s
      else if ins = INS_RTI then ins_RTI M cycleCount s
      else if ins = INS_RTS then ins_RTS M cycleCount s
      else if ins = INS_SBC then ins_SBC M addrMode addr cycleAdd cycleCount s
      else if ins = INS_SEC then (cycleCount, s\<lparr>cpu := c\<lparr>F_CARRY := 1\<rparr>\<rparr>)
      else if ins = INS_SED then (cycleCount, s\<lparr>cpu := c\<lparr>F_DECIMAL := 1\<rparr>\<rparr>)
      else if ins = INS_SEI then (cycleCount, s\<lparr>cpu := c\<lparr>F_INTERRUPT := 1\<rparr>\<rparr>)
      else if ins = INS_STA then (cycleCount, cpu_write M addr (REG_ACC c) s)
      else if ins = INS_STX then (cycleCount, cpu_write M addr (REG_X c) s)
      else if ins = INS_STY then (cycleCount, cpu_write M addr (REG_Y c) s)
      else if ins = INS_TAX then (cycleCount, s\<lparr>cpu := set_nz (REG_ACC c) (c\<lparr>REG_X := REG_ACC c\<rparr>)\<rparr>)
      else if ins = INS_TAY then (cycleCount, s\<lparr>cpu := set_nz (REG_ACC c) (c\<lparr>REG_Y := REG_ACC c\<rparr>)\<rparr>)
      else if ins = INS_TSX then ins_TSX cycleCount s
      else if ins = INS_TXA then (cycleCount, s\<lparr>cpu := set_nz (REG_X c) (c\<lparr>REG_ACC := REG_X c\<rparr>)\<rparr>)
      else if ins = INS_TXS then (cycleCount, s\<lparr>cpu := c\<lparr>REG_SP := REG_X c AND 0xff\<rparr>\<rparr>)
      else if ins = INS_TYA then (cycleCount, s\<lparr>cpu := set_nz (REG_Y c) (c\<lparr>REG_ACC := REG_Y c\<rparr>)\<rparr>)
      else if ins = INS_ALR then ins_ALR M addr cycleCount s
      else if ins = INS_ANC then ins_ANC M addr cycleCount s
      else if ins = INS_ARR then ins_ARR M addr cycleCount s
      else if ins = INS_AXS then ins_AXS M addr cycleCount s
      else if ins = INS_LAX then ins_LAX M addr cycleAdd cycleCount s
      else if ins = INS_SAX then (cycleCount, cpu_write M addr (REG_ACC c AND REG_X c) s)
      else if ins = INS_DCP then ins_DCP M addrMode addr cycleAdd cycleCount s
      else if ins = INS_ISC then ins_ISC M addrMode addr cycleAdd cycleCount s
      else if ins = INS_RLA then ins_RLA M addrMode addr cycleAdd cycleCount s
      else if ins = INS_RRA then ins_RRA M addrMode addr cycleAdd cycleCount s
      else if ins = INS_SLO then ins_SLO M addrMode addr cycleAdd cycleCount s
      else if ins = INS_SRE then ins_SRE M addrMode addr cycleAdd cycleCount s
      else if ins = INS_SKB then (cycleCount, s)
      else if ins = INS_IGN then ins_IGN M addrMode addr cycleAdd cycleCount s
      else (cycleCount, s\<lparr>stopped := True\<rparr>))"

text \<open>Fetch, decode and execute: \<open>emulate\<close> after the interrupt gate.\<close>

definition run_instruction :: "mapper \<Rightarrow> nes \<Rightarrow> int \<times> nes" where
  "run_instruction M s =
     (let opaddr = REG_PC (cpu s);
          (opc, s1) = m_load M (opaddr + 1) s;
          opinf = OPDATA opc;
          cycleCount = drop_bit 24 opinf;
          addrMode = drop_bit 8 opinf AND 0xff;
          pc = opaddr + (drop_bit 16 opinf AND 0xff);
          ((addr, cycleAdd), s2) = operand_address M addrMode opaddr pc s1;
          s3 = s2\<lparr>cpu := (cpu s2)\<lparr>REG_PC := pc\<rparr>\<rparr>
      in execute M (opinf AND 0xff) addrMode (addr AND 0xffff) cycleAdd opaddr cycleCount s3)"

text \<open>\<open>CPU.emulate\<close>: the cycles consumed and the state, or the exception thrown.\<close>

definition emulate :: "mapper option \<Rightarrow> nes \<Rightarrow> error + (int \<times> nes)" where
  "emulate mm s =
     (case mm of
        None \<Rightarrow>
          (if irqRequested (cpu s)
           then (case interrupt_gate_null s of Inl e \<Rightarrow> Inl e | Inr s1 \<Rightarrow> Inr (32, s1))
           else Inr (32, s))
      | Some M \<Rightarrow>
          Inr (run_instruction M (if irqRequested (cpu s) then interrupt_gate M s else s)))"

section \<open>Cartridge mappers (mappers.js)\<close>

abbreviation (input) VERTICAL_MIRRORING :: int where "VERTICAL_MIRRORING \<equiv> 0"
abbreviation (input) HORIZONTAL_MIRRORING :: int where "HORIZONTAL_MIRRORING \<equiv> 1"
abbreviation (input) SINGLESCREEN_MIRRORING :: int where "SINGLESCREEN_MIRRORING \<equiv> 3"
abbreviation (input) SINGLESCREEN_MIRRORING2 :: int where "SINGLESCREEN_MIRRORING2 \<equiv> 4"

text \<open>
  The bank counts of the cartridge the mapper was created for.  A mapper is loaded only
  for a ROM whose \<open>valid\<close> flag is set, so the counts are numbers; \<open>null\<close> counts as 0 in
  arithmetic.
\<close>

definition rom_count :: "ROM \<Rightarrow> int" where
  "rom_count r = (case romCount r of None \<Rightarrow> 0 | Some n \<Rightarrow> n)"

definition vrom_count :: "ROM \<Rightarrow> int" where
  "vrom_count r = (case vromCount r of None \<Rightarrow> 0 | Some n \<Rightarrow> n)"

definition load32kRomBank :: "devices \<Rightarrow> ROM \<Rightarrow> int \<Rightarrow> int \<Rightarrow> nes \<Rightarrow> nes" where
  "load32kRomBank D r bank address s =
     loadRomBank D (jsrem (bank * 2 + 1) (rom_count r)) (address + 16384)
       (loadRomBank D (jsrem (bank * 2) (rom_count r)) address s)"

definition load8kVromBank :: "devices \<Rightarrow> ROM \<Rightarrow> int \<Rightarrow> int \<Rightarrow> nes \<Rightarrow> nes" where
  "load8kVromBank D r bank4kStart address s =
     (if vrom_count r = 0 then s
      else loadVromBank D (jsrem (bank4kStart + 1) (vrom_count r)) (address + 4096)
             (loadVromBank D (jsrem bank4kStart (vrom_count r)) address (triggerRendering D s)))"

subsection \<open>Mapper 1 (MMC1)\<close>

text \<open>
  \<open>this.nes.cpu.cycles\<close>.  The CPU object has no property of that name: the constructor
  declares none, \<open>JSON_PROPERTIES\<close> lists none and no statement of the sources assigns one.
  Reading it gives \<open>undefined\<close>, and \<open>undefined || 0\<close> is 0.
\<close>

definition cpu_cycles :: "CPU \<Rightarrow> int option" where
  "cpu_cycles c = None"

definition currentCycle :: "nes \<Rightarrow> int" where
  "currentCycle s = (case cpu_cycles (cpu s) of None \<Rightarrow> 0 | Some n \<Rightarrow> if n = 0 then 0 else n)"

definition updateMirroring :: "devices \<Rightarrow> nes \<Rightarrow> nes" where
  "updateMirroring D s =
     (let mirrorMode = controlReg (mmc1 s) AND 3
      in if mirrorMode = 0 then setMirroring D SINGLESCREEN_MIRRORING s
         else if mirrorMode = 1 then setMirroring D SINGLESCREEN_MIRRORING2 s
         else if mirrorMode = 2 then setMirroring D VERTICAL_MIRRORING s
         else setMirroring D HORIZONTAL_MIRRORING s)"

definition updatePrgBanks :: "devices \<Rightarrow> ROM \<Rightarrow> nes \<Rightarrow> nes" where
  "updatePrgBanks D r s =
     (let prgMode = drop_bit 2 (controlReg (mmc1 s)) AND 3;
          bank = prgBank (mmc1 s) AND 0x0F
      in if prgMode = 0 \<or> prgMode = 1 then load32kRomBank D r (drop_bit 1 bank) 0x8000 s
         else if prgMode = 2 then loadRomBank D bank 0xC000 (loadRomBank D 0 0x8000 s)
         else loadRomBank D (rom_count r - 1) 0xC000 (loadRomBank D bank 0x8000 s))"

definition updateChrBanks :: "devices \<Rightarrow> ROM \<Rightarrow> nes \<Rightarrow> nes" where
  "updateChrBanks D r s =
     (let chrMode = drop_bit 4 (controlReg (mmc1 s)) AND 1
      in if vrom_count r = 0 then s
         else if chrMode = 0 then load8kVromBank D r (chrBank0 (mmc1 s) AND 0x1E) 0x0000 s
         else loadVromBank D (chrBank1 (mmc1 s)) 0x1000 (loadVromBank D (chrBank0 (mmc1 s)) 0x0000 s))"

definition Mapper1_write :: "devices \<Rightarrow> ROM \<Rightarrow> int \<Rightarrow> int \<Rightarrow> nes \<Rightarrow> nes" where
  "Mapper1_write D r address value s =
     (if address < 0x8000 then Mapper_write D address value s
      else if currentCycle s > 0 \<and> currentCycle s - lastWriteCycle (mmc1 s) \<le> 1 then s
      else
        (let s1 = s\<lparr>mmc1 := (mmc1 s)\<lparr>lastWriteCycle := currentCycle s\<rparr>\<rparr>
         in if value AND 0x80 \<noteq> 0 then
              updatePrgBanks D r
                (s1\<lparr>mmc1 := (mmc1 s1)\<lparr>shiftReg := 0x10,
                                        controlReg := controlReg (mmc1 s1) OR 0x0C\<rparr>\<rparr>)
            else
              (let bit = value AND 1;
                   full = (shiftReg (mmc1 s1) AND 1 \<noteq> 0);
                   regValue = drop_bit 1 (shiftReg (mmc1 s1)) OR push_bit 4 bit
               in if full then
                    (let regType = drop_bit 13 address AND 3;
                         s2 = s1\<lparr>mmc1 := (mmc1 s1)\<lparr>shiftReg := 0x10\<rparr>\<rparr>
                     in if regType = 0 then
                          updatePrgBanks D r (updateChrBanks D r (updateMirroring D
                            (s2\<lparr>mmc1 := (mmc1 s2)\<lparr>controlReg := regValue\<rparr>\<rparr>)))
                        else if regType = 1 then
                          updateChrBanks D r (s2\<lparr>mmc1 := (mmc1 s2)\<lparr>chrBank0 := regValue\<rparr>\<rparr>)
                        else if regType = 2 then
                          updateChrBanks D r (s2\<lparr>mmc1 := (mmc1 s2)\<lparr>chrBank1 := regValue\<rparr>\<rparr>)
                        else
                          updatePrgBanks D r (s2\<lparr>mmc1 := (mmc1 s2)\<lparr>prgBank := regValue\<rparr>\<rparr>))
                  else s1\<lparr>mmc1 := (mmc1 s1)\<lparr>shiftReg := regValue\<rparr>\<rparr>)))"

definition Mapper1 :: "devices \<Rightarrow> ROM \<Rightarrow> mapper" where
  "Mapper1 D r = (Mapper D)\<lparr>m_write := Mapper1_write D r\<rparr>"

subsection \<open>Mapper 4 (MMC3)\<close>

definition clockIrqCounter :: "nes \<Rightarrow> nes" where
  "clockIrqCounter s =
     (let m = mmc3 s
      in if irqCounter m = 0 \<or> irqReloadPending m
         then s\<lparr>mmc3 := m\<lparr>irqCounter := irqLatchValue m, irqReloadPending := False\<rparr>\<rparr>
         else
           (let s1 = s\<lparr>mmc3 := m\<lparr>irqCounter := irqCounter m - 1\<rparr>\<rparr>
            in if irqCounter (mmc3 s1) = 0 \<and> irqEnable (mmc3 s1) \<noteq> 0
               then requestIrq IRQ_NORMAL s1
               else s1))"

definition Mapper4_notifyA12 :: "int \<Rightarrow> nes \<Rightarrow> nes" where
  "Mapper4_notifyA12 value s =
     (let s1 =
        (if value = 1 \<and> ppuA12Prev (mmc3 s) = 0 then
           (let isRendering = (f_bgVisibility (ppu s) = 1 \<or> f_spVisibility (ppu s) = 1)
            in if isRendering then
                 (let currentScanline = scanline (ppu s)
                  in if lastClockScanline (mmc3 s) \<noteq> currentScanline then
                       (let s2 = clockIrqCounter s
                        in s2\<lparr>mmc3 := (mmc3 s2)\<lparr>lastClockScanline := currentScanline\<rparr>\<rparr>)
                     else s)
               else s)
         else s)
      in s1\<lparr>mmc3 := (mmc3 s1)\<lparr>ppuA12Prev := value\<rparr>\<rparr>)"

definition executeCommand :: "devices \<Rightarrow> ROM \<Rightarrow> int \<Rightarrow> int \<Rightarrow> nes \<Rightarrow> nes" where
  "executeCommand D r cmd arg s =
     (let chrSel = chrAddressSelect (mmc3 s)
      in if cmd = 0 then
           (if chrSel = 0
            then load1kVromBank D (arg + 1) 0x0400 (load1kVromBank D arg 0x0000 s)
            else load1kVromBank D (arg + 1) 0x1400 (load1kVromBank D arg 0x1000 s))
         else if cmd = 1 then
           (if chrSel = 0
            then load1kVromBank D (arg + 1) 0x0c00 (load1kVromBank D arg 0x0800 s)
            else load1kVromBank D (arg + 1) 0x1c00 (load1kVromBank D arg 0x1800 s))
         else if cmd = 2 then load1kVromBank D arg (if chrSel = 0 then 0x1000 else 0x0000) s
         else if cmd = 3 then load1kVromBank D arg (if chrSel = 0 then 0x1400 else 0x0400) s
         else if cmd = 4 then load1kVromBank D arg (if chrSel = 0 then 0x1800 else 0x0800) s
         else if cmd = 5 then load1kVromBank D arg (if chrSel = 0 then 0x1c00 else 0x0c00) s
         else if cmd = 6 then
           (let s1 =
              (if prgAddressChanged (mmc3 s) then
                 (let s0 = s\<lparr>mmc3 := (mmc3 s)\<lparr>prgAddressChanged := False\<rparr>\<rparr>;
                      lastBank = push_bit 1 (rom_count r - 1)
                  in if prgAddressSelect (mmc3 s0) = 0
                     then load8kRomBank D lastBank 0xC000 s0
                     else load8kRomBank D lastBank 0x8000 s0)
               else s)
            in if prgAddressSelect (mmc3 s1) = 0
               then load8kRomBank D arg 0x8000 s1
               else load8kRomBank D arg 0xC000 s1)
         else if cmd = 7 then load8kRomBank D arg 0xA000 s
         else s)"

definition Mapper4_write :: "devices \<Rightarrow> ROM \<Rightarrow> int \<Rightarrow> int \<Rightarrow> nes \<Rightarrow> nes" where
  "Mapper4_write D r address value s =
     (if address < 0x8000 then Mapper_write D address value s
      else
        (let k = address AND 0xE001;
             m = mmc3 s
         in if k = 0x8000 then
              (let tmp = drop_bit 6 value AND 1
               in s\<lparr>mmc3 := m\<lparr>command := value AND 7,
                      prgAddressChanged := (if tmp \<noteq> prgAddressSelect m then True
                                            else prgAddressChanged m),
                      prgAddressSelect := tmp,
                      chrAddressSelect := drop_bit 7 value AND 1\<rparr>\<rparr>)
            else if k = 0x8001 then executeCommand D r (command m) value s
            else if k = 0xA000 then
              (if value AND 1 \<noteq> 0 then setMirroring D HORIZONTAL_MIRRORING s
               else setMirroring D VERTICAL_MIRRORING s)
            else if k = 0xA001 then s
            else if k = 0xC000 then s\<lparr>mmc3 := m\<lparr>irqLatchValue := value\<rparr>\<rparr>
            else if k = 0xC001 then s\<lparr>mmc3 := m\<lparr>irqCounter := 0, irqReloadPending := True\<rparr>\<rparr>
            else if k = 0xE000 then
              s\<lparr>mmc3 := m\<lparr>irqEnable := 0\<rparr>, cpu := (cpu s)\<lparr>irqRequested := False\<rparr>\<rparr>
            else if k = 0xE001 then s\<lparr>mmc3 := m\<lparr>irqEnable := 1\<rparr>\<rparr>
            else s))"

definition Mapper4 :: "devices \<Rightarrow> ROM \<Rightarrow> mapper" where
  "Mapper4 D r = (Mapper D)\<lparr>m_write := Mapper4_write D r, notifyA12 := Some Mapper4_notifyA12\<rparr>"

subsection \<open>Mapper 10 (MMC4)\<close>

text \<open>
  \<open>safeSwitchBank\<close> of \<open>Mapper10\<close>, on the decoded tiles, with \<open>this.nes.rom\<close> read from
  the state.  \<open>ROM.load\<close> sets \<open>vromCount\<close>, \<open>vrom\<close> and \<open>vromTile\<close> together; with one of
  them still \<open>null\<close> nothing is switched.  The copy of the raw pattern bytes into
  \<open>vramMem\<close>, which the scanline renderer does not read, is not modelled.
\<close>

definition safeSwitchBank :: "int \<Rightarrow> int \<Rightarrow> nes \<Rightarrow> nes" where
  "safeSwitchBank bank0 address s =
     (case nes_rom s of
        None \<Rightarrow> s
      | Some r \<Rightarrow>
          (case (vromCount r, vrom r, vromTile r) of
             (Some vc, Some banks, Some tiles) \<Rightarrow>
               (if vc = 0 then s
                else
                  (let bank = (if bank0 \<ge> vc then jsrem bank0 vc else bank0)
                   in if \<not> (0 \<le> bank \<and> nat bank < length banks) then s
                      else
                        (let baseIndex = drop_bit 4 address;
                             p = ppu s;
                             p1 = (if nat bank < length tiles
                                   then p\<lparr>ptTile := (\<lambda>k. if baseIndex \<le> k \<and> k < baseIndex + 256
                                             then (if nat (k - baseIndex) < length (tiles ! nat bank)
                                                   then Some (tiles ! nat bank ! nat (k - baseIndex))
                                                   else None)
                                             else ptTile p k)\<rparr>
                                   else p)
                         in s\<lparr>ppu := p1\<lparr>validTileData := False\<rparr>\<rparr>)))
           | _ \<Rightarrow> s))"

definition latch_half :: "int \<Rightarrow> bool \<Rightarrow> nes \<Rightarrow> nes" where
  "latch_half masked hi s =
     (let m = mmc2 s
      in if \<not> hi then
           (if masked = 0x0FD0 then
              (if latchLo m \<noteq> 0
               then safeSwitchBank (latch_chrBank0 m) 0x0000 (s\<lparr>mmc2 := m\<lparr>latchLo := 0\<rparr>\<rparr>)
               else s)
            else if masked = 0x0FE0 then
              (if latchLo m \<noteq> 1
               then safeSwitchBank (latch_chrBank1 m) 0x0000 (s\<lparr>mmc2 := m\<lparr>latchLo := 1\<rparr>\<rparr>)
               else s)
            else s)
         else
           (if masked = 0x0FD0 then
              (if latchHi m \<noteq> 0
               then safeSwitchBank (latch_chrBank2 m) 0x1000 (s\<lparr>mmc2 := m\<lparr>latchHi := 0\<rparr>\<rparr>)
               else s)
            else if masked = 0x0FE0 then
              (if latchHi m \<noteq> 1
               then safeSwitchBank (latch_chrBank3 m) 0x1000 (s\<lparr>mmc2 := m\<lparr>latchHi := 1\<rparr>\<rparr>)
               else s)
            else s))"

definition Mapper10_latchAccess :: "int \<Rightarrow> nes \<Rightarrow> nes" where
  "Mapper10_latchAccess address s =
     (if address \<ge> 0x2000 then s
      else if address AND 0x1000 = 0 then latch_half (address AND 0x0FF0) False s
      else latch_half (address AND 0x0FF0) True s)"

text \<open>
  What the PPU and the CPU's reads see of the mapper: the inherited \<open>load\<close>, the flag
  \<open>hasLatch\<close> set by the constructor, no \<open>notifyA12\<close>, and \<open>latchAccess\<close>.  Its
  bank-register writes at 0x8000 and above are not modelled: below, only the renderer
  calls this object.
\<close>

definition Mapper10 :: "devices \<Rightarrow> mapper" where
  "Mapper10 D = (Mapper D)\<lparr>hasLatch := True, latchAccess := Mapper10_latchAccess\<rparr>"

section \<open>Background scanline renderer (ppu.js)\<close>

text \<open>
  \<open>getTileIndex\<close> and \<open>getAttrib\<close> of a name table of width 32, and the pixel and opacity
  lookups of a tile.  \<open>nameTable[this.curNt]\<close> is \<open>undefined\<close> when \<open>curNt\<close> is, or when it is
  no index of the array.
\<close>

definition getTileIndex :: "NameTable \<Rightarrow> int \<Rightarrow> int \<Rightarrow> int option" where
  "getTileIndex n x y = nt_tile n (y * 32 + x)"

definition getAttrib :: "NameTable \<Rightarrow> int \<Rightarrow> int \<Rightarrow> int option" where
  "getAttrib n x y = nt_attrib n (y * 32 + x)"

definition cur_nameTable :: "PPU \<Rightarrow> NameTable option" where
  "cur_nameTable p = (case curNt p of None \<Rightarrow> None | Some i \<Rightarrow> nameTable p i)"

definition tpix :: "tile \<Rightarrow> int \<Rightarrow> int option" where
  "tpix t k = (if 0 \<le> k \<and> nat k < length (pix t) then Some (pix t ! nat k) else None)"

definition opaque_at :: "tile \<Rightarrow> int \<Rightarrow> bool" where
  "opaque_at t k = (0 \<le> k \<and> nat k < length (opaque t) \<and> opaque t ! nat k)"

text \<open>The tile count of a scanline, as \<open>renderBgScanline\<close> chooses it.\<close>

definition isMMC2 :: "nes \<Rightarrow> bool" where
  "isMMC2 s = (case nes_rom s of None \<Rightarrow> False | Some r \<Rightarrow> mapperType r = Some 9)"

definition bg_tileCount :: "nes \<Rightarrow> nat" where
  "bg_tileCount s = (if isMMC2 s then 34 else 32)"

text \<open>
  \<open>imgPalette[col + att]\<close>: with \<open>col\<close> or \<open>att\<close> \<open>undefined\<close> the index is NaN and the entry
  \<open>undefined\<close>.  \<open>pixrendered[destIndex] |= 256\<close> reads \<open>undefined\<close> as 0.
\<close>

definition palette_at :: "PPU \<Rightarrow> int option \<Rightarrow> int option \<Rightarrow> int option" where
  "palette_at p col att =
     (case (col, att) of (Some c, Some a) \<Rightarrow> imgPalette p (c + a) | _ \<Rightarrow> None)"

definition put_pixel :: "bool \<Rightarrow> int \<Rightarrow> int option \<Rightarrow> PPU \<Rightarrow> PPU" where
  "put_pixel bgb d v p =
     (let p1 = (if bgb then p\<lparr>bgbuffer := (bgbuffer p)(d := v)\<rparr> else p\<lparr>buffer := (buffer p)(d := v)\<rparr>)
      in p1\<lparr>pixrendered := (pixrendered p1)(d :=
              Some ((case pixrendered p1 d of None \<Rightarrow> 0 | Some x \<Rightarrow> x) OR 256))\<rparr>)"

text \<open>
  The two pixel loops of a tile row, over the remaining values of \<open>sx\<close>; \<open>col !== 0\<close> holds
  of a pixel that is \<open>undefined\<close>.
\<close>

fun draw_pixels ::
  "tile \<Rightarrow> bool \<Rightarrow> int \<Rightarrow> int option \<Rightarrow> bool \<Rightarrow> int list \<Rightarrow> int \<Rightarrow> PPU \<Rightarrow> int \<times> PPU" where
  "draw_pixels t opq tscanoffset att bgb [] d p = (d, p)"
| "draw_pixels t opq tscanoffset att bgb (sx # sxs) d p =
     (let col = tpix t (tscanoffset + sx);
          p1 = (if opq then put_pixel bgb d (palette_at p col att) p
                else if col \<noteq> Some 0 then put_pixel bgb d (palette_at p col att) p
                else p)
      in draw_pixels t opq tscanoffset att bgb sxs (d + 1) p1)"

definition render_tile ::
  "bool \<Rightarrow> int \<Rightarrow> int \<Rightarrow> tile \<Rightarrow> int option \<Rightarrow> int \<Rightarrow> PPU \<Rightarrow> int \<times> PPU" where
  "render_tile bgb tscanoffset tno t att d p =
     (let x = push_bit 3 tno - regFH p
      in if x > -8 then
           (let d1 = (if x < 0 then d - x else d);
                sx = (if x < 0 then - x else 0)
            in draw_pixels t (opaque_at t (cntFV p)) tscanoffset att bgb
                 (map int [nat sx..<8]) d1 p)
         else (d, p))"

text \<open>
  The fetch of one tile; the result is \<open>None\<close> when the loop body ends with \<open>continue\<close>, and
  the \<open>TypeError\<close> is that of a method call on a name table that is \<open>undefined\<close>.  A tile
  index that is \<open>undefined\<close> selects no pattern tile, and \<open>undefined << 4\<close> is 0.  The
  mapper's \<open>latchAccess\<close> runs after the tile has been read from \<open>ptTile\<close>.
\<close>

definition fetch_tile ::
  "mapper option \<Rightarrow> int \<Rightarrow> int \<Rightarrow> nes \<Rightarrow> error + ((tile \<times> int option) option \<times> nes)" where
  "fetch_tile mm baseTile tno s =
     (let p = ppu s
      in if validTileData p then
           (case scantile p tno of
              None \<Rightarrow> Inr (None, s)
            | Some t \<Rightarrow> Inr (Some (t, attrib p tno), s))
         else
           (case cur_nameTable p of
              None \<Rightarrow> Inl TypeError
            | Some nt \<Rightarrow>
                (let tileIndex = getTileIndex nt (cntHT p) (cntVT p);
                     t = (case tileIndex of None \<Rightarrow> None | Some i \<Rightarrow> ptTile p (baseTile + i));
                     s1 = (case mm of
                             None \<Rightarrow> s
                           | Some M \<Rightarrow>
                               latchAccess M
                                 ((if baseTile = 0 then 0x0000 else 0x1000) +
                                  push_bit 4 (case tileIndex of None \<Rightarrow> 0 | Some i \<Rightarrow> i)) s)
                 in case t of
                      None \<Rightarrow> Inr (None, s1)
                    | Some t' \<Rightarrow>
                        (let p1 = ppu s1
                         in case cur_nameTable p1 of
                              None \<Rightarrow> Inl TypeError
                            | Some nt1 \<Rightarrow>
                                (let att = getAttrib nt1 (cntHT p1) (cntVT p1)
                                 in Inr (Some (t', att),
                                      s1\<lparr>ppu := p1\<lparr>scantile := (scantile p1)(tno := Some t'),
                                                     attrib := (attrib p1)(tno := att)\<rparr>\<rparr>))))))"

definition inc_tile_counter :: "PPU \<Rightarrow> PPU" where
  "inc_tile_counter p =
     (if cntHT p + 1 = 32
      then (let h = jsrem (cntH p + 1) 2
            in p\<lparr>cntHT := 0, cntH := h, curNt := ntable1 p (push_bit 1 (cntV p) + h)\<rparr>)
      else p\<lparr>cntHT := cntHT p + 1\<rparr>)"

definition bg_tile ::
  "mapper option \<Rightarrow> bool \<Rightarrow> int \<Rightarrow> int \<Rightarrow> int \<Rightarrow> int \<Rightarrow> int \<Rightarrow> nes \<Rightarrow> error + (int \<times> nes)" where
  "bg_tile mm bgb scan baseTile tscanoffset tno d s =
     (if scan \<ge> 0 then
        (case fetch_tile mm baseTile tno s of
           Inl e \<Rightarrow> Inl e
         | Inr (None, s1) \<Rightarrow> Inr (d, s1)
         | Inr (Some (t, att), s1) \<Rightarrow>
             (let (d1, p1) = render_tile bgb tscanoffset tno t att d (ppu s1)
              in Inr (d1, s1\<lparr>ppu := inc_tile_counter p1\<rparr>)))
      else Inr (d, s\<lparr>ppu := inc_tile_counter (ppu s)\<rparr>))"

text \<open>The tile loop: the first numeric argument counts the iterations left.\<close>

fun bg_tiles ::
  "mapper option \<Rightarrow> bool \<Rightarrow> int \<Rightarrow> int \<Rightarrow> int \<Rightarrow> nat \<Rightarrow> int \<Rightarrow> int \<Rightarrow> nes \<Rightarrow> error + (int \<times> nes)" where
  "bg_tiles mm bgb scan baseTile tscanoffset 0 tno d s = Inr (d, s)"
| "bg_tiles mm bgb scan baseTile tscanoffset (Suc n) tno d s =
     (case bg_tile mm bgb scan baseTile tscanoffset tno d s of
        Inl e \<Rightarrow> Inl e
      | Inr (d1, s1) \<Rightarrow> bg_tiles mm bgb scan baseTile tscanoffset n (tno + 1) d1 s1)"

definition update_vertical_scroll :: "PPU \<Rightarrow> PPU" where
  "update_vertical_scroll p =
     (if cntFV p + 1 = 8 then
        (let p1 = p\<lparr>cntFV := 0, cntVT := cntVT p + 1\<rparr>;
             p2 = (if cntVT p1 = 30 then
                     (let v = jsrem (cntV p1 + 1) 2
                      in p1\<lparr>cntVT := 0, cntV := v, curNt := ntable1 p1 (push_bit 1 v + cntH p1)\<rparr>)
                   else if cntVT p1 = 32 then p1\<lparr>cntVT := 0\<rparr>
                   else p1)
         in p2\<lparr>validTileData := False\<rparr>)
      else p\<lparr>cntFV := cntFV p + 1\<rparr>)"

definition renderBgScanline :: "mapper option \<Rightarrow> bool \<Rightarrow> int \<Rightarrow> nes \<Rightarrow> error + nes" where
  "renderBgScanline mm bgb scan s =
     (let tileCount = bg_tileCount s;
          baseTile = (if regS (ppu s) = 0 then 0 else 256);
          destIndex = push_bit 8 scan - regFH (ppu s);
          s1 = (case mm of
                  None \<Rightarrow> s
                | Some M \<Rightarrow>
                    (case notifyA12 M of
                       None \<Rightarrow> s
                     | Some f \<Rightarrow> f (f_bgPatternTable (ppu s)) s));
          p1 = ppu s1;
          p2 = p1\<lparr>cntHT := regHT p1, cntH := regH p1,
                  curNt := ntable1 p1 (cntV p1 + cntV p1 + regH p1)\<rparr>;
          s2 = s1\<lparr>ppu := p2\<rparr>
      in if scan < 240 \<and> scan - cntFV p2 \<ge> 0 then
           (case bg_tiles mm bgb scan baseTile (push_bit 3 (cntFV p2)) tileCount 0 destIndex s2 of
              Inl e \<Rightarrow> Inl e
            | Inr (d, s') \<Rightarrow>
                Inr (s'\<lparr>ppu := update_vertical_scroll ((ppu s')\<lparr>validTileData := True\<rparr>)\<rparr>))
         else Inr (s2\<lparr>ppu := update_vertical_scroll p2\<rparr>))"

section \<open>Power-on state\<close>

text \<open>The memory pattern that \<open>CPU.reset\<close> writes.\<close>

definition reset_mem :: "int \<Rightarrow> int" where
  "reset_mem a =
     (if 0 \<le> a \<and> a < 0x2000 then
        (if a mod 0x800 = 0x008 then 0xf7
         else if a mod 0x800 = 0x009 then 0xef
         else if a mod 0x800 = 0x00a then 0xdf
         else if a mod 0x800 = 0x00f then 0xbf
         else 0xff)
      else 0)"

definition CPU_reset :: CPU where
  "CPU_reset = \<lparr>mem = reset_mem, REG_ACC = 0, REG_X = 0, REG_Y = 0, REG_SP = 0xff,
     REG_PC = 0x8000 - 1, REG_PC_NEW = 0x8000 - 1, REG_STATUS = 0x28,
     F_CARRY = 0, F_DECIMAL = 0, F_INTERRUPT = 1, F_INTERRUPT_NEW = 1, F_OVERFLOW = 0,
     F_SIGN = 0, F_ZERO = 1, F_NOTUSED = 1, F_NOTUSED_NEW = 1, F_BRK = 1, F_BRK_NEW = 1,
     cyclesToHalt = 0, crash = False, irqRequested = False, irqType = None\<rparr>"

text \<open>
  The PPU after \<open>reset\<close>.  The arrays that \<open>reset\<close> allocates and does not fill hold
  \<open>undefined\<close>, and \<open>curNt\<close> is \<open>null\<close>.  The four name tables are filled with 0; the 512
  pattern tiles are fresh tiles; the image palette is written by the call
  \<open>updateControlReg2(0)\<close> that ends \<open>reset\<close>, which copies the palette entry of colour 0,
  0x525252, into its 16 entries.
\<close>

definition new_NameTable :: NameTable where
  "new_NameTable = \<lparr>nt_tile = (\<lambda>k. if 0 \<le> k \<and> k < 1024 then Some 0 else None),
     nt_attrib = (\<lambda>k. if 0 \<le> k \<and> k < 1024 then Some 0 else None)\<rparr>"

definition PPU_reset :: PPU where
  "PPU_reset = \<lparr>firstWrite = True, sramAddress = 0, spriteMem = (\<lambda>i. 0), scanline = 0,
     lastRenderedScanline = -1, f_nmiOnVblank = 0, f_spriteSize = 0, f_bgPatternTable = 0,
     f_spPatternTable = 0, f_addrInc = 0, f_nTblAddress = 0, f_color = 0, f_spVisibility = 0,
     f_bgVisibility = 0, f_spClipping = 0, f_bgClipping = 0, f_dispType = 0,
     cntFV = 0, cntV = 0, cntH = 0, cntVT = 0, cntHT = 0,
     regFV = 0, regV = 0, regH = 0, regVT = 0, regHT = 0, regFH = 0, regS = 0,
     curNt = None, ntable1 = (\<lambda>i. None),
     nameTable = (\<lambda>i. if 0 \<le> i \<and> i < 4 then Some new_NameTable else None),
     validTileData = False, scantile = (\<lambda>i. None), attrib = (\<lambda>i. None),
     ptTile = (\<lambda>i. if 0 \<le> i \<and> i < 512 then Some new_Tile else None),
     imgPalette = (\<lambda>i. if 0 \<le> i \<and> i < 16 then Some 0x525252 else None),
     buffer = (\<lambda>i. None), bgbuffer = (\<lambda>i. None), pixrendered = (\<lambda>i. None),
     sprX = (\<lambda>i. None), sprY = (\<lambda>i. None), sprTile = (\<lambda>i. None), sprCol = (\<lambda>i. None),
     vertFlip = (\<lambda>i. None), horiFlip = (\<lambda>i. None), bgPriority = (\<lambda>i. None),
     spr0HitX = 0, spr0HitY = 0, hitSpr0 = False\<rparr>"

definition MMC1_reset :: MMC1 where
  "MMC1_reset = \<lparr>shiftReg = 0x10, controlReg = 0x0C, chrBank0 = 0, chrBank1 = 0, prgBank = 0,
     lastWriteCycle = 0\<rparr>"

definition MMC3_reset :: MMC3 where
  "MMC3_reset = \<lparr>command = 0, prgAddressSelect = 0, chrAddressSelect = 0, pageNumber = 0,
     irqCounter = 0, irqLatchValue = 0, irqEnable = 0, irqReloadPending = False,
     prgAddressChanged = False, ppuA12Prev = 0, lastA12Cycle = 0, lastClockScanline = -1\<rparr>"

definition MMC2_reset :: MMC2 where
  "MMC2_reset = \<lparr>latchLo = 0, latchHi = 0, latch_chrBank0 = 0, latch_chrBank1 = 0,
     latch_chrBank2 = 0, latch_chrBank3 = 0, latch_prgBank = 0\<rparr>"

definition power_on :: nes where
  "power_on = \<lparr>cpu = CPU_reset, ppu = PPU_reset, mmc1 = MMC1_reset, mmc3 = MMC3_reset,
     mmc2 = MMC2_reset, nes_rom = None, stopped = False\<rparr>"

text \<open>
  A cartridge header with one PRG bank, no CHR banks and the given mapper number, as
  \<open>ROM.load\<close> leaves the object for it.
\<close>

definition cartridge :: "int \<Rightarrow> ROM" where
  "cartridge n = \<lparr>header = Some ([0x4E, 0x45, 0x53, 0x1A, 1, 0, push_bit 4 (n AND 0xf), n AND 0xf0]
                                 @ replicate 8 0),
     rom = Some [replicate 16384 (Some 0)], vrom = Some [], vromTile = Some [],
     romCount = Some 1, vromCount = Some 0, mirroring = Some 0, batteryRam = Some False,
     trainer = Some False, fourScreen = Some False, mapperType = Some n, valid = True\<rparr>"

text \<open>
  Devices that do nothing: used to run the core on inputs that never reach a device.
\<close>

definition idle :: devices where
  "idle = \<lparr>renderFramePartially = (\<lambda>a b s. s), endFrame = (\<lambda>s. s), updatePalettes = (\<lambda>s. s),
     scrollWrite = (\<lambda>v s. s), writeVRAMAddress = (\<lambda>v s. s), vramWrite = (\<lambda>v s. s),
     vramLoad = (\<lambda>s. (0, s)), io_read = (\<lambda>a s. (0, s)), io_write = (\<lambda>a v s. s),
     loadRomBank = (\<lambda>b a s. s), load8kRomBank = (\<lambda>b a s. s), loadVromBank = (\<lambda>b a s. s),
     load1kVromBank = (\<lambda>b a s. s), setMirroring = (\<lambda>m s. s)\<rparr>"

text \<open>
  The start of a tile row on a cartridge with mapper number \<open>n\<close>, behind vertical
  mirroring as \<open>Mapper10.loadROM\<close> sets it: scroll at the top left, the tile cache
  invalid, both latches in their reset state, pattern tiles \<open>pt\<close>, and name tables holding
  tile 0 everywhere except for the latch tile 0xFE in the top left corner of name table 1,
  the 33rd tile of the row.  Everything else is as in \<open>s\<close>.
\<close>

definition latch_row :: "nes \<Rightarrow> (int \<Rightarrow> tile) \<Rightarrow> int \<Rightarrow> nes" where
  "latch_row s pt n =
     s\<lparr>nes_rom := Some (cartridge n), mmc2 := MMC2_reset,
       ppu := (ppu s)\<lparr>regS := 0, regHT := 0, regH := 0, cntV := 0, cntVT := 0, cntFV := 0,
         validTileData := False,
         ntable1 := (\<lambda>i. if i = 0 \<or> i = 2 then Some 0 else if i = 1 \<or> i = 3 then Some 1
                           else None),
         nameTable := (\<lambda>i. if i = 1
                             then Some (new_NameTable\<lparr>nt_tile := (nt_tile new_NameTable)(0 := Some 0xFE)\<rparr>)
                             else if 0 \<le> i \<and> i < 4 then Some new_NameTable
                             else None),
         ptTile := (\<lambda>i. if 0 \<le> i \<and> i < 512 then Some (pt i) else None)\<rparr>\<rparr>"

section \<open>ROM loading: what is rejected\<close>

lemma indexOf_from_ge: "indexOf_from xs pat i = -1 \<or> i \<le> indexOf_from xs pat i"
  by (induction xs arbitrary: i) (auto, force)

lemma indexOf_prefix: "take (length pat) data = pat \<Longrightarrow> indexOf data pat = 0"
  by (cases data) (auto simp: indexOf_def)

lemma indexOf_from_none:
  "0 \<le> i \<Longrightarrow> indexOf_from xs pat i = -1 \<longleftrightarrow> (\<forall>k \<le> length xs. take (length pat) (drop k xs) \<noteq> pat)"
proof (induction xs arbitrary: i)
  case Nil
  then show ?case by auto
next
  case (Cons c cs)
  show ?case
  proof (cases "take (length pat) (c # cs) = pat")
    case True
    then have "\<not> (\<forall>k \<le> length (c # cs). take (length pat) (drop k (c # cs)) \<noteq> pat)"
      by (metis drop0 le0)
    with True Cons.prems show ?thesis by simp
  next
    case False
    have "(\<forall>k \<le> length (c # cs). take (length pat) (drop k (c # cs)) \<noteq> pat)
          \<longleftrightarrow> (\<forall>k \<le> length cs. take (length pat) (drop k cs) \<noteq> pat)"
    proof
      assume a: "\<forall>k \<le> length (c # cs). take (length pat) (drop k (c # cs)) \<noteq> pat"
      show "\<forall>k \<le> length cs. take (length pat) (drop k cs) \<noteq> pat"
      proof (intro allI impI)
        fix k assume "k \<le> length cs"
        then have "Suc k \<le> length (c # cs)" by simp
        with a have "take (length pat) (drop (Suc k) (c # cs)) \<noteq> pat" by blast
        then show "take (length pat) (drop k cs) \<noteq> pat" by simp
      qed
    next
      assume a: "\<forall>k \<le> length cs. take (length pat) (drop k cs) \<noteq> pat"
      show "\<forall>k \<le> length (c # cs). take (length pat) (drop k (c # cs)) \<noteq> pat"
      proof (intro allI impI)
        fix k assume k: "k \<le> length (c # cs)"
        show "take (length pat) (drop k (c # cs)) \<noteq> pat"
        proof (cases k)
          case 0
          with False show ?thesis by simp
        next
          case (Suc m)
          with k a show ?thesis by simp
        qed
      qed
    qed
    moreover have "indexOf_from (c # cs) pat i = indexOf_from cs pat (i + 1)"
      using False by simp
    moreover have "0 \<le> i + 1" using Cons.prems by simp
    ultimately show ?thesis using Cons.IH by metis
  qed
qed

lemma valid_load_fields: "valid (load_fields r data)"
  by (simp add: load_fields_def Let_def)

lemma fill_bank_nth:
  "length bank = j + n \<Longrightarrow> k < j + n \<Longrightarrow>
   fill_bank data offset j n bank ! k =
     (if j \<le> k \<and> offset + k < length data then Some (byteAt data (offset + k)) else bank ! k)"
proof (induction n arbitrary: j bank)
  case 0
  then show ?case by simp
next
  case (Suc n)
  show ?case
  proof (cases "offset + j \<ge> length data")
    case True
    then show ?thesis by auto
  next
    case False
    have "fill_bank data offset j (Suc n) bank ! k =
          fill_bank data offset (Suc j) n (bank[j := Some (byteAt data (offset + j))]) ! k"
      using False by simp
    also have "\<dots> = (if Suc j \<le> k \<and> offset + k < length data then Some (byteAt data (offset + k))
                      else (bank[j := Some (byteAt data (offset + j))]) ! k)"
      using Suc.prems by (intro Suc.IH) auto
    finally show ?thesis using False Suc.prems by (auto simp: nth_list_update)
  qed
qed

lemma read_bank_nth:
  "k < len \<Longrightarrow> read_bank data offset len ! k =
     (if offset + k < length data then Some (byteAt data (offset + k)) else None)"
  by (simp add: read_bank_def fill_bank_nth)

lemma indexOf_absent:
  "(\<forall>k. take (length pat) (drop k data) \<noteq> pat) \<Longrightarrow> indexOf data pat = -1"
  using indexOf_from_none[of 0 data pat] by (simp add: indexOf_def)

lemma read_banks_length: "length (read_banks data offset n len) = n"
  by (induction n arbitrary: offset) simp_all

lemma read_banks_nth:
  "i < n \<Longrightarrow> read_banks data offset n len ! i = read_bank data (offset + i * len) len"
proof (induction n arbitrary: offset i)
  case 0
  then show ?case by simp
next
  case (Suc n)
  show ?case
  proof (cases i)
    case 0
    then show ?thesis by simp
  next
    case (Suc m)
    then have "m < n" using Suc.prems by simp
    then have "read_banks data (offset + len) n len ! m = read_bank data (offset + len + m * len) len"
      by (rule Suc.IH)
    then show ?thesis using Suc by (simp add: add.assoc)
  qed
qed

lemma read_banks_byte:
  "i < n \<Longrightarrow> j < len \<Longrightarrow>
   read_banks data offset n len ! i ! j =
     (if offset + i * len + j < length data then Some (byteAt data (offset + i * len + j))
      else None)"
  by (simp add: read_banks_nth read_bank_nth)

lemma fill_bank_length: "length (fill_bank data offset j n bank) = length bank"
  by (induction n arbitrary: j bank) simp_all

lemma read_banks_bank_length:
  "i < n \<Longrightarrow> length (read_banks data offset n len ! i) = len"
  by (simp add: read_banks_nth read_bank_def fill_bank_length)

lemma header_nth: "k < 16 \<Longrightarrow> map (byteAt data) [0..<16] ! k = byteAt data k"
  by simp

lemma load_fields_rom:
  "rom (load_fields r data) = Some (read_banks data 16 (nat (byteAt data 4)) 16384)"
  by (simp add: load_fields_def Let_def header_nth del: upt.simps)

lemma load_fields_vrom:
  "vrom (load_fields r data) =
     Some (read_banks data (16 + nat (byteAt data 4) * 16384) (nat (byteAt data 5 * 2)) 4096)"
  by (simp add: load_fields_def Let_def header_nth del: upt.simps)

text \<open>
  C9 (amended).  Loading fails, with the exception ``Not a valid NES ROM.'' and the ROM
  object left as it was (so \<open>valid\<close> stays false), whenever the magic N, E, S, 0x1A
  occurs nowhere in the input.  An input that begins with the magic is accepted and marked
  valid whatever its length.  It then holds as many PRG banks of 16384 bytes as byte 4 of
  the header says and as many CHR banks of 4096 bytes as twice byte 5, read from offset 16
  on; each bank byte is the input byte at its offset where the input reaches that far,
  and is left unset from the end of the input on.
\<close>

theorem ROM_load_rejects:
  "((\<forall>k. take (length magic) (drop k data) \<noteq> magic) \<longrightarrow> ROM_load r data = (Some NotValidRom, r)) \<and>
   (take (length magic) data = magic \<longrightarrow>
      fst (ROM_load r data) = None \<and> valid (snd (ROM_load r data)) \<and>
      (\<exists>prg chr.
         rom (snd (ROM_load r data)) = Some prg \<and> vrom (snd (ROM_load r data)) = Some chr \<and>
         length prg = nat (byteAt data 4) \<and> length chr = nat (byteAt data 5 * 2) \<and>
         (\<forall>i < length prg. length (prg ! i) = 16384) \<and>
         (\<forall>i < length chr. length (chr ! i) = 4096) \<and>
         (\<forall>i < length prg. \<forall>j < 16384.
            prg ! i ! j =
              (if 16 + i * 16384 + j < length data
               then Some (byteAt data (16 + i * 16384 + j)) else None)) \<and>
         (\<forall>i < length chr. \<forall>j < 4096.
            chr ! i ! j =
              (if 16 + length prg * 16384 + i * 4096 + j < length data
               then Some (byteAt data (16 + length prg * 16384 + i * 4096 + j)) else None))))"
proof (intro conjI impI)
  assume "\<forall>k. take (length magic) (drop k data) \<noteq> magic"
  then show "ROM_load r data = (Some NotValidRom, r)"
    by (simp add: ROM_load_def indexOf_absent)
next
  assume m: "take (length magic) data = magic"
  then have l: "ROM_load r data = (None, load_fields r data)"
    by (simp add: ROM_load_def indexOf_prefix)
  show "fst (ROM_load r data) = None" by (simp add: l)
  show "valid (snd (ROM_load r data))" by (simp add: l valid_load_fields)
  show "\<exists>prg chr.
         rom (snd (ROM_load r data)) = Some prg \<and> vrom (snd (ROM_load r data)) = Some chr \<and>
         length prg = nat (byteAt data 4) \<and> length chr = nat (byteAt data 5 * 2) \<and>
         (\<forall>i < length prg. length (prg ! i) = 16384) \<and>
         (\<forall>i < length chr. length (chr ! i) = 4096) \<and>
         (\<forall>i < length prg. \<forall>j < 16384.
            prg ! i ! j =
              (if 16 + i * 16384 + j < length data
               then Some (byteAt data (16 + i * 16384 + j)) else None)) \<and>
         (\<forall>i < length chr. \<forall>j < 4096.
            chr ! i ! j =
              (if 16 + length prg * 16384 + i * 4096 + j < length data
               then Some (byteAt data (16 + length prg * 16384 + i * 4096 + j)) else None))"
    by (intro exI[of _ "read_banks data 16 (nat (byteAt data 4)) 16384"]
          exI[of _ "read_banks data (16 + nat (byteAt data 4) * 16384) (nat (byteAt data 5 * 2)) 4096"])
       (simp add: l load_fields_rom load_fields_vrom read_banks_length read_banks_byte
          read_banks_bank_length)
qed

text \<open>
  The theorem at a three-byte input without the magic, and at an 18-byte input whose header
  announces one PRG bank and which ends after two payload bytes.
\<close>

theorem ROM_load_rejects_witness:
  "(\<forall>k. take (length magic) (drop k [0x4E, 0x45, 0x53]) \<noteq> magic) \<and>
   ROM_load new_ROM [0x4E, 0x45, 0x53] = (Some NotValidRom, new_ROM) \<and> \<not> valid new_ROM \<and>
   take (length magic) [0x4E, 0x45, 0x53, 0x1A, 1, 0, 0, 0, 0, 0, 0, 0, 0, 0, 0, 0, 0xAA, 0xBB] = magic \<and>
   fst (ROM_load new_ROM [0x4E, 0x45, 0x53, 0x1A, 1, 0, 0, 0, 0, 0, 0, 0, 0, 0, 0, 0, 0xAA, 0xBB]) = None \<and>
   valid (snd (ROM_load new_ROM [0x4E, 0x45, 0x53, 0x1A, 1, 0, 0, 0, 0, 0, 0, 0, 0, 0, 0, 0, 0xAA, 0xBB])) \<and>
   (\<exists>prg. rom (snd (ROM_load new_ROM
             [0x4E, 0x45, 0x53, 0x1A, 1, 0, 0, 0, 0, 0, 0, 0, 0, 0, 0, 0, 0xAA, 0xBB])) = Some prg \<and>
      length prg = 1 \<and> length (prg ! 0) = 16384 \<and>
      prg ! 0 ! 0 = Some 0xAA \<and> prg ! 0 ! 1 = Some 0xBB \<and> prg ! 0 ! 2 = None \<and>
      prg ! 0 ! 16383 = None)"
proof -
  let ?d = "[0x4E, 0x45, 0x53, 0x1A, 1, 0, 0, 0, 0, 0, 0, 0, 0, 0, 0, 0, 0xAA, 0xBB] :: int list"
  have a: "\<forall>k. take (length magic) (drop k [0x4E, 0x45, 0x53]) \<noteq> magic"
  proof
    fix k
    show "take (length magic) (drop k [0x4E, 0x45, 0x53]) \<noteq> magic"
    proof
      assume "take (length magic) (drop k [0x4E, 0x45, 0x53]) = magic"
      then have "length (take (length magic) (drop k [0x4E, 0x45, 0x53::int])) = length magic"
        by simp
      then show False by (simp add: magic_def)
    qed
  qed
  have b: "take (length magic) ?d = magic" by (simp add: magic_def)
  have c: "ROM_load new_ROM [0x4E, 0x45, 0x53] = (Some NotValidRom, new_ROM)"
    using a ROM_load_rejects[of "[0x4E, 0x45, 0x53]" new_ROM] by simp
  obtain prg chr where p:
      "fst (ROM_load new_ROM ?d) = None" "valid (snd (ROM_load new_ROM ?d))"
      "rom (snd (ROM_load new_ROM ?d)) = Some prg" "length prg = nat (byteAt ?d 4)"
      "\<forall>i < length prg. length (prg ! i) = 16384"
      "\<forall>i < length prg. \<forall>j < 16384.
            prg ! i ! j =
              (if 16 + i * 16384 + j < length ?d
               then Some (byteAt ?d (16 + i * 16384 + j)) else None)"
    using b ROM_load_rejects[of ?d new_ROM] by blast
  have n: "length prg = 1" using p(4) by (simp add: byteAt_def)
  have "length (prg ! 0) = 16384" using p(5) n by simp
  moreover have "prg ! 0 ! 0 = Some 0xAA" using p(6) n by (simp add: byteAt_def)
  moreover have "prg ! 0 ! 1 = Some 0xBB" using p(6) n by (simp add: byteAt_def)
  moreover have "prg ! 0 ! 2 = None" using p(6) n by simp
  moreover have "prg ! 0 ! 16383 = None" using p(6) n by simp
  ultimately show ?thesis
    using a b c p(1,2,3) n by (simp add: new_ROM_def)
qed

text \<open>
  C9 as stated fails twice: an input with the magic at offset 1 is accepted, and so is a
  five-byte input whose header announces one PRG bank.
\<close>

theorem ROM_load_accepts_counterexample:
  "take 4 [0, 0x4E, 0x45, 0x53, 0x1A] \<noteq> magic \<and>
   fst (ROM_load new_ROM [0, 0x4E, 0x45, 0x53, 0x1A]) = None \<and>
   valid (snd (ROM_load new_ROM [0, 0x4E, 0x45, 0x53, 0x1A])) \<and>
   length [0x4E, 0x45, 0x53, 0x1A, 1 :: int] < declared_size [0x4E, 0x45, 0x53, 0x1A, 1] \<and>
   fst (ROM_load new_ROM [0x4E, 0x45, 0x53, 0x1A, 1]) = None \<and>
   valid (snd (ROM_load new_ROM [0x4E, 0x45, 0x53, 0x1A, 1]))"
  by (simp add: ROM_load_def indexOf_def magic_def valid_load_fields declared_size_def byteAt_def)


section \<open>Reading the PPU status register\<close>

lemma and_ffff_id: "0 \<le> a \<Longrightarrow> a < 0x10000 \<Longrightarrow> a AND 0xffff = (a::int)"
proof -
  assume a: "0 \<le> a" "a < 0x10000"
  have "a AND mask 16 = take_bit 16 a" by (simp add: take_bit_eq_mask)
  also have "\<dots> = a" using a by (simp add: take_bit_int_eq_self)
  finally show ?thesis by (simp add: mask_eq_exp_minus_1)
qed

lemma drop_bit_12_ppu: "0x2000 \<le> a \<Longrightarrow> a \<le> 0x3FFF \<Longrightarrow> drop_bit 12 (a::int) = 2 \<or> drop_bit 12 a = 3"
  by (simp add: drop_bit_eq_div) arith

lemma and_127_128: "((x::int) AND 127) AND 128 = 0"
  by (simp add: and.assoc)

lemma readStatusRegister_eq:
  "readStatusRegister s =
     (mem (cpu s) 0x2002,
      s\<lparr>ppu := (ppu s)\<lparr>firstWrite := True\<rparr>,
        cpu := (cpu s)\<lparr>mem := (mem (cpu s))(0x2002 := mem (cpu s) 0x2002 AND 127)\<rparr>\<rparr>)"
  by (simp add: readStatusRegister_def setStatusFlag_def mem_store_def Let_def)

lemma Mapper_load_status:
  assumes "0x2000 \<le> a" "a \<le> 0x3FFF" "a AND 7 = 2"
  shows "Mapper_load D a s = readStatusRegister s"
proof -
  have m: "a AND 0xffff = a" using assms by (intro and_ffff_id) auto
  have d: "drop_bit 12 a = 2 \<or> drop_bit 12 a = 3" using assms by (intro drop_bit_12_ppu) auto
  show ?thesis
    using assms d by (auto simp: Mapper_load_def m regLoad_def Let_def)
qed

text \<open>
  C6.  A CPU read of any address from 0x2000 to 0x3FFF whose low three bits are 2 (0x2002
  and its mirrors every 8 bytes), through a mapper that uses the base class's \<open>load\<close> as
  every mapper of mappers.js does, returns the status byte as it was before the read,
  VBlank bit included; afterwards \<open>firstWrite\<close> is true (the two-write toggle is cleared),
  bit 7 of the status byte is 0, and nothing else has changed.
\<close>

theorem read_PPUSTATUS:
  assumes "0x2000 \<le> a" and "a \<le> 0x3FFF" and "a AND 7 = 2" and "m_load M = Mapper_load D"
  shows "cpu_load M a s =
           (mem (cpu s) 0x2002,
            s\<lparr>ppu := (ppu s)\<lparr>firstWrite := True\<rparr>,
              cpu := (cpu s)\<lparr>mem := (mem (cpu s))(0x2002 := mem (cpu s) 0x2002 AND 127)\<rparr>\<rparr>) \<and>
         (mem (cpu s) 0x2002 AND 127) AND 0x80 = 0"
proof -
  have "cpu_load M a s = readStatusRegister s"
    using assms by (simp add: cpu_load_def Mapper_load_status)
  then show ?thesis
    by (simp add: readStatusRegister_eq and_127_128)
qed

text \<open>The mirror 0x3FFA read through the MMC3 mapper, in VBlank, after a first write.\<close>

theorem read_PPUSTATUS_witness:
  "(0x2000::int) \<le> 0x3FFA \<and> (0x3FFA::int) \<le> 0x3FFF \<and> (0x3FFA::int) AND 7 = 2 \<and>
   m_load (Mapper4 idle (cartridge 4)) = Mapper_load idle \<and>
   fst (cpu_load (Mapper4 idle (cartridge 4)) 0x3FFA
          (power_on\<lparr>cpu := CPU_reset\<lparr>mem := reset_mem(0x2002 := 0x80)\<rparr>,
                    ppu := PPU_reset\<lparr>firstWrite := False\<rparr>\<rparr>)) = 0x80 \<and>
   firstWrite (ppu (snd (cpu_load (Mapper4 idle (cartridge 4)) 0x3FFA
          (power_on\<lparr>cpu := CPU_reset\<lparr>mem := reset_mem(0x2002 := 0x80)\<rparr>,
                    ppu := PPU_reset\<lparr>firstWrite := False\<rparr>\<rparr>)))) \<and>
   mem (cpu (snd (cpu_load (Mapper4 idle (cartridge 4)) 0x3FFA
          (power_on\<lparr>cpu := CPU_reset\<lparr>mem := reset_mem(0x2002 := 0x80)\<rparr>,
                    ppu := PPU_reset\<lparr>firstWrite := False\<rparr>\<rparr>)))) 0x2002 = 0"
proof -
  have m: "m_load (Mapper4 idle (cartridge 4)) = Mapper_load idle"
    by (simp add: Mapper4_def Mapper_def)
  show ?thesis
    using read_PPUSTATUS[of "0x3FFA" "Mapper4 idle (cartridge 4)" idle
        "power_on\<lparr>cpu := CPU_reset\<lparr>mem := reset_mem(0x2002 := 0x80)\<rparr>,
                  ppu := PPU_reset\<lparr>firstWrite := False\<rparr>\<rparr>"] m
    by simp
qed

section \<open>MMC3 scanline counter\<close>

lemma clockIrqCounter_ppu [simp]: "ppu (clockIrqCounter s) = ppu s"
  by (simp add: clockIrqCounter_def requestIrq_def Let_def)

text \<open>The part of the state that a clock of the counter can change.\<close>

lemma notifyA12_idle:
  "\<not> (v = 1 \<and> ppuA12Prev (mmc3 s) = 0 \<and>
      (f_bgVisibility (ppu s) = 1 \<or> f_spVisibility (ppu s) = 1) \<and>
      lastClockScanline (mmc3 s) \<noteq> scanline (ppu s)) \<Longrightarrow>
   Mapper4_notifyA12 v s = s\<lparr>mmc3 := (mmc3 s)\<lparr>ppuA12Prev := v\<rparr>\<rparr>"
  by (auto simp: Mapper4_notifyA12_def Let_def)

lemma notifyA12_clock:
  "v = 1 \<and> ppuA12Prev (mmc3 s) = 0 \<and>
      (f_bgVisibility (ppu s) = 1 \<or> f_spVisibility (ppu s) = 1) \<and>
      lastClockScanline (mmc3 s) \<noteq> scanline (ppu s) \<Longrightarrow>
   Mapper4_notifyA12 v s =
     (clockIrqCounter s)\<lparr>mmc3 := (mmc3 (clockIrqCounter s))\<lparr>
        lastClockScanline := scanline (ppu s), ppuA12Prev := v\<rparr>\<rparr>"
  by (auto simp: Mapper4_notifyA12_def Let_def)

lemma notifyA12_same_scanline:
  "lastClockScanline (mmc3 s) = scanline (ppu s) \<Longrightarrow>
   fold Mapper4_notifyA12 vs s =
     s\<lparr>mmc3 := (mmc3 s)\<lparr>ppuA12Prev := (if vs = [] then ppuA12Prev (mmc3 s) else last vs)\<rparr>\<rparr>"
proof (induction vs arbitrary: s)
  case Nil
  then show ?case by simp
next
  case (Cons v vs)
  have step: "Mapper4_notifyA12 v s = s\<lparr>mmc3 := (mmc3 s)\<lparr>ppuA12Prev := v\<rparr>\<rparr>"
    using Cons.prems by (intro notifyA12_idle) simp
  have "fold Mapper4_notifyA12 (v # vs) s = fold Mapper4_notifyA12 vs (s\<lparr>mmc3 := (mmc3 s)\<lparr>ppuA12Prev := v\<rparr>\<rparr>)"
    by (simp add: step)
  also have "\<dots> = (s\<lparr>mmc3 := (mmc3 s)\<lparr>ppuA12Prev := v\<rparr>\<rparr>)\<lparr>mmc3 :=
       (mmc3 (s\<lparr>mmc3 := (mmc3 s)\<lparr>ppuA12Prev := v\<rparr>\<rparr>))\<lparr>ppuA12Prev :=
          (if vs = [] then ppuA12Prev (mmc3 (s\<lparr>mmc3 := (mmc3 s)\<lparr>ppuA12Prev := v\<rparr>\<rparr>)) else last vs)\<rparr>\<rparr>"
    using Cons.prems by (intro Cons.IH) simp
  finally show ?case by simp
qed

text \<open>
  C2 (amended).  A call of \<open>notifyA12\<close> clocks the counter only when it is a rise of A12
  from 0 to 1, background or sprites are switched on, and the scanline is not the one
  last clocked; any other call changes nothing but the remembered A12 level.  A clock
  reloads the counter from the latch when it is 0 or a reload is pending, and decrements
  it otherwise.  When the decrement gives 0 and \<open>irqEnable\<close> is set, the mapper calls
  \<open>requestIrq(IRQ_NORMAL)\<close>, and that call records a normal IRQ only if no interrupt
  request is pending: otherwise the CPU stays as it is.  After a clock the scanline is
  remembered, so that every further run of calls leaves all but the A12 level alone.
\<close>

theorem mmc3_scanline_irq:
  "Mapper4_notifyA12 v s =
     (if (v = 1 \<and> ppuA12Prev (mmc3 s) = 0) \<and>
         (f_bgVisibility (ppu s) = 1 \<or> f_spVisibility (ppu s) = 1) \<and>
         lastClockScanline (mmc3 s) \<noteq> scanline (ppu s)
      then
        (if irqCounter (mmc3 s) = 0 \<or> irqReloadPending (mmc3 s)
         then s\<lparr>mmc3 := (mmc3 s)\<lparr>irqCounter := irqLatchValue (mmc3 s),
                  irqReloadPending := False,
                  lastClockScanline := scanline (ppu s), ppuA12Prev := v\<rparr>\<rparr>
         else if irqCounter (mmc3 s) = 1 \<and> irqEnable (mmc3 s) \<noteq> 0 \<and> \<not> irqRequested (cpu s)
         then s\<lparr>mmc3 := (mmc3 s)\<lparr>irqCounter := 0,
                  lastClockScanline := scanline (ppu s), ppuA12Prev := v\<rparr>,
                cpu := (cpu s)\<lparr>irqRequested := True, irqType := Some IRQ_NORMAL\<rparr>\<rparr>
         else s\<lparr>mmc3 := (mmc3 s)\<lparr>irqCounter := irqCounter (mmc3 s) - 1,
                  lastClockScanline := scanline (ppu s), ppuA12Prev := v\<rparr>\<rparr>)
      else s\<lparr>mmc3 := (mmc3 s)\<lparr>ppuA12Prev := v\<rparr>\<rparr>) \<and>
   fold Mapper4_notifyA12 vs (Mapper4_notifyA12 v s) =
     (if (v = 1 \<and> ppuA12Prev (mmc3 s) = 0) \<and>
         (f_bgVisibility (ppu s) = 1 \<or> f_spVisibility (ppu s) = 1) \<and>
         lastClockScanline (mmc3 s) \<noteq> scanline (ppu s)
      then (Mapper4_notifyA12 v s)\<lparr>mmc3 := (mmc3 (Mapper4_notifyA12 v s))\<lparr>
              ppuA12Prev := (if vs = [] then v else last vs)\<rparr>\<rparr>
      else fold Mapper4_notifyA12 vs (s\<lparr>mmc3 := (mmc3 s)\<lparr>ppuA12Prev := v\<rparr>\<rparr>))"
proof (intro conjI)
  show "Mapper4_notifyA12 v s =
     (if (v = 1 \<and> ppuA12Prev (mmc3 s) = 0) \<and>
         (f_bgVisibility (ppu s) = 1 \<or> f_spVisibility (ppu s) = 1) \<and>
         lastClockScanline (mmc3 s) \<noteq> scanline (ppu s)
      then
        (if irqCounter (mmc3 s) = 0 \<or> irqReloadPending (mmc3 s)
         then s\<lparr>mmc3 := (mmc3 s)\<lparr>irqCounter := irqLatchValue (mmc3 s),
                  irqReloadPending := False,
                  lastClockScanline := scanline (ppu s), ppuA12Prev := v\<rparr>\<rparr>
         else if irqCounter (mmc3 s) = 1 \<and> irqEnable (mmc3 s) \<noteq> 0 \<and> \<not> irqRequested (cpu s)
         then s\<lparr>mmc3 := (mmc3 s)\<lparr>irqCounter := 0,
                  lastClockScanline := scanline (ppu s), ppuA12Prev := v\<rparr>,
                cpu := (cpu s)\<lparr>irqRequested := True, irqType := Some IRQ_NORMAL\<rparr>\<rparr>
         else s\<lparr>mmc3 := (mmc3 s)\<lparr>irqCounter := irqCounter (mmc3 s) - 1,
                  lastClockScanline := scanline (ppu s), ppuA12Prev := v\<rparr>\<rparr>)
      else s\<lparr>mmc3 := (mmc3 s)\<lparr>ppuA12Prev := v\<rparr>\<rparr>)"
    by (auto simp: Mapper4_notifyA12_def clockIrqCounter_def requestIrq_def Let_def)
next
  show "fold Mapper4_notifyA12 vs (Mapper4_notifyA12 v s) =
     (if (v = 1 \<and> ppuA12Prev (mmc3 s) = 0) \<and>
         (f_bgVisibility (ppu s) = 1 \<or> f_spVisibility (ppu s) = 1) \<and>
         lastClockScanline (mmc3 s) \<noteq> scanline (ppu s)
      then (Mapper4_notifyA12 v s)\<lparr>mmc3 := (mmc3 (Mapper4_notifyA12 v s))\<lparr>
              ppuA12Prev := (if vs = [] then v else last vs)\<rparr>\<rparr>
      else fold Mapper4_notifyA12 vs (s\<lparr>mmc3 := (mmc3 s)\<lparr>ppuA12Prev := v\<rparr>\<rparr>))"
  proof (cases "(v = 1 \<and> ppuA12Prev (mmc3 s) = 0) \<and>
         (f_bgVisibility (ppu s) = 1 \<or> f_spVisibility (ppu s) = 1) \<and>
         lastClockScanline (mmc3 s) \<noteq> scanline (ppu s)")
    case True
    let ?k = "(clockIrqCounter s)\<lparr>mmc3 := (mmc3 (clockIrqCounter s))\<lparr>
                lastClockScanline := scanline (ppu s), ppuA12Prev := v\<rparr>\<rparr>"
    have n: "Mapper4_notifyA12 v s = ?k"
      using True by (intro notifyA12_clock) simp
    have "lastClockScanline (mmc3 ?k) = scanline (ppu ?k)" by simp
    then have "fold Mapper4_notifyA12 vs ?k =
        ?k\<lparr>mmc3 := (mmc3 ?k)\<lparr>ppuA12Prev := (if vs = [] then ppuA12Prev (mmc3 ?k) else last vs)\<rparr>\<rparr>"
      by (rule notifyA12_same_scanline)
    then have "fold Mapper4_notifyA12 vs ?k =
        ?k\<lparr>mmc3 := (mmc3 ?k)\<lparr>ppuA12Prev := (if vs = [] then v else last vs)\<rparr>\<rparr>"
      by simp
    then show ?thesis
      by (subst if_P[OF True], subst (1 2 3) n)
  next
    case False
    have n: "Mapper4_notifyA12 v s = s\<lparr>mmc3 := (mmc3 s)\<lparr>ppuA12Prev := v\<rparr>\<rparr>"
      using False by (intro notifyA12_idle) simp
    show ?thesis
      by (subst if_not_P[OF False], subst n) (rule refl)
  qed
qed

text \<open>
  C2 as stated fails when an interrupt request is pending.  \<open>startVBlank\<close> requests the NMI
  and then renders the scanlines that are left, which is when \<open>notifyA12\<close> is called; here
  the counter goes from 1 to 0 with \<open>irqEnable\<close> set, and the CPU is left as it was: the
  pending request is still the NMI, and no normal IRQ has been recorded.
\<close>

theorem mmc3_irq_dropped_counterexample:
  "irqCounter (mmc3 (requestIrq IRQ_NMI
      (power_on\<lparr>mmc3 := MMC3_reset\<lparr>irqCounter := 1, irqEnable := 1\<rparr>,
                 ppu := PPU_reset\<lparr>f_bgVisibility := 1\<rparr>\<rparr>))) = 1 \<and>
   irqEnable (mmc3 (requestIrq IRQ_NMI
      (power_on\<lparr>mmc3 := MMC3_reset\<lparr>irqCounter := 1, irqEnable := 1\<rparr>,
                 ppu := PPU_reset\<lparr>f_bgVisibility := 1\<rparr>\<rparr>))) = 1 \<and>
   irqCounter (mmc3 (Mapper4_notifyA12 1 (requestIrq IRQ_NMI
      (power_on\<lparr>mmc3 := MMC3_reset\<lparr>irqCounter := 1, irqEnable := 1\<rparr>,
                 ppu := PPU_reset\<lparr>f_bgVisibility := 1\<rparr>\<rparr>)))) = 0 \<and>
   cpu (Mapper4_notifyA12 1 (requestIrq IRQ_NMI
      (power_on\<lparr>mmc3 := MMC3_reset\<lparr>irqCounter := 1, irqEnable := 1\<rparr>,
                 ppu := PPU_reset\<lparr>f_bgVisibility := 1\<rparr>\<rparr>))) =
     cpu (requestIrq IRQ_NMI
      (power_on\<lparr>mmc3 := MMC3_reset\<lparr>irqCounter := 1, irqEnable := 1\<rparr>,
                 ppu := PPU_reset\<lparr>f_bgVisibility := 1\<rparr>\<rparr>)) \<and>
   irqType (cpu (Mapper4_notifyA12 1 (requestIrq IRQ_NMI
      (power_on\<lparr>mmc3 := MMC3_reset\<lparr>irqCounter := 1, irqEnable := 1\<rparr>,
                 ppu := PPU_reset\<lparr>f_bgVisibility := 1\<rparr>\<rparr>)))) = Some IRQ_NMI"
  by (simp add: Mapper4_notifyA12_def clockIrqCounter_def requestIrq_def Let_def power_on_def
      MMC3_reset_def PPU_reset_def CPU_reset_def)


section \<open>Sprite DMA\<close>

lemma hit_scan_frame:
  "spriteMem (snd (hit_scan p t o' sc x)) = spriteMem p \<and>
   sramAddress (snd (hit_scan p t o' sc x)) = sramAddress p"
proof (cases "hit_loop p t o' sc x (sc * 256 + x)
             (if horiFlip p 0 = Some True then [7, 6, 5, 4, 3, 2, 1, 0]
              else [0, 1, 2, 3, 4, 5, 6, 7])")
  case None
  then show ?thesis by (simp add: hit_scan_def)
next
  case (Some h)
  then show ?thesis by (cases h) (simp add: hit_scan_def)
qed

lemma checkSprite0_frame:
  "spriteMem (snd (checkSprite0 sc p)) = spriteMem p \<and>
   sramAddress (snd (checkSprite0 sc p)) = sramAddress p"
  unfolding checkSprite0_def Let_def
  by (simp add: hit_scan_frame split: option.split)

lemma spriteRamWriteUpdate_frame:
  "spriteMem (spriteRamWriteUpdate a v p) = spriteMem p \<and>
   sramAddress (spriteRamWriteUpdate a v p) = sramAddress p"
  by (simp add: spriteRamWriteUpdate_def Let_def checkSprite0_frame)

lemma sramDMA_loop_cpu: "cpu (sramDMA_loop b i s) = cpu s"
proof (induction b i s rule: sramDMA_loop.induct)
  case (1 b i s)
  show ?case
  proof (cases "i < 256")
    case True
    then show ?thesis using 1 by (subst sramDMA_loop.simps) (simp add: Let_def)
  next
    case False
    then show ?thesis by (subst sramDMA_loop.simps) simp
  qed
qed

lemma sramDMA_loop_spriteMem:
  "spriteMem (ppu (sramDMA_loop b i s)) k =
     (if i \<le> k \<and> k < 256 then mem (cpu s) (b + k) else spriteMem (ppu s) k)"
proof (induction b i s arbitrary: k rule: sramDMA_loop.induct)
  case (1 b i s)
  show ?case
  proof (cases "i < 256")
    case True
    let ?p1 = "spriteRamWriteUpdate i (mem (cpu s) (b + i))
                 ((ppu s)\<lparr>spriteMem := (spriteMem (ppu s))(i := mem (cpu s) (b + i))\<rparr>)"
    have step: "sramDMA_loop b i s = sramDMA_loop b (i + 1) (s\<lparr>ppu := ?p1\<rparr>)"
      using True by (subst sramDMA_loop.simps) (simp add: Let_def)
    have ih: "spriteMem (ppu (sramDMA_loop b (i + 1) (s\<lparr>ppu := ?p1\<rparr>))) k =
          (if i + 1 \<le> k \<and> k < 256 then mem (cpu (s\<lparr>ppu := ?p1\<rparr>)) (b + k)
           else spriteMem (ppu (s\<lparr>ppu := ?p1\<rparr>)) k)"
      using True by (intro "1.IH") auto
    show ?thesis
      unfolding step ih using True by (auto simp: spriteRamWriteUpdate_frame)
  next
    case False
    then show ?thesis by (subst sramDMA_loop.simps) simp
  qed
qed

text \<open>What \<open>sramDMA\<close> copies: the bytes from the current OAM address on, and no others.\<close>

lemma sramDMA_copies:
  "spriteMem (ppu (sramDMA v s)) k =
     (if sramAddress (ppu s) \<le> k \<and> k < 256 then mem (cpu s) (v * 0x100 + k)
      else spriteMem (ppu s) k)"
  by (simp add: sramDMA_def haltCycles_def sramDMA_loop_spriteMem)

lemma sramDMA_halts:
  "cyclesToHalt (cpu (sramDMA v s)) = cyclesToHalt (cpu s) + 513"
  by (simp add: sramDMA_def haltCycles_def sramDMA_loop_cpu)

text \<open>
  C7 at the failing input.  From power-on the program writes 4 to 0x2003 (the OAM address)
  and 2 to 0x4014.  The CPU is halted for 513 cycles and OAM bytes 4 to 255 receive page 2,
  but OAM bytes 0 to 3 are not copied: byte 0 keeps its old value 0 while the first byte of
  page 2 is 0xff.
\<close>

theorem sramDMA_skips_below_oam_address:
  "mem (cpu power_on) 0x200 = 0xff \<and>
   spriteMem (ppu power_on) 0 = 0 \<and>
   spriteMem (ppu (Mapper_write idle 0x4014 2 (Mapper_write idle 0x2003 4 power_on))) 0 = 0 \<and>
   spriteMem (ppu (Mapper_write idle 0x4014 2 (Mapper_write idle 0x2003 4 power_on))) 4 = 0xff \<and>
   cyclesToHalt (cpu (Mapper_write idle 0x4014 2 (Mapper_write idle 0x2003 4 power_on))) = 513"
  by (simp add: Mapper_write_def regWrite_def writeSRAMAddress_def sramDMA_copies sramDMA_halts
      power_on_def CPU_reset_def PPU_reset_def reset_mem_def)


section \<open>CPU: opcodes used below\<close>

lemma fold_setOp_at:
  "fold setOp es f op =
     fold (\<lambda>e d. case e of (inst, op', addr, sz, cy) \<Rightarrow>
             if op' = op
             then (inst AND 0xff) OR push_bit 8 (addr AND 0xff) OR
                  push_bit 16 (sz AND 0xff) OR push_bit 24 (cy AND 0xff)
             else d) es (f op)"
  by (induction es arbitrary: f) (auto simp: setOp_def)

lemma OPDATA_BMI: "OPDATA 0x30 = 0x02020107"
  unfolding OPDATA_def buildOpData_def fold_setOp_at by (simp add: op_table_def)

lemma OPDATA_BPL: "OPDATA 0x10 = 0x02020109"
  unfolding OPDATA_def buildOpData_def fold_setOp_at by (simp add: op_table_def)

lemma OPDATA_JMP_IND: "OPDATA 0x6c = 0x05030c1b"
  unfolding OPDATA_def buildOpData_def fold_setOp_at by (simp add: op_table_def)

lemma OPDATA_RTI: "OPDATA 0x40 = 0x06010229"
  unfolding OPDATA_def buildOpData_def fold_setOp_at by (simp add: op_table_def)

lemma OPDATA_PHP: "OPDATA 0x08 = 0x03010224"
  unfolding OPDATA_def buildOpData_def fold_setOp_at by (simp add: op_table_def)

lemma OPDATA_NOP: "OPDATA 0xea = 0x02010221"
  unfolding OPDATA_def buildOpData_def fold_setOp_at by (simp add: op_table_def)

lemmas cpu_eval =
  emulate_def run_instruction_def operand_address_def cpu_load_def load16bit_def cpu_write_def
  push_def pull_def Mapper_def Mapper_load_def Mapper_write_def mem_store_def execute_def
  branch_def status_byte_def indabs_hi_def Let_def
  power_on_def CPU_reset_def reset_mem_def

section \<open>CPU: branch cycles\<close>

text \<open>The cycle rule of the seven branches that share one body, and that of BMI.\<close>

lemma branch_cycles:
  "fst (branch taken opaddr addr cycleCount s) =
     cycleCount + (if taken then (if (opaddr AND 0xff00) \<noteq> (addr AND 0xff00) then 2 else 1) else 0)"
  by (simp add: branch_def)

lemma BMI_cycles:
  "fst (ins_BMI addr cycleCount s) = cycleCount + (if F_SIGN (cpu s) = 1 then 1 else 0)"
  by (simp add: ins_BMI_def)

text \<open>
  C3 at the failing input.  BMI at 0x80FE with offset 0x10 and the sign flag set is taken
  to 0x8110, in the next page: \<open>emulate\<close> returns 3, the base count 2 plus 1, where the
  claim requires 2 plus 2.  BPL at the same place, with the sign flag clear, returns 4.
\<close>

theorem BMI_page_cross_cycles:
  "emulate (Some (Mapper idle))
     (power_on\<lparr>cpu := CPU_reset\<lparr>mem := reset_mem(0x80FE := 0x30, 0x80FF := 0x10),
                                  REG_PC := 0x80FD, F_SIGN := 1\<rparr>\<rparr>) =
   Inr (3, power_on\<lparr>cpu := CPU_reset\<lparr>mem := reset_mem(0x80FE := 0x30, 0x80FF := 0x10),
                                       REG_PC := 0x810F, F_SIGN := 1\<rparr>\<rparr>) \<and>
   emulate (Some (Mapper idle))
     (power_on\<lparr>cpu := CPU_reset\<lparr>mem := reset_mem(0x80FE := 0x10, 0x80FF := 0x10),
                                  REG_PC := 0x80FD, F_SIGN := 0\<rparr>\<rparr>) =
   Inr (4, power_on\<lparr>cpu := CPU_reset\<lparr>mem := reset_mem(0x80FE := 0x10, 0x80FF := 0x10),
                                       REG_PC := 0x810F, F_SIGN := 0\<rparr>\<rparr>)"
  by (simp add: cpu_eval OPDATA_BMI OPDATA_BPL ins_BMI_def)


section \<open>CPU: indirect jump\<close>

lemma indabs_hi_wrap: "a AND 0xff = 0xff \<Longrightarrow> indabs_hi a = a AND 0xff00"
  by (simp add: indabs_hi_def)

text \<open>
  C4 at the failing input.  RAM holds 0x12 at 0x0000 and 0x34 at 0x00FF, and the program
  at 0x8000 is JMP (0x08FF), a pointer into the first mirror of RAM.  A CPU read of 0x08FF
  gives 0x34 and a CPU read of 0x0800 gives 0x12, so the jump should go to 0x1234.  The
  low byte is read through the mirror mask, the high byte from the array cell 0x0800
  without it, which still holds its power-on value 0xff: the jump goes to 0xFF34
  (\<open>REG_PC\<close> holds the target minus one).
\<close>

theorem JMP_indirect_mirror:
  "cpu_load (Mapper idle) 0x08FF
     (power_on\<lparr>cpu := CPU_reset\<lparr>mem := reset_mem(0x0000 := 0x12, 0x00FF := 0x34,
         0x8000 := 0x6C, 0x8001 := 0xFF, 0x8002 := 0x08)\<rparr>\<rparr>) =
   (0x34, power_on\<lparr>cpu := CPU_reset\<lparr>mem := reset_mem(0x0000 := 0x12, 0x00FF := 0x34,
         0x8000 := 0x6C, 0x8001 := 0xFF, 0x8002 := 0x08)\<rparr>\<rparr>) \<and>
   cpu_load (Mapper idle) 0x0800
     (power_on\<lparr>cpu := CPU_reset\<lparr>mem := reset_mem(0x0000 := 0x12, 0x00FF := 0x34,
         0x8000 := 0x6C, 0x8001 := 0xFF, 0x8002 := 0x08)\<rparr>\<rparr>) =
   (0x12, power_on\<lparr>cpu := CPU_reset\<lparr>mem := reset_mem(0x0000 := 0x12, 0x00FF := 0x34,
         0x8000 := 0x6C, 0x8001 := 0xFF, 0x8002 := 0x08)\<rparr>\<rparr>) \<and>
   emulate (Some (Mapper idle))
     (power_on\<lparr>cpu := CPU_reset\<lparr>mem := reset_mem(0x0000 := 0x12, 0x00FF := 0x34,
         0x8000 := 0x6C, 0x8001 := 0xFF, 0x8002 := 0x08)\<rparr>\<rparr>) =
   Inr (5, power_on\<lparr>cpu := CPU_reset\<lparr>mem := reset_mem(0x0000 := 0x12, 0x00FF := 0x34,
         0x8000 := 0x6C, 0x8001 := 0xFF, 0x8002 := 0x08), REG_PC := 0xFF34 - 1\<rparr>\<rparr>)"
  by (simp add: cpu_eval OPDATA_JMP_IND)

section \<open>CPU: the unused flag on the stack\<close>

text \<open>
  C5 at the failing input.  The stack holds a status byte 0x00 and the return address
  0xFFFF; RAM holds PHP at 0x0000.  RTI at 0x8000 pulls the three bytes, finds
  \<open>REG_PC = 0xffff\<close> and returns before it sets \<open>F_NOTUSED\<close>.  The next instruction is
  the PHP, which pushes 0x10 to 0x01FF: a status byte with bit 5 clear.  The stack
  pointer stays a byte throughout.
\<close>

theorem RTI_then_PHP_pushes_bit5_clear:
  "(case emulate (Some (Mapper idle))
          (power_on\<lparr>cpu := CPU_reset\<lparr>mem := reset_mem(0x0000 := 0x08, 0x01FD := 0x00,
              0x01FE := 0xFF, 0x01FF := 0xFF, 0x8000 := 0x40), REG_SP := 0xFC\<rparr>\<rparr>) of
      Inl e \<Rightarrow> False
    | Inr (c1, s1) \<Rightarrow>
        c1 = 6 \<and> F_NOTUSED (cpu s1) = 0 \<and> REG_PC (cpu s1) = 0xffff \<and> REG_SP (cpu s1) = 0xFF \<and>
        (case emulate (Some (Mapper idle)) s1 of
           Inl e \<Rightarrow> False
         | Inr (c2, s2) \<Rightarrow>
             c2 = 3 \<and> REG_SP (cpu s2) = 0xFE \<and> mem (cpu s2) 0x01FF = 0x10 \<and>
             mem (cpu s2) 0x01FF AND 0x20 = 0))"
  by (simp add: cpu_eval OPDATA_RTI OPDATA_PHP ins_RTI_def ins_PHP_def)


section \<open>The NMI at VBlank\<close>

lemma byte_and: "0 \<le> (x::int) AND 0xff \<and> x AND 0xff \<le> 0xff"
  by (simp add: AND_upper2')

lemma byte_or_100: "0 \<le> x \<Longrightarrow> x \<le> 0xff \<Longrightarrow> (x::int) OR 0x100 = x + 0x100"
proof -
  assume a: "0 \<le> x" "x \<le> 0xff"
  have "x AND 0x100 = 0"
  proof -
    have "\<not> bit x 8" using a by (simp add: bit_iff_odd)
    then have "x AND 2 ^ 8 = 0" unfolding and_exp_eq_0_iff_not_bit .
    then show ?thesis by simp
  qed
  moreover have "(x AND 0x100) + (x OR 0x100) = x + 0x100"
    by (rule plus_and_or)
  ultimately show ?thesis by simp
qed

lemma stack_and_7ff: "0 \<le> x \<Longrightarrow> x \<le> 0xff \<Longrightarrow> ((x::int) + 0x100) AND 0x7ff = x + 0x100"
proof -
  assume a: "0 \<le> x" "x \<le> 0xff"
  have "(x + 0x100) AND mask 11 = take_bit 11 (x + 0x100)" by (simp add: take_bit_eq_mask)
  also have "\<dots> = x + 0x100" using a by (simp add: take_bit_int_eq_self)
  finally show ?thesis by (simp add: mask_eq_exp_minus_1)
qed

lemma push_stack:
  assumes wr: "\<And>a v s. a < 0x8000 \<Longrightarrow> m_write M a v s = Mapper_write D a v s"
    and sp: "0 \<le> REG_SP (cpu s)" "REG_SP (cpu s) \<le> 0xff"
  shows "push M v s =
           s\<lparr>cpu := (cpu s)\<lparr>mem := (mem (cpu s))(REG_SP (cpu s) + 0x100 := v mod 256),
                              REG_SP := (REG_SP (cpu s) - 1) AND 0xff\<rparr>\<rparr>"
proof -
  have o: "REG_SP (cpu s) OR 0x100 = REG_SP (cpu s) + 0x100" using sp by (rule byte_or_100)
  have m: "(REG_SP (cpu s) + 0x100) AND 0x7ff = REG_SP (cpu s) + 0x100" using sp by (rule stack_and_7ff)
  have w: "m_write M (REG_SP (cpu s) + 0x100) v s = Mapper_write D (REG_SP (cpu s) + 0x100) v s"
    using sp by (intro wr) simp
  show ?thesis
    using sp by (simp add: push_def o w Mapper_write_def m mem_store_def)
qed

lemma Mapper_load_ctrl: "Mapper_load D 0x2000 s = (mem (cpu s) 0x2000, s)"
  by (simp add: Mapper_load_def regLoad_def)

lemma Mapper_load_vector1: "Mapper_load D 0xfffa s = (mem (cpu s) 0xfffa, s)"
  by (simp add: Mapper_load_def)

lemma Mapper_load_vector2: "Mapper_load D 0xfffb s = (mem (cpu s) 0xfffb, s)"
  by (simp add: Mapper_load_def)

lemma requestIrq_NMI:
  "irqRequested (cpu (requestIrq IRQ_NMI s)) \<and> irqType (cpu (requestIrq IRQ_NMI s)) = Some IRQ_NMI"
  by (simp add: requestIrq_def)


lemma startVBlank_requests:
  assumes r: "\<And>a b s. irqRequested (cpu s) \<and> irqType (cpu s) = Some IRQ_NMI \<Longrightarrow>
                irqRequested (cpu (renderFramePartially D a b s)) \<and>
                irqType (cpu (renderFramePartially D a b s)) = Some IRQ_NMI"
    and e: "\<And>s. irqRequested (cpu s) \<and> irqType (cpu s) = Some IRQ_NMI \<Longrightarrow>
                irqRequested (cpu (endFrame D s)) \<and> irqType (cpu (endFrame D s)) = Some IRQ_NMI"
  shows "irqRequested (cpu (startVBlank D t)) \<and> irqType (cpu (startVBlank D t)) = Some IRQ_NMI"
proof -
  let ?s1 = "requestIrq IRQ_NMI t"
  let ?s2 = "if lastRenderedScanline (ppu ?s1) < 239
             then renderFramePartially D (lastRenderedScanline (ppu ?s1) + 1)
                    (240 - lastRenderedScanline (ppu ?s1)) ?s1
             else ?s1"
  have 1: "irqRequested (cpu ?s1) \<and> irqType (cpu ?s1) = Some IRQ_NMI"
    by (rule requestIrq_NMI)
  have 2: "irqRequested (cpu ?s2) \<and> irqType (cpu ?s2) = Some IRQ_NMI"
    using 1 r[OF 1] by (cases "lastRenderedScanline (ppu ?s1) < 239") simp_all
  have 3: "irqRequested (cpu (endFrame D ?s2)) \<and> irqType (cpu (endFrame D ?s2)) = Some IRQ_NMI"
    using 2 by (rule e)
  have "cpu (startVBlank D t) = cpu (endFrame D ?s2)"
    by (simp add: startVBlank_def Let_def)
  with 3 show ?thesis by simp
qed

lemma gate_NMI_skipped:
  assumes "m_load M = Mapper_load D"
    and "irqType (cpu s) = Some IRQ_NMI" and "mem (cpu s) 0x2000 AND 128 = 0"
  shows "interrupt_gate M s =
           s\<lparr>cpu := (cpu s)\<lparr>REG_PC_NEW := REG_PC (cpu s),
                              F_INTERRUPT_NEW := F_INTERRUPT (cpu s),
                              F_BRK := F_BRK_NEW (cpu s),
                              irqRequested := False\<rparr>\<rparr>"
  using assms
  by (simp add: interrupt_gate_def doNonMaskableInterrupt_def Mapper_load_ctrl Let_def)

lemmas byte_and_lo = byte_and[THEN conjunct1]
lemmas byte_and_hi = byte_and[THEN conjunct2]

lemma gate_NMI_taken:
  assumes ld: "m_load M = Mapper_load D"
    and wr: "\<And>a v s. a < 0x8000 \<Longrightarrow> m_write M a v s = Mapper_write D a v s"
    and sp: "0 \<le> REG_SP (cpu s)" "REG_SP (cpu s) \<le> 0xff"
    and ty: "irqType (cpu s) = Some IRQ_NMI" and b7: "mem (cpu s) 0x2000 AND 128 \<noteq> 0"
  shows "interrupt_gate M s =
           s\<lparr>cpu := (cpu s)\<lparr>
               mem := (mem (cpu s))
                 (REG_SP (cpu s) + 0x100 := drop_bit 8 (REG_PC (cpu s) + 1) AND 0xff,
                  ((REG_SP (cpu s) - 1) AND 0xff) + 0x100 := (REG_PC (cpu s) + 1) AND 0xff,
                  ((((REG_SP (cpu s) - 1) AND 0xff) - 1) AND 0xff) + 0x100 :=
                     status_byte (cpu s) mod 256),
               REG_SP := (((((REG_SP (cpu s) - 1) AND 0xff) - 1) AND 0xff) - 1) AND 0xff,
               REG_PC_NEW := (mem (cpu s) 0xfffa OR push_bit 8 (mem (cpu s) 0xfffb)) - 1,
               F_INTERRUPT_NEW := F_INTERRUPT (cpu s),
               REG_PC := (mem (cpu s) 0xfffa OR push_bit 8 (mem (cpu s) 0xfffb)) - 1,
               F_BRK := F_BRK_NEW (cpu s),
               irqRequested := False\<rparr>\<rparr>"
proof -
  define hi where "hi = drop_bit 8 (REG_PC (cpu s) + 1) AND 0xff"
  define lo where "lo = (REG_PC (cpu s) + 1) AND 0xff"
  define sp1 where "sp1 = (REG_SP (cpu s) - 1) AND 0xff"
  define sp2 where "sp2 = (sp1 - 1) AND 0xff"
  define s2 where "s2 = s\<lparr>cpu := (cpu s)\<lparr>F_INTERRUPT_NEW := F_INTERRUPT (cpu s),
                                        REG_PC_NEW := REG_PC (cpu s) + 1\<rparr>\<rparr>"
  define s3 where "s3 = push M hi s2"
  define s4 where "s4 = push M lo s3"
  define s5 where "s5 = push M (status_byte (cpu s)) s4"
  have b1: "0 \<le> sp1" "sp1 \<le> 0xff" unfolding sp1_def by (rule byte_and_lo, rule byte_and_hi)
  have b2: "0 \<le> sp2" "sp2 \<le> 0xff" unfolding sp2_def by (rule byte_and_lo, rule byte_and_hi)
  have hi: "hi mod 256 = hi" unfolding hi_def using byte_and[of "drop_bit 8 (REG_PC (cpu s) + 1)"] by simp
  have lo: "lo mod 256 = lo" unfolding lo_def using byte_and[of "REG_PC (cpu s) + 1"] by simp
  have sp2': "REG_SP (cpu s2) = REG_SP (cpu s)" by (simp add: s2_def)
  have p1: "s3 = s2\<lparr>cpu := (cpu s2)\<lparr>mem := (mem (cpu s2))(REG_SP (cpu s) + 0x100 := hi),
                                     REG_SP := sp1\<rparr>\<rparr>"
    unfolding s3_def sp1_def using push_stack[OF wr, of s2 hi] sp by (simp add: sp2' hi)
  have sp3: "REG_SP (cpu s3) = sp1" by (simp add: p1)
  have p2: "s4 = s3\<lparr>cpu := (cpu s3)\<lparr>mem := (mem (cpu s3))(sp1 + 0x100 := lo), REG_SP := sp2\<rparr>\<rparr>"
    unfolding s4_def sp2_def using push_stack[OF wr, of s3 lo] b1 by (simp add: sp3 lo)
  have sp4: "REG_SP (cpu s4) = sp2" by (simp add: p2)
  have p3: "s5 = s4\<lparr>cpu := (cpu s4)\<lparr>mem := (mem (cpu s4))(sp2 + 0x100 := status_byte (cpu s) mod 256),
                                     REG_SP := (sp2 - 1) AND 0xff\<rparr>\<rparr>"
    unfolding s5_def using push_stack[OF wr, of s4 "status_byte (cpu s)"] b2 by (simp add: sp4)
  have pcn: "REG_PC_NEW (cpu s3) = REG_PC (cpu s) + 1" by (simp add: p1 s2_def)
  have g0: "interrupt_gate M s =
      (let t5 = push M (status_byte (cpu s)) (push M (REG_PC_NEW (cpu s3) AND 0xff) s3)
       in t5\<lparr>cpu := (cpu t5)\<lparr>
            REG_PC_NEW := (mem (cpu t5) 0xfffa OR push_bit 8 (mem (cpu t5) 0xfffb)) - 1,
            REG_PC := (mem (cpu t5) 0xfffa OR push_bit 8 (mem (cpu t5) 0xfffb)) - 1,
            F_INTERRUPT := F_INTERRUPT_NEW (cpu t5),
            F_BRK := F_BRK_NEW (cpu t5), irqRequested := False\<rparr>\<rparr>)"
    using ty b7 unfolding s3_def s2_def hi_def
    by (simp add: interrupt_gate_def doNonMaskableInterrupt_def ld Mapper_load_ctrl
        Mapper_load_vector1 Mapper_load_vector2 Let_def)
  have g: "interrupt_gate M s =
      s5\<lparr>cpu := (cpu s5)\<lparr>
            REG_PC_NEW := (mem (cpu s5) 0xfffa OR push_bit 8 (mem (cpu s5) 0xfffb)) - 1,
            REG_PC := (mem (cpu s5) 0xfffa OR push_bit 8 (mem (cpu s5) 0xfffb)) - 1,
            F_INTERRUPT := F_INTERRUPT_NEW (cpu s5),
            F_BRK := F_BRK_NEW (cpu s5), irqRequested := False\<rparr>\<rparr>"
    unfolding g0 pcn Let_def s5_def s4_def lo_def by (rule refl)
  have s5eq: "s5 = s\<lparr>cpu := (cpu s)\<lparr>
               mem := (mem (cpu s))(REG_SP (cpu s) + 0x100 := hi, sp1 + 0x100 := lo,
                                    sp2 + 0x100 := status_byte (cpu s) mod 256),
               REG_SP := (sp2 - 1) AND 0xff,
               F_INTERRUPT_NEW := F_INTERRUPT (cpu s),
               REG_PC_NEW := REG_PC (cpu s) + 1\<rparr>\<rparr>"
    unfolding p3 p2 p1 s2_def by simp
  have m1: "mem (cpu s5) 0xfffa = mem (cpu s) 0xfffa"
    unfolding s5eq using sp b1 b2 by simp
  have m2: "mem (cpu s5) 0xfffb = mem (cpu s) 0xfffb"
    unfolding s5eq using sp b1 b2 by simp
  have f1: "F_INTERRUPT_NEW (cpu s5) = F_INTERRUPT (cpu s)" unfolding s5eq by simp
  have f2: "F_BRK_NEW (cpu s5) = F_BRK_NEW (cpu s)" unfolding s5eq by simp
  have "interrupt_gate M s =
           s\<lparr>cpu := (cpu s)\<lparr>
               mem := (mem (cpu s))(REG_SP (cpu s) + 0x100 := hi, sp1 + 0x100 := lo,
                                    sp2 + 0x100 := status_byte (cpu s) mod 256),
               REG_SP := (sp2 - 1) AND 0xff,
               REG_PC_NEW := (mem (cpu s) 0xfffa OR push_bit 8 (mem (cpu s) 0xfffb)) - 1,
               F_INTERRUPT_NEW := F_INTERRUPT (cpu s),
               REG_PC := (mem (cpu s) 0xfffa OR push_bit 8 (mem (cpu s) 0xfffb)) - 1,
               F_BRK := F_BRK_NEW (cpu s),
               irqRequested := False\<rparr>\<rparr>"
    unfolding g m1 m2 f1 f2 unfolding s5eq by simp
  then show ?thesis
    unfolding hi_def lo_def sp2_def sp1_def .
qed


text \<open>
  C10 (amended).  \<open>startVBlank\<close> requests an NMI whatever the NMI-on-VBlank flag says
  (the renderer, a parameter here, is assumed to leave a pending NMI pending).  With an NMI
  pending, \<open>emulate\<close> runs the interrupt gate before the next instruction.  If bit 7 of the
  byte the CPU sees at 0x2000 is set, the gate pushes the high and the low byte of
  \<open>REG_PC + 1\<close> and the status byte, and loads \<open>REG_PC\<close> from the vector at 0xFFFA (minus
  one, as \<open>REG_PC\<close> is kept).  Otherwise the request is consumed and dropped: the program
  counter, the stack pointer, memory and every flag except B are as before; the B flag
  \<open>F_BRK\<close> is overwritten with the shadow value \<open>F_BRK_NEW\<close>, so it too is unchanged when
  the two agree.  The mapper is any one that inherits \<open>load\<close> and the writes below 0x8000
  from the base class, and the stack pointer is a byte.
\<close>

theorem vblank_nmi_gate:
  assumes "\<And>a b s. irqRequested (cpu s) \<and> irqType (cpu s) = Some IRQ_NMI \<Longrightarrow>
                irqRequested (cpu (renderFramePartially D a b s)) \<and>
                irqType (cpu (renderFramePartially D a b s)) = Some IRQ_NMI"
    and "\<And>s. irqRequested (cpu s) \<and> irqType (cpu s) = Some IRQ_NMI \<Longrightarrow>
                irqRequested (cpu (endFrame D s)) \<and> irqType (cpu (endFrame D s)) = Some IRQ_NMI"
    and "m_load M = Mapper_load D"
    and "\<And>a v s. a < 0x8000 \<Longrightarrow> m_write M a v s = Mapper_write D a v s"
    and "0 \<le> REG_SP (cpu s)" and "REG_SP (cpu s) \<le> 0xff"
    and "irqRequested (cpu s)" and "irqType (cpu s) = Some IRQ_NMI"
  shows "(irqRequested (cpu (startVBlank D t)) \<and> irqType (cpu (startVBlank D t)) = Some IRQ_NMI) \<and>
         emulate (Some M) s = Inr (run_instruction M (interrupt_gate M s)) \<and>
         interrupt_gate M s =
           (if mem (cpu s) 0x2000 AND 128 \<noteq> 0
            then s\<lparr>cpu := (cpu s)\<lparr>
               mem := (mem (cpu s))
                 (REG_SP (cpu s) + 0x100 := drop_bit 8 (REG_PC (cpu s) + 1) AND 0xff,
                  ((REG_SP (cpu s) - 1) AND 0xff) + 0x100 := (REG_PC (cpu s) + 1) AND 0xff,
                  ((((REG_SP (cpu s) - 1) AND 0xff) - 1) AND 0xff) + 0x100 :=
                     status_byte (cpu s) mod 256),
               REG_SP := (((((REG_SP (cpu s) - 1) AND 0xff) - 1) AND 0xff) - 1) AND 0xff,
               REG_PC_NEW := (mem (cpu s) 0xfffa OR push_bit 8 (mem (cpu s) 0xfffb)) - 1,
               F_INTERRUPT_NEW := F_INTERRUPT (cpu s),
               REG_PC := (mem (cpu s) 0xfffa OR push_bit 8 (mem (cpu s) 0xfffb)) - 1,
               F_BRK := F_BRK_NEW (cpu s),
               irqRequested := False\<rparr>\<rparr>
            else s\<lparr>cpu := (cpu s)\<lparr>REG_PC_NEW := REG_PC (cpu s),
                              F_INTERRUPT_NEW := F_INTERRUPT (cpu s),
                              F_BRK := F_BRK_NEW (cpu s),
                              irqRequested := False\<rparr>\<rparr>)"
proof (intro conjI)
  show "irqRequested (cpu (startVBlank D t))" "irqType (cpu (startVBlank D t)) = Some IRQ_NMI"
    using startVBlank_requests[of D t] assms(1,2) by blast+
  show "emulate (Some M) s = Inr (run_instruction M (interrupt_gate M s))"
    using assms(7) by (simp add: emulate_def)
  show "interrupt_gate M s =
           (if mem (cpu s) 0x2000 AND 128 \<noteq> 0
            then s\<lparr>cpu := (cpu s)\<lparr>
               mem := (mem (cpu s))
                 (REG_SP (cpu s) + 0x100 := drop_bit 8 (REG_PC (cpu s) + 1) AND 0xff,
                  ((REG_SP (cpu s) - 1) AND 0xff) + 0x100 := (REG_PC (cpu s) + 1) AND 0xff,
                  ((((REG_SP (cpu s) - 1) AND 0xff) - 1) AND 0xff) + 0x100 :=
                     status_byte (cpu s) mod 256),
               REG_SP := (((((REG_SP (cpu s) - 1) AND 0xff) - 1) AND 0xff) - 1) AND 0xff,
               REG_PC_NEW := (mem (cpu s) 0xfffa OR push_bit 8 (mem (cpu s) 0xfffb)) - 1,
               F_INTERRUPT_NEW := F_INTERRUPT (cpu s),
               REG_PC := (mem (cpu s) 0xfffa OR push_bit 8 (mem (cpu s) 0xfffb)) - 1,
               F_BRK := F_BRK_NEW (cpu s),
               irqRequested := False\<rparr>\<rparr>
            else s\<lparr>cpu := (cpu s)\<lparr>REG_PC_NEW := REG_PC (cpu s),
                              F_INTERRUPT_NEW := F_INTERRUPT (cpu s),
                              F_BRK := F_BRK_NEW (cpu s),
                              irqRequested := False\<rparr>\<rparr>)"
  proof (cases "mem (cpu s) 0x2000 AND 128 \<noteq> 0")
    case True
    show ?thesis
      by (subst if_P[OF True]) (rule gate_NMI_taken[OF assms(3) assms(4) assms(5) assms(6) assms(8) True])
  next
    case False
    then have z: "mem (cpu s) 0x2000 AND 128 = 0" by simp
    show ?thesis
      by (subst if_not_P[OF False]) (rule gate_NMI_skipped[OF assms(3) assms(8) z])
  qed
qed

text \<open>
  The theorem with the base mapper and idle devices, at a state where bit 7 of 0x2000 is
  set and the NMI vector is 0x9000, and at one where the bit is clear.
\<close>

theorem vblank_nmi_gate_witness:
  "irqRequested (cpu (startVBlank idle power_on)) \<and>
   irqType (cpu (startVBlank idle power_on)) = Some IRQ_NMI \<and>
   REG_PC (cpu (interrupt_gate (Mapper idle)
      (power_on\<lparr>cpu := CPU_reset\<lparr>mem := reset_mem(0x2000 := 0x80, 0xfffa := 0x00, 0xfffb := 0x90),
                                   irqRequested := True, irqType := Some IRQ_NMI\<rparr>\<rparr>))) = 0x9000 - 1 \<and>
   REG_SP (cpu (interrupt_gate (Mapper idle)
      (power_on\<lparr>cpu := CPU_reset\<lparr>mem := reset_mem(0x2000 := 0x80, 0xfffa := 0x00, 0xfffb := 0x90),
                                   irqRequested := True, irqType := Some IRQ_NMI\<rparr>\<rparr>))) = 0xfc \<and>
   interrupt_gate (Mapper idle)
      (power_on\<lparr>cpu := CPU_reset\<lparr>irqRequested := True, irqType := Some IRQ_NMI\<rparr>\<rparr>) =
   power_on\<lparr>cpu := CPU_reset\<lparr>irqRequested := False, irqType := Some IRQ_NMI\<rparr>\<rparr>"
proof -
  have r: "\<And>a b s. irqRequested (cpu s) \<and> irqType (cpu s) = Some IRQ_NMI \<Longrightarrow>
                irqRequested (cpu (renderFramePartially idle a b s)) \<and>
                irqType (cpu (renderFramePartially idle a b s)) = Some IRQ_NMI"
    by (simp add: idle_def)
  have e: "\<And>s. irqRequested (cpu s) \<and> irqType (cpu s) = Some IRQ_NMI \<Longrightarrow>
                irqRequested (cpu (endFrame idle s)) \<and> irqType (cpu (endFrame idle s)) = Some IRQ_NMI"
    by (simp add: idle_def)
  have ld: "m_load (Mapper idle) = Mapper_load idle" by (simp add: Mapper_def)
  have wr: "\<And>a v s. a < 0x8000 \<Longrightarrow> m_write (Mapper idle) a v s = Mapper_write idle a v s"
    by (simp add: Mapper_def)
  let ?A = "power_on\<lparr>cpu := CPU_reset\<lparr>mem := reset_mem(0x2000 := 0x80, 0xfffa := 0x00, 0xfffb := 0x90),
                                   irqRequested := True, irqType := Some IRQ_NMI\<rparr>\<rparr>"
  let ?B = "power_on\<lparr>cpu := CPU_reset\<lparr>irqRequested := True, irqType := Some IRQ_NMI\<rparr>\<rparr>"
  have a: "0 \<le> REG_SP (cpu ?A)" "REG_SP (cpu ?A) \<le> 0xff" "irqRequested (cpu ?A)"
    "irqType (cpu ?A) = Some IRQ_NMI"
    by (simp_all add: CPU_reset_def)
  have b: "0 \<le> REG_SP (cpu ?B)" "REG_SP (cpu ?B) \<le> 0xff" "irqRequested (cpu ?B)"
    "irqType (cpu ?B) = Some IRQ_NMI"
    by (simp_all add: CPU_reset_def)
  show ?thesis
    using vblank_nmi_gate[OF r e ld wr a, of power_on] vblank_nmi_gate[OF r e ld wr b, of power_on]
    by (simp add: power_on_def CPU_reset_def reset_mem_def)
qed

text \<open>
  C10 as stated fails where \<open>F_BRK\<close> and \<open>F_BRK_NEW\<close> differ, as they do after a PLP that
  pulled a byte with bit 4 clear.  With NMI-on-VBlank off, an NMI pending and NOP as the
  next instruction, the B flag goes from 0 to 1.
\<close>

theorem dropped_nmi_changes_B_counterexample:
  "F_BRK (cpu (power_on\<lparr>cpu := CPU_reset\<lparr>mem := reset_mem(0x8000 := 0xEA), F_BRK := 0,
                 irqRequested := True, irqType := Some IRQ_NMI\<rparr>\<rparr>)) = 0 \<and>
   mem (cpu (power_on\<lparr>cpu := CPU_reset\<lparr>mem := reset_mem(0x8000 := 0xEA), F_BRK := 0,
                 irqRequested := True, irqType := Some IRQ_NMI\<rparr>\<rparr>)) 0x2000 AND 128 = 0 \<and>
   emulate (Some (Mapper idle))
     (power_on\<lparr>cpu := CPU_reset\<lparr>mem := reset_mem(0x8000 := 0xEA), F_BRK := 0,
                 irqRequested := True, irqType := Some IRQ_NMI\<rparr>\<rparr>) =
   Inr (2, power_on\<lparr>cpu := CPU_reset\<lparr>mem := reset_mem(0x8000 := 0xEA), F_BRK := 1,
                 irqRequested := False, irqType := Some IRQ_NMI, REG_PC := 0x8000\<rparr>\<rparr>)"
  by (simp add: cpu_eval OPDATA_NOP interrupt_gate_def doNonMaskableInterrupt_def regLoad_def)


section \<open>MMC1: writes on consecutive cycles\<close>

text \<open>The cycle test of \<open>Mapper1.write\<close> never succeeds.\<close>

lemma currentCycle_zero: "currentCycle s = 0"
  by (simp add: currentCycle_def cpu_cycles_def)

lemma Mapper1_never_ignores:
  "\<not> (currentCycle s > 0 \<and> currentCycle s - lastWriteCycle (mmc1 s) \<le> 1)"
  by (simp add: currentCycle_zero)



section \<open>The renderer and the mapper number\<close>

text \<open>Drawing a tile row changes the pixel buffers only.\<close>

lemma frame_trans:
  assumes "q = p\<lparr>buffer := b1, bgbuffer := g1, pixrendered := r1\<rparr>"
    and "r = q\<lparr>buffer := b, bgbuffer := g, pixrendered := r0\<rparr>"
  shows "r = p\<lparr>buffer := b, bgbuffer := g, pixrendered := r0\<rparr>"
  unfolding assms by simp

lemma put_pixel_frame:
  "put_pixel bgb d v p =
     p\<lparr>buffer := buffer (put_pixel bgb d v p), bgbuffer := bgbuffer (put_pixel bgb d v p),
       pixrendered := pixrendered (put_pixel bgb d v p)\<rparr>"
  by (simp add: put_pixel_def Let_def)

lemma draw_pixels_frame:
  "snd (draw_pixels t opq tso att bgb sxs d p) =
     p\<lparr>buffer := buffer (snd (draw_pixels t opq tso att bgb sxs d p)),
       bgbuffer := bgbuffer (snd (draw_pixels t opq tso att bgb sxs d p)),
       pixrendered := pixrendered (snd (draw_pixels t opq tso att bgb sxs d p))\<rparr>"
proof (induction sxs arbitrary: d p)
  case Nil
  show ?case by simp
next
  case (Cons sx sxs)
  define p1 where "p1 = (if opq then put_pixel bgb d (palette_at p (tpix t (tso + sx)) att) p
             else if tpix t (tso + sx) \<noteq> Some 0
                  then put_pixel bgb d (palette_at p (tpix t (tso + sx)) att) p else p)"
  have a: "p1 = p\<lparr>buffer := buffer p1, bgbuffer := bgbuffer p1, pixrendered := pixrendered p1\<rparr>"
  proof (cases "opq \<or> tpix t (tso + sx) \<noteq> Some 0")
    case True
    then have "p1 = put_pixel bgb d (palette_at p (tpix t (tso + sx)) att) p"
      by (auto simp: p1_def)
    then show ?thesis using put_pixel_frame by simp
  next
    case False
    then have "p1 = p" by (auto simp: p1_def)
    then show ?thesis by simp
  qed
  have s: "draw_pixels t opq tso att bgb (sx # sxs) d p =
             draw_pixels t opq tso att bgb sxs (d + 1) p1"
    by (simp add: Let_def p1_def)
  define q where "q = snd (draw_pixels t opq tso att bgb sxs (d + 1) p1)"
  have b: "q = p1\<lparr>buffer := buffer q, bgbuffer := bgbuffer q, pixrendered := pixrendered q\<rparr>"
    unfolding q_def by (rule Cons.IH)
  have "q = p\<lparr>buffer := buffer q, bgbuffer := bgbuffer q, pixrendered := pixrendered q\<rparr>"
    by (rule frame_trans[OF a b])
  then show ?case unfolding s q_def .
qed

lemma render_tile_frame:
  "snd (render_tile bgb tso tno t att d p) =
     p\<lparr>buffer := buffer (snd (render_tile bgb tso tno t att d p)),
       bgbuffer := bgbuffer (snd (render_tile bgb tso tno t att d p)),
       pixrendered := pixrendered (snd (render_tile bgb tso tno t att d p))\<rparr>"
proof (cases "push_bit 3 tno - regFH p > -8")
  case True
  then have "render_tile bgb tso tno t att d p =
     draw_pixels t (opaque_at t (cntFV p)) tso att bgb
       (map int [nat (if push_bit 3 tno - regFH p < 0 then - (push_bit 3 tno - regFH p) else 0)..<8])
       (if push_bit 3 tno - regFH p < 0 then d - (push_bit 3 tno - regFH p) else d) p"
    by (simp add: render_tile_def Let_def)
  then show ?thesis using draw_pixels_frame by simp
next
  case False
  then have "render_tile bgb tso tno t att d p = (d, p)"
    by (simp add: render_tile_def Let_def)
  then show ?thesis by simp
qed

text \<open>Without CHR banks a latch change switches no tiles.\<close>

lemma safeSwitchBank_no_chr:
  "nes_rom s = Some r \<Longrightarrow> vromCount r = Some 0 \<Longrightarrow> safeSwitchBank b a s = s"
  by (simp add: safeSwitchBank_def split: option.split)

lemma Mapper10_latchAccess_0: "Mapper10_latchAccess 0 s = s"
  by (simp add: Mapper10_latchAccess_def latch_half_def Let_def)

lemma Mapper10_latchAccess_FE:
  "nes_rom s = Some r \<Longrightarrow> vromCount r = Some 0 \<Longrightarrow> latchLo (mmc2 s) = 0 \<Longrightarrow>
   Mapper10_latchAccess (push_bit 4 0xFE) s = s\<lparr>mmc2 := (mmc2 s)\<lparr>latchLo := 1\<rparr>\<rparr>"
  by (simp add: Mapper10_latchAccess_def latch_half_def Let_def safeSwitchBank_no_chr)

text \<open>
  One pass of the tile loop on an invalid cache: the tile is fetched and cached, the mapper's
  latch is told, the row is drawn into the pixel buffers and the tile counter moves on.
\<close>

lemma bg_tile_one:
  assumes nv: "\<not> validTileData (ppu s)"
    and cn: "cur_nameTable (ppu s) = Some nt"
    and ix: "nt_tile nt (cntVT (ppu s) * 32 + cntHT (ppu s)) = Some idx"
    and pt: "ptTile (ppu s) idx = Some t"
    and la: "Mapper10_latchAccess (push_bit 4 idx) s = s\<lparr>mmc2 := m'\<rparr>"
  shows "\<exists>d' s'. bg_tile (Some (Mapper10 D)) bgb 0 0 tso tno d s = Inr (d', s') \<and>
     mmc2 s' = m' \<and> nes_rom s' = nes_rom s \<and>
     \<not> validTileData (ppu s') \<and> ptTile (ppu s') = ptTile (ppu s) \<and>
     nameTable (ppu s') = nameTable (ppu s) \<and> ntable1 (ppu s') = ntable1 (ppu s) \<and>
     cntV (ppu s') = cntV (ppu s) \<and> cntVT (ppu s') = cntVT (ppu s) \<and>
     cntFV (ppu s') = cntFV (ppu s) \<and>
     cntHT (ppu s') = (if cntHT (ppu s) + 1 = 32 then 0 else cntHT (ppu s) + 1) \<and>
     cntH (ppu s') = (if cntHT (ppu s) + 1 = 32 then jsrem (cntH (ppu s) + 1) 2 else cntH (ppu s)) \<and>
     curNt (ppu s') =
       (if cntHT (ppu s) + 1 = 32
        then ntable1 (ppu s) (push_bit 1 (cntV (ppu s)) + jsrem (cntH (ppu s) + 1) 2)
        else curNt (ppu s)) \<and>
     scantile (ppu s') = (scantile (ppu s))(tno := Some t)"
proof -
  define att where "att = nt_attrib nt (cntVT (ppu s) * 32 + cntHT (ppu s))"
  define p1 where "p1 = (ppu s)\<lparr>scantile := (scantile (ppu s))(tno := Some t),
                                 attrib := (attrib (ppu s))(tno := att)\<rparr>"
  define q where "q = snd (render_tile bgb tso tno t att d p1)"
  define B where "B = buffer q"
  define G where "G = bgbuffer q"
  define R where "R = pixrendered q"
  have f: "fetch_tile (Some (Mapper10 D)) 0 tno s = Inr (Some (t, att), s\<lparr>mmc2 := m', ppu := p1\<rparr>)"
    using nv cn ix pt la
    by (simp add: fetch_tile_def getTileIndex_def getAttrib_def Mapper10_def Mapper_def Let_def
        att_def p1_def)
  have b: "bg_tile (Some (Mapper10 D)) bgb 0 0 tso tno d s =
             Inr (fst (render_tile bgb tso tno t att d p1), s\<lparr>mmc2 := m', ppu := inc_tile_counter q\<rparr>)"
    by (simp add: bg_tile_def f split_beta q_def)
  have "q = p1\<lparr>buffer := B, bgbuffer := G, pixrendered := R\<rparr>"
    unfolding q_def B_def G_def R_def by (rule render_tile_frame)
  then have qe: "q = (ppu s)\<lparr>scantile := (scantile (ppu s))(tno := Some t),
                     attrib := (attrib (ppu s))(tno := att),
                     buffer := B, bgbuffer := G, pixrendered := R\<rparr>"
    by (simp add: p1_def)
  show ?thesis
    unfolding b
    by (intro exI[of _ "fst (render_tile bgb tso tno t att d p1)"]
          exI[of _ "s\<lparr>mmc2 := m', ppu := inc_tile_counter q\<rparr>"])
       (simp add: qe inc_tile_counter_def Let_def nv)
qed


text \<open>
  A run of the tile loop along the top row of a name table 0 of tiles 0, up to the end of
  the name table: no latch moves, and every tile of the run is cached.
\<close>

lemma blank_run:
  assumes "\<not> validTileData (ppu s)" and "ptTile (ppu s) 0 = Some t0"
    and "curNt (ppu s) = Some 0" and "nameTable (ppu s) 0 = Some nt0"
    and "\<forall>k. 0 \<le> k \<and> k < 32 \<longrightarrow> nt_tile nt0 k = Some 0"
    and "cntVT (ppu s) = 0" and "cntH (ppu s) = 0"
    and "0 \<le> cntHT (ppu s)" and "cntHT (ppu s) < 32" and "cntHT (ppu s) + int n \<le> 32"
  shows "\<exists>d' s'. bg_tiles (Some (Mapper10 D)) bgb 0 0 tso n tno d s = Inr (d', s') \<and>
         mmc2 s' = mmc2 s \<and> nes_rom s' = nes_rom s \<and>
         \<not> validTileData (ppu s') \<and> ptTile (ppu s') = ptTile (ppu s) \<and>
         nameTable (ppu s') = nameTable (ppu s) \<and> ntable1 (ppu s') = ntable1 (ppu s) \<and>
         cntV (ppu s') = cntV (ppu s) \<and> cntVT (ppu s') = cntVT (ppu s) \<and>
         cntFV (ppu s') = cntFV (ppu s) \<and>
         cntHT (ppu s') = (if cntHT (ppu s) + int n = 32 then 0 else cntHT (ppu s) + int n) \<and>
         cntH (ppu s') = (if cntHT (ppu s) + int n = 32 then 1 else 0) \<and>
         curNt (ppu s') =
           (if cntHT (ppu s) + int n = 32 then ntable1 (ppu s) (push_bit 1 (cntV (ppu s)) + 1)
            else Some 0) \<and>
         (\<forall>k. scantile (ppu s') k =
                (if tno \<le> k \<and> k < tno + int n then Some t0 else scantile (ppu s) k))"
  using assms
proof (induction n arbitrary: s tno d)
  case 0
  then show ?case by auto
next
  case (Suc n)
  have cn: "cur_nameTable (ppu s) = Some nt0"
    using Suc.prems by (simp add: cur_nameTable_def)
  have ix: "nt_tile nt0 (cntVT (ppu s) * 32 + cntHT (ppu s)) = Some 0"
    using Suc.prems by simp
  have la: "Mapper10_latchAccess (push_bit 4 0) s = s\<lparr>mmc2 := mmc2 s\<rparr>"
    by (simp add: Mapper10_latchAccess_0)
  obtain d1 s1 where s1:
    "bg_tile (Some (Mapper10 D)) bgb 0 0 tso tno d s = Inr (d1, s1)"
    "mmc2 s1 = mmc2 s" "nes_rom s1 = nes_rom s"
    "\<not> validTileData (ppu s1)" "ptTile (ppu s1) = ptTile (ppu s)"
    "nameTable (ppu s1) = nameTable (ppu s)" "ntable1 (ppu s1) = ntable1 (ppu s)"
    "cntV (ppu s1) = cntV (ppu s)" "cntVT (ppu s1) = cntVT (ppu s)"
    "cntFV (ppu s1) = cntFV (ppu s)"
    "cntHT (ppu s1) = (if cntHT (ppu s) + 1 = 32 then 0 else cntHT (ppu s) + 1)"
    "cntH (ppu s1) = (if cntHT (ppu s) + 1 = 32 then jsrem (cntH (ppu s) + 1) 2 else cntH (ppu s))"
    "curNt (ppu s1) =
       (if cntHT (ppu s) + 1 = 32
        then ntable1 (ppu s) (push_bit 1 (cntV (ppu s)) + jsrem (cntH (ppu s) + 1) 2)
        else curNt (ppu s))"
    "scantile (ppu s1) = (scantile (ppu s))(tno := Some t0)"
    using bg_tile_one[OF Suc.prems(1) cn ix Suc.prems(2) la, of D bgb tso tno d] by blast
  have r: "bg_tiles (Some (Mapper10 D)) bgb 0 0 tso (Suc n) tno d s =
           bg_tiles (Some (Mapper10 D)) bgb 0 0 tso n (tno + 1) d1 s1"
    by (simp add: s1(1))
  show ?case
  proof (cases "cntHT (ppu s) + 1 = 32")
    case True
    then have n: "n = 0" using Suc.prems(10) by simp
    have "bg_tiles (Some (Mapper10 D)) bgb 0 0 tso (Suc n) tno d s = Inr (d1, s1)"
      unfolding r by (simp add: n)
    moreover have "mmc2 s1 = mmc2 s \<and> nes_rom s1 = nes_rom s \<and>
         \<not> validTileData (ppu s1) \<and> ptTile (ppu s1) = ptTile (ppu s) \<and>
         nameTable (ppu s1) = nameTable (ppu s) \<and> ntable1 (ppu s1) = ntable1 (ppu s) \<and>
         cntV (ppu s1) = cntV (ppu s) \<and> cntVT (ppu s1) = cntVT (ppu s) \<and>
         cntFV (ppu s1) = cntFV (ppu s) \<and>
         cntHT (ppu s1) = (if cntHT (ppu s) + int (Suc n) = 32 then 0 else cntHT (ppu s) + int (Suc n)) \<and>
         cntH (ppu s1) = (if cntHT (ppu s) + int (Suc n) = 32 then 1 else 0) \<and>
         curNt (ppu s1) =
           (if cntHT (ppu s) + int (Suc n) = 32 then ntable1 (ppu s) (push_bit 1 (cntV (ppu s)) + 1)
            else Some 0) \<and>
         (\<forall>k. scantile (ppu s1) k =
                (if tno \<le> k \<and> k < tno + int (Suc n) then Some t0 else scantile (ppu s) k))"
      using s1(2-14) True n Suc.prems(7) by (auto simp: jsrem_def)
    ultimately show ?thesis by blast
  next
    case False
    have c: "cntHT (ppu s1) = cntHT (ppu s) + 1" using s1(11) False by simp
    obtain d' s' where s':
      "bg_tiles (Some (Mapper10 D)) bgb 0 0 tso n (tno + 1) d1 s1 = Inr (d', s')"
      "mmc2 s' = mmc2 s1" "nes_rom s' = nes_rom s1"
      "\<not> validTileData (ppu s')" "ptTile (ppu s') = ptTile (ppu s1)"
      "nameTable (ppu s') = nameTable (ppu s1)" "ntable1 (ppu s') = ntable1 (ppu s1)"
      "cntV (ppu s') = cntV (ppu s1)" "cntVT (ppu s') = cntVT (ppu s1)"
      "cntFV (ppu s') = cntFV (ppu s1)"
      "cntHT (ppu s') = (if cntHT (ppu s1) + int n = 32 then 0 else cntHT (ppu s1) + int n)"
      "cntH (ppu s') = (if cntHT (ppu s1) + int n = 32 then 1 else 0)"
      "curNt (ppu s') =
           (if cntHT (ppu s1) + int n = 32 then ntable1 (ppu s1) (push_bit 1 (cntV (ppu s1)) + 1)
            else Some 0)"
      "\<forall>k. scantile (ppu s') k =
                (if tno + 1 \<le> k \<and> k < tno + 1 + int n then Some t0 else scantile (ppu s1) k)"
    proof -
      have "\<exists>d' s'. bg_tiles (Some (Mapper10 D)) bgb 0 0 tso n (tno + 1) d1 s1 = Inr (d', s') \<and>
         mmc2 s' = mmc2 s1 \<and> nes_rom s' = nes_rom s1 \<and>
         \<not> validTileData (ppu s') \<and> ptTile (ppu s') = ptTile (ppu s1) \<and>
         nameTable (ppu s') = nameTable (ppu s1) \<and> ntable1 (ppu s') = ntable1 (ppu s1) \<and>
         cntV (ppu s') = cntV (ppu s1) \<and> cntVT (ppu s') = cntVT (ppu s1) \<and>
         cntFV (ppu s') = cntFV (ppu s1) \<and>
         cntHT (ppu s') = (if cntHT (ppu s1) + int n = 32 then 0 else cntHT (ppu s1) + int n) \<and>
         cntH (ppu s') = (if cntHT (ppu s1) + int n = 32 then 1 else 0) \<and>
         curNt (ppu s') =
           (if cntHT (ppu s1) + int n = 32 then ntable1 (ppu s1) (push_bit 1 (cntV (ppu s1)) + 1)
            else Some 0) \<and>
         (\<forall>k. scantile (ppu s') k =
                (if tno + 1 \<le> k \<and> k < tno + 1 + int n then Some t0 else scantile (ppu s1) k))"
      proof (rule Suc.IH)
        show "\<not> validTileData (ppu s1)" by (rule s1)
        show "ptTile (ppu s1) 0 = Some t0" using s1(5) Suc.prems(2) by simp
        show "curNt (ppu s1) = Some 0" using s1(13) False Suc.prems(3) by simp
        show "nameTable (ppu s1) 0 = Some nt0" using s1(6) Suc.prems(4) by simp
        show "\<forall>k. 0 \<le> k \<and> k < 32 \<longrightarrow> nt_tile nt0 k = Some 0" by (rule Suc.prems(5))
        show "cntVT (ppu s1) = 0" using s1(9) Suc.prems(6) by simp
        show "cntH (ppu s1) = 0" using s1(12) False Suc.prems(7) by simp
        show "0 \<le> cntHT (ppu s1)" using c Suc.prems(8) by simp
        show "cntHT (ppu s1) < 32" using c False Suc.prems(9) by simp
        show "cntHT (ppu s1) + int n \<le> 32" using c Suc.prems(10) by simp
      qed
      then show ?thesis using that by blast
    qed
    have "bg_tiles (Some (Mapper10 D)) bgb 0 0 tso (Suc n) tno d s = Inr (d', s')"
      unfolding r by (rule s'(1))
    moreover have "mmc2 s' = mmc2 s \<and> nes_rom s' = nes_rom s \<and>
         \<not> validTileData (ppu s') \<and> ptTile (ppu s') = ptTile (ppu s) \<and>
         nameTable (ppu s') = nameTable (ppu s) \<and> ntable1 (ppu s') = ntable1 (ppu s) \<and>
         cntV (ppu s') = cntV (ppu s) \<and> cntVT (ppu s') = cntVT (ppu s) \<and>
         cntFV (ppu s') = cntFV (ppu s) \<and>
         cntHT (ppu s') = (if cntHT (ppu s) + int (Suc n) = 32 then 0 else cntHT (ppu s) + int (Suc n)) \<and>
         cntH (ppu s') = (if cntHT (ppu s) + int (Suc n) = 32 then 1 else 0) \<and>
         curNt (ppu s') =
           (if cntHT (ppu s) + int (Suc n) = 32 then ntable1 (ppu s) (push_bit 1 (cntV (ppu s)) + 1)
            else Some 0) \<and>
         (\<forall>k. scantile (ppu s') k =
                (if tno \<le> k \<and> k < tno + int (Suc n) then Some t0 else scantile (ppu s) k))"
      using s'(2-14) s1(2-10,14) c by (auto simp: add.commute add.left_commute)
    ultimately show ?thesis by blast
  qed
qed


lemma bg_tiles_add:
  "bg_tiles mm bgb scan bt tso m tno d s = Inr (d1, s1) \<Longrightarrow>
   bg_tiles mm bgb scan bt tso (m + n) tno d s = bg_tiles mm bgb scan bt tso n (tno + int m) d1 s1"
proof (induction m arbitrary: tno d s)
  case 0
  then show ?case by simp
next
  case (Suc m)
  obtain d2 s2 where a: "bg_tile mm bgb scan bt tso tno d s = Inr (d2, s2)"
    using Suc.prems by (auto split: sum.splits)
  then have "bg_tiles mm bgb scan bt tso m (tno + 1) d2 s2 = Inr (d1, s1)"
    using Suc.prems by simp
  then have "bg_tiles mm bgb scan bt tso (m + n) (tno + 1) d2 s2 =
             bg_tiles mm bgb scan bt tso n (tno + 1 + int m) d1 s1"
    by (rule Suc.IH)
  moreover have "tno + 1 + int m = tno + int (Suc m)" by simp
  ultimately show ?case by (simp add: a)
qed

lemma cartridge_fields:
  "mapperType (cartridge n) = Some n" "vromCount (cartridge n) = Some 0"
  by (simp_all add: cartridge_def)

lemma update_vertical_scroll_scantile: "scantile (update_vertical_scroll p) = scantile p"
  by (simp add: update_vertical_scroll_def Let_def)

text \<open>The scanline on \<open>latch_row\<close>: the tile loop runs from the start of the row.\<close>

lemma renderBgScanline_latch_row:
  "renderBgScanline (Some (Mapper10 D)) bgb 0 (latch_row s pt n) =
     (case bg_tiles (Some (Mapper10 D)) bgb 0 0 0 (if n = 9 then 34 else 32) 0 (- regFH (ppu s))
             ((latch_row s pt n)\<lparr>ppu := (ppu (latch_row s pt n))\<lparr>cntHT := 0, cntH := 0,
                  curNt := Some 0\<rparr>\<rparr>) of
        Inl e \<Rightarrow> Inl e
      | Inr (d, s') \<Rightarrow>
          Inr (s'\<lparr>ppu := update_vertical_scroll ((ppu s')\<lparr>validTileData := True\<rparr>)\<rparr>))"
proof -
  have a: "bg_tileCount (latch_row s pt n) = (if n = 9 then 34 else 32)"
    by (simp add: bg_tileCount_def isMMC2_def latch_row_def cartridge_fields)
  have b: "notifyA12 (Mapper10 D) = None" by (simp add: Mapper10_def Mapper_def)
  have c: "regS (ppu (latch_row s pt n)) = 0" "regFH (ppu (latch_row s pt n)) = regFH (ppu s)"
    "regHT (ppu (latch_row s pt n)) = 0" "regH (ppu (latch_row s pt n)) = 0"
    "cntV (ppu (latch_row s pt n)) = 0" "cntFV (ppu (latch_row s pt n)) = 0"
    "ntable1 (ppu (latch_row s pt n)) 0 = Some 0"
    by (simp_all add: latch_row_def)
  show ?thesis
    unfolding renderBgScanline_def a
    by (simp add: b c Let_def)
qed

text \<open>The first 32 passes on \<open>latch_row\<close>, and the two further ones: the latch tile, then a tile 0.\<close>

lemma latch_row_32:
  assumes s0: "s0 = (latch_row s pt n)\<lparr>ppu := (ppu (latch_row s pt n))\<lparr>cntHT := 0, cntH := 0,
                       curNt := Some 0\<rparr>\<rparr>"
  shows "\<exists>d' s'. bg_tiles (Some (Mapper10 D)) bgb 0 0 0 32 0 d s0 = Inr (d', s') \<and>
     mmc2 s' = MMC2_reset \<and> nes_rom s' = Some (cartridge n) \<and>
     \<not> validTileData (ppu s') \<and> ptTile (ppu s') = ptTile (ppu s0) \<and>
     nameTable (ppu s') = nameTable (ppu s0) \<and>
     cntVT (ppu s') = 0 \<and> cntHT (ppu s') = 0 \<and> curNt (ppu s') = Some 1 \<and>
     (\<forall>k. scantile (ppu s') k = (if 0 \<le> k \<and> k < 32 then Some (pt 0) else scantile (ppu s) k))"
proof -
  have z: "cntHT (ppu s0) = 0" "cntV (ppu s0) = 0" "cntVT (ppu s0) = 0"
    "ntable1 (ppu s0) 1 = Some 1" "mmc2 s0 = MMC2_reset" "nes_rom s0 = Some (cartridge n)"
    "scantile (ppu s0) = scantile (ppu s)"
    by (simp_all add: s0 latch_row_def)
  have "\<exists>d' s'. bg_tiles (Some (Mapper10 D)) bgb 0 0 0 32 0 d s0 = Inr (d', s') \<and>
         mmc2 s' = mmc2 s0 \<and> nes_rom s' = nes_rom s0 \<and>
         \<not> validTileData (ppu s') \<and> ptTile (ppu s') = ptTile (ppu s0) \<and>
         nameTable (ppu s') = nameTable (ppu s0) \<and> ntable1 (ppu s') = ntable1 (ppu s0) \<and>
         cntV (ppu s') = cntV (ppu s0) \<and> cntVT (ppu s') = cntVT (ppu s0) \<and>
         cntFV (ppu s') = cntFV (ppu s0) \<and>
         cntHT (ppu s') = (if cntHT (ppu s0) + int 32 = 32 then 0 else cntHT (ppu s0) + int 32) \<and>
         cntH (ppu s') = (if cntHT (ppu s0) + int 32 = 32 then 1 else 0) \<and>
         curNt (ppu s') =
           (if cntHT (ppu s0) + int 32 = 32 then ntable1 (ppu s0) (push_bit 1 (cntV (ppu s0)) + 1)
            else Some 0) \<and>
         (\<forall>k. scantile (ppu s') k =
                (if 0 \<le> k \<and> k < 0 + int 32 then Some (pt 0) else scantile (ppu s0) k))"
  proof (rule blank_run)
    show "\<not> validTileData (ppu s0)" by (simp add: s0 latch_row_def)
    show "ptTile (ppu s0) 0 = Some (pt 0)" by (simp add: s0 latch_row_def)
    show "curNt (ppu s0) = Some 0" by (simp add: s0)
    show "nameTable (ppu s0) 0 = Some new_NameTable" by (simp add: s0 latch_row_def)
    show "\<forall>k. 0 \<le> k \<and> k < 32 \<longrightarrow> nt_tile new_NameTable k = Some 0"
      by (simp add: new_NameTable_def)
    show "cntVT (ppu s0) = 0" by (simp add: s0 latch_row_def)
    show "cntH (ppu s0) = 0" by (simp add: s0)
    show "0 \<le> cntHT (ppu s0)" by (simp add: s0)
    show "cntHT (ppu s0) < 32" by (simp add: s0)
    show "cntHT (ppu s0) + int 32 \<le> 32" by (simp add: s0)
  qed
  then show ?thesis using z by auto
qed

lemma latch_row_34:
  assumes s0: "s0 = (latch_row s pt n)\<lparr>ppu := (ppu (latch_row s pt n))\<lparr>cntHT := 0, cntH := 0,
                       curNt := Some 0\<rparr>\<rparr>"
  shows "\<exists>d' s'. bg_tiles (Some (Mapper10 D)) bgb 0 0 0 34 0 d s0 = Inr (d', s') \<and>
     mmc2 s' = MMC2_reset\<lparr>latchLo := 1\<rparr> \<and>
     scantile (ppu s') 32 = Some (pt 0xFE) \<and> scantile (ppu s') 33 = Some (pt 0)"
proof -
  obtain d32 s32 where a:
    "bg_tiles (Some (Mapper10 D)) bgb 0 0 0 32 0 d s0 = Inr (d32, s32)"
    "mmc2 s32 = MMC2_reset" "nes_rom s32 = Some (cartridge n)"
    "\<not> validTileData (ppu s32)" "ptTile (ppu s32) = ptTile (ppu s0)"
    "nameTable (ppu s32) = nameTable (ppu s0)"
    "cntVT (ppu s32) = 0" "cntHT (ppu s32) = 0" "curNt (ppu s32) = Some 1"
    using latch_row_32[OF s0, of D bgb d] by blast
  define nt1 where "nt1 = new_NameTable\<lparr>nt_tile := (nt_tile new_NameTable)(0 := Some 0xFE)\<rparr>"
  have n1: "nameTable (ppu s0) 1 = Some nt1" by (simp add: s0 latch_row_def nt1_def)
  have p0: "ptTile (ppu s0) 0xFE = Some (pt 0xFE)" "ptTile (ppu s0) 0 = Some (pt 0)"
    by (simp_all add: s0 latch_row_def)
  have cn32: "cur_nameTable (ppu s32) = Some nt1"
    by (simp add: cur_nameTable_def a n1)
  have ix32: "nt_tile nt1 (cntVT (ppu s32) * 32 + cntHT (ppu s32)) = Some 0xFE"
    by (simp add: a nt1_def)
  have pt32: "ptTile (ppu s32) 0xFE = Some (pt 0xFE)" by (simp add: a p0)
  have la32: "Mapper10_latchAccess (push_bit 4 0xFE) s32 = s32\<lparr>mmc2 := (mmc2 s32)\<lparr>latchLo := 1\<rparr>\<rparr>"
    by (rule Mapper10_latchAccess_FE[OF a(3)]) (simp_all add: cartridge_fields a MMC2_reset_def)
  obtain d33 s33 where b:
    "bg_tile (Some (Mapper10 D)) bgb 0 0 0 32 d32 s32 = Inr (d33, s33)"
    "mmc2 s33 = (mmc2 s32)\<lparr>latchLo := 1\<rparr>"
    "\<not> validTileData (ppu s33)" "ptTile (ppu s33) = ptTile (ppu s32)"
    "nameTable (ppu s33) = nameTable (ppu s32)"
    "cntVT (ppu s33) = cntVT (ppu s32)"
    "cntHT (ppu s33) = (if cntHT (ppu s32) + 1 = 32 then 0 else cntHT (ppu s32) + 1)"
    "curNt (ppu s33) =
       (if cntHT (ppu s32) + 1 = 32
        then ntable1 (ppu s32) (push_bit 1 (cntV (ppu s32)) + jsrem (cntH (ppu s32) + 1) 2)
        else curNt (ppu s32))"
    "scantile (ppu s33) = (scantile (ppu s32))(32 := Some (pt 0xFE))"
    using bg_tile_one[OF a(4) cn32 ix32 pt32 la32, of D bgb 0 32 d32] by blast
  have c: "cntHT (ppu s33) = 1" "curNt (ppu s33) = Some 1" "cntVT (ppu s33) = 0"
    using b a by simp_all
  have cn33: "cur_nameTable (ppu s33) = Some nt1"
    by (simp add: cur_nameTable_def c b a n1)
  have ix33: "nt_tile nt1 (cntVT (ppu s33) * 32 + cntHT (ppu s33)) = Some 0"
    by (simp add: c nt1_def new_NameTable_def)
  have pt33: "ptTile (ppu s33) 0 = Some (pt 0)" by (simp add: b a p0)
  have la33: "Mapper10_latchAccess (push_bit 4 0) s33 = s33\<lparr>mmc2 := mmc2 s33\<rparr>"
    by (simp add: Mapper10_latchAccess_0)
  obtain d34 s34 where f:
    "bg_tile (Some (Mapper10 D)) bgb 0 0 0 33 d33 s33 = Inr (d34, s34)"
    "mmc2 s34 = mmc2 s33"
    "scantile (ppu s34) = (scantile (ppu s33))(33 := Some (pt 0))"
    using bg_tile_one[OF b(3) cn33 ix33 pt33 la33, of D bgb 0 33 d33] by blast
  have "bg_tiles (Some (Mapper10 D)) bgb 0 0 0 (32 + 2) 0 d s0 =
          bg_tiles (Some (Mapper10 D)) bgb 0 0 0 2 (0 + int 32) d32 s32"
    by (rule bg_tiles_add[OF a(1)])
  then have "bg_tiles (Some (Mapper10 D)) bgb 0 0 0 34 0 d s0 = Inr (d34, s34)"
    by (simp add: numeral_2_eq_2 b(1) f(1))
  moreover have "mmc2 s34 = MMC2_reset\<lparr>latchLo := 1\<rparr>" using f(2) b(2) a(2) by simp
  moreover have "scantile (ppu s34) 32 = Some (pt 0xFE)" using f(3) b(9) by simp
  moreover have "scantile (ppu s34) 33 = Some (pt 0)" using f(3) by simp
  ultimately show ?thesis by blast
qed

text \<open>
  C1 at the failing input.  \<open>Mapper10\<close> declares \<open>hasLatch\<close>.  On a row whose 33rd tile is the
  latch tile 0xFE, the scanline of a cartridge with mapper number 10 fetches 32 tiles:
  the latch tile is never fetched, \<open>latchAccess\<close> is not called for it, and the low latch
  stays at 0.  In the state that differs in nothing but the mapper number, 9 for 10, the
  same call with the same mapper object fetches 34 tiles and moves the latch to 1: the
  count is chosen by \<open>rom.mapperType === 9\<close>, not by the flag.
\<close>

theorem tile_fetches_depend_on_mapper_number:
  "hasLatch (Mapper10 D) \<and>
   latch_row s pt 9 = (latch_row s pt 10)\<lparr>nes_rom := Some (cartridge 9)\<rparr> \<and>
   bg_tileCount (latch_row s pt 10) = 32 \<and>
   bg_tileCount (latch_row s pt 9) = 34 \<and>
   (case renderBgScanline (Some (Mapper10 D)) bgb 0 (latch_row s pt 10) of
      Inl e \<Rightarrow> False
    | Inr a \<Rightarrow>
        mmc2 a = MMC2_reset \<and> scantile (ppu a) 32 = scantile (ppu s) 32 \<and>
        scantile (ppu a) 33 = scantile (ppu s) 33) \<and>
   (case renderBgScanline (Some (Mapper10 D)) bgb 0 (latch_row s pt 9) of
      Inl e \<Rightarrow> False
    | Inr b \<Rightarrow>
        mmc2 b = MMC2_reset\<lparr>latchLo := 1\<rparr> \<and> scantile (ppu b) 32 = Some (pt 0xFE) \<and>
        scantile (ppu b) 33 = Some (pt 0))"
proof -
  obtain da a where a:
    "bg_tiles (Some (Mapper10 D)) bgb 0 0 0 32 0 (- regFH (ppu s))
       ((latch_row s pt 10)\<lparr>ppu := (ppu (latch_row s pt 10))\<lparr>cntHT := 0, cntH := 0,
            curNt := Some 0\<rparr>\<rparr>) = Inr (da, a)"
    "mmc2 a = MMC2_reset"
    "\<forall>k. scantile (ppu a) k = (if 0 \<le> k \<and> k < 32 then Some (pt 0) else scantile (ppu s) k)"
    using latch_row_32[OF refl, of D bgb "- regFH (ppu s)" s pt 10] by blast
  obtain db b where b:
    "bg_tiles (Some (Mapper10 D)) bgb 0 0 0 34 0 (- regFH (ppu s))
       ((latch_row s pt 9)\<lparr>ppu := (ppu (latch_row s pt 9))\<lparr>cntHT := 0, cntH := 0,
            curNt := Some 0\<rparr>\<rparr>) = Inr (db, b)"
    "mmc2 b = MMC2_reset\<lparr>latchLo := 1\<rparr>"
    "scantile (ppu b) 32 = Some (pt 0xFE)" "scantile (ppu b) 33 = Some (pt 0)"
    using latch_row_34[OF refl, of D bgb "- regFH (ppu s)" s pt 9] by blast
  have ra: "renderBgScanline (Some (Mapper10 D)) bgb 0 (latch_row s pt 10) =
              Inr (a\<lparr>ppu := update_vertical_scroll ((ppu a)\<lparr>validTileData := True\<rparr>)\<rparr>)"
    by (subst renderBgScanline_latch_row) (simp add: a(1))
  have rb: "renderBgScanline (Some (Mapper10 D)) bgb 0 (latch_row s pt 9) =
              Inr (b\<lparr>ppu := update_vertical_scroll ((ppu b)\<lparr>validTileData := True\<rparr>)\<rparr>)"
    by (subst renderBgScanline_latch_row) (simp add: b(1))
  have 1: "hasLatch (Mapper10 D)" by (simp add: Mapper10_def)
  have 2: "latch_row s pt 9 = (latch_row s pt 10)\<lparr>nes_rom := Some (cartridge 9)\<rparr>"
    by (simp add: latch_row_def)
  have 3: "bg_tileCount (latch_row s pt 10) = 32"
    by (simp add: bg_tileCount_def isMMC2_def latch_row_def cartridge_fields)
  have 4: "bg_tileCount (latch_row s pt 9) = 34"
    by (simp add: bg_tileCount_def isMMC2_def latch_row_def cartridge_fields)
  have 5: "(case renderBgScanline (Some (Mapper10 D)) bgb 0 (latch_row s pt 10) of
      Inl e \<Rightarrow> False
    | Inr a \<Rightarrow>
        mmc2 a = MMC2_reset \<and> scantile (ppu a) 32 = scantile (ppu s) 32 \<and>
        scantile (ppu a) 33 = scantile (ppu s) 33)"
    unfolding ra using a(2,3) by (simp add: update_vertical_scroll_scantile)
  have 6: "(case renderBgScanline (Some (Mapper10 D)) bgb 0 (latch_row s pt 9) of
      Inl e \<Rightarrow> False
    | Inr b \<Rightarrow>
        mmc2 b = MMC2_reset\<lparr>latchLo := 1\<rparr> \<and> scantile (ppu b) 32 = Some (pt 0xFE) \<and>
        scantile (ppu b) 33 = Some (pt 0))"
    unfolding rb using b(2,3,4) by (simp add: update_vertical_scroll_scantile)
  show ?thesis
    using 1 2 3 4 5 6 by (intro conjI)
qed

end
